theory Spec2Isabelle
  imports Complex_Main
begin

section \<open>Data model of the lightbox component\<close>

text \<open>
  The component is the class \<open>ReactImageLightbox\<close> of \<open>react-image-lightbox.tsx\<close>.
  JavaScript numbers are modelled as real numbers: rounding is not modelled, and the
  special values of a division by zero are written out where the code can reach them
  (\<open>getFitSizes\<close>). \<open>setState\<close> is modelled as an immediate update of the state.
\<close>

subsection \<open>Enumerations and constants of \<open>./constant\<close>\<close>

text \<open>
  The module \<open>./constant\<close> is imported by the component: the two enumerations are
  datatypes with the members the code names, the numeric constants are the fields of a
  record that every operation takes as a parameter.
\<close>

datatype Action = NONE | MOVE | SWIPE | PINCH

datatype Source = ANY | MOUSE | TOUCH | POINTER

record Constants =
  MIN_ZOOM_LEVEL :: real
  MAX_ZOOM_LEVEL :: real
  ZOOM_RATIO :: real
  ZOOM_BUTTON_INCREMENT_SIZE :: real
  WHEEL_MOVE_X_THRESHOLD :: real
  WHEEL_MOVE_Y_THRESHOLD :: real
  MIN_SWIPE_DISTANCE :: real

subsection \<open>Pointer samples\<close>

text \<open>The id of a sample is the literal \<open>'mouse'\<close> or a touch or pointer identifier.\<close>

datatype PointerId = MouseId | NumId int

text \<open>
  \<open>interface ParsedEvent\<close>; the source is optional, and \<open>handlePinchStart\<close> drops it
  from the samples it snapshots.
\<close>

record ParsedEvent =
  ev_id :: PointerId
  ev_source :: "Source option"
  ev_x :: real
  ev_y :: real

subsection \<open>Props and React state\<close>

record Props =
  mainSrc :: string
  prevSrc :: "string option"
  nextSrc :: "string option"
  mainSrcThumbnail :: "string option"
  prevSrcThumbnail :: "string option"
  nextSrcThumbnail :: "string option"
  animationDisabled :: bool
  animationOnKeyInput :: bool
  animationDuration :: real
  enableZoom :: bool
  imagePadding :: real

record State =
  isClosing :: bool
  shouldAnimate :: bool
  zoomLevel :: real
  offsetX :: real
  offsetY :: real
  loadErrorStatus :: "string \<rightharpoonup> bool"

subsection \<open>Image cache, rectangle of the lightbox, timers\<close>

record CacheEntry =
  loaded :: bool
  img_width :: real
  img_height :: real

text \<open>The fields of \<open>getBoundingClientRect()\<close> that the code reads.\<close>

record Rect =
  rect_width :: real
  rect_height :: real
  rect_left :: real
  rect_top :: real

text \<open>
  A field that holds a timer id: \<open>undefined\<close> before the first timer and after a reset,
  a number otherwise. (\<open>null\<close> is never assigned; \<open>handleOuterMousewheel\<close> compares with it.)
\<close>

datatype TimeoutRef = Undefined | Null | TimerId nat

text \<open>
  The closures handed to \<open>this.setTimeout\<close>, one constructor per call site:
  \<open>handleWindowResize\<close>, \<open>setPreventInnerClose\<close>, \<open>handleOuterMousewheel\<close> (two),
  \<open>handleMoveEnd\<close> and \<open>requestMove\<close>, \<open>loadImage\<close>, \<open>requestClose\<close>.
\<close>

datatype TimerFunc =
    ForceUpdateFunc
  | PreventInnerCloseFunc
  | ResetScrollFunc
  | WheelActionFunc
  | ShouldAnimateFalseFunc
  | LoadDoneFunc string string
  | CloseLightboxFunc

text \<open>
  Calls that leave the component: the callbacks of the props and \<open>forceUpdate\<close>.
  (\<open>event.preventDefault()\<close> and \<open>event.stopPropagation()\<close> act on the browser's
  event, not on the component, and are left out.)
\<close>

datatype Call =
    OnMovePrevRequest
  | OnMoveNextRequest
  | OnCloseRequest
  | OnImageLoad string string
  | OnImageLoadError string string
  | ForceUpdate

subsection \<open>The component instance\<close>

text \<open>
  The instance fields of the class, then what the browser keeps for it: the rectangle
  of the outer element, the timers that are pending (id, function, delay), the next
  timer id, the images whose load is in flight (role, URL), and the log of the calls
  that left the component.
\<close>

record Lightbox =
  props :: Props
  state :: State
  timeouts :: "nat list"
  currentAction :: Action
  eventsSource :: Source
  pointerList :: "ParsedEvent list"
  preventInnerClose :: bool
  preventInnerCloseTimeout :: TimeoutRef
  keyPressed :: bool
  imageCache :: "string \<rightharpoonup> CacheEntry"
  resizeTimeout :: TimeoutRef
  wheelActionTimeout :: TimeoutRef
  resetScrollTimeout :: TimeoutRef
  scrollX :: real
  scrollY :: real
  moveStartX :: real
  moveStartY :: real
  moveStartOffsetX :: real
  moveStartOffsetY :: real
  swipeStartX :: real
  swipeStartY :: real
  swipeEndX :: real
  swipeEndY :: real
  pinchTouchList :: "ParsedEvent list"
  pinchDistance :: real
  keyCounter :: int
  moveRequested :: bool
  didUnmount :: bool
  lightboxRect :: Rect
  pendingTimers :: "(nat \<times> TimerFunc \<times> real) list"
  nextTimerId :: nat
  pendingLoads :: "(string \<times> string) list"
  calls :: "Call list"

section \<open>Sizes\<close>

subsection \<open>Division as JavaScript computes it\<close>

text \<open>
  A number that a division produced: a division by zero gives an infinity or \<open>NaN\<close>,
  and every comparison with \<open>NaN\<close> is false. (The sign of a zero is not modelled.)
\<close>

datatype JsNumber = Finite real | PosInfinity | NegInfinity | NaN

definition js_div :: "real \<Rightarrow> real \<Rightarrow> JsNumber" where
  "js_div a b =
     (if b \<noteq> 0 then Finite (a / b)
      else if 0 < a then PosInfinity
      else if a < 0 then NegInfinity
      else NaN)"

fun js_gt :: "JsNumber \<Rightarrow> JsNumber \<Rightarrow> bool" where
  "js_gt NaN _ = False"
| "js_gt _ NaN = False"
| "js_gt (Finite a) (Finite b) = (b < a)"
| "js_gt PosInfinity PosInfinity = False"
| "js_gt PosInfinity _ = True"
| "js_gt NegInfinity _ = False"
| "js_gt (Finite a) PosInfinity = False"
| "js_gt (Finite a) NegInfinity = True"

subsection \<open>\<open>getLightboxRect\<close>, \<open>getFitSizes\<close>\<close>

definition getLightboxRect :: "Lightbox \<Rightarrow> Rect" where
  "getLightboxRect s = lightboxRect s"

record FitSizes =
  fit_width :: JsNumber
  fit_height :: JsNumber

definition getFitSizes :: "Lightbox \<Rightarrow> real \<Rightarrow> real \<Rightarrow> bool \<Rightarrow> FitSizes" where
  "getFitSizes s width height stretch =
     (let boxSize = getLightboxRect s;
          maxHeight0 = rect_height boxSize - imagePadding (props s) * 2;
          maxWidth0 = rect_width boxSize - imagePadding (props s) * 2;
          maxHeight = (if \<not> stretch then min maxHeight0 height else maxHeight0);
          maxWidth = (if \<not> stretch then min maxWidth0 width else maxWidth0);
          maxRatio = js_div maxWidth maxHeight;
          srcRatio = js_div width height
      in if js_gt maxRatio srcRatio
         then \<lparr>fit_width = js_div (width * maxHeight) height, fit_height = Finite maxHeight\<rparr>
         else \<lparr>fit_width = Finite maxWidth, fit_height = js_div (height * maxWidth) width\<rparr>)"

text \<open>
  The width-to-height ratio of a fitted size is the ratio \<open>w / h\<close>: both sides are
  numbers, the height is not zero, and the quotient is \<open>w / h\<close>.
\<close>

definition has_ratio :: "FitSizes \<Rightarrow> real \<Rightarrow> real \<Rightarrow> bool" where
  "has_ratio r w h =
     (case fit_width r of
        Finite fw \<Rightarrow>
          (case fit_height r of
             Finite fh \<Rightarrow> fh \<noteq> 0 \<and> fw / fh = w / h
           | _ \<Rightarrow> False)
      | _ \<Rightarrow> False)"

section \<open>Timers\<close>

text \<open>
  \<open>setState\<close> merges an update into the React state. The wrapper \<open>this.setTimeout\<close>
  asks the browser for a timer (the browser hands out fresh ids, counting from 1),
  records the id in \<open>timeouts\<close> and returns it. \<open>this.clearTimeout\<close> takes the id out
  of \<open>timeouts\<close> and cancels the browser's timer; with \<open>undefined\<close> it changes nothing.
\<close>

definition setState :: "(State \<Rightarrow> State) \<Rightarrow> Lightbox \<Rightarrow> Lightbox" where
  "setState f s = s\<lparr>state := f (state s)\<rparr>"

definition setTimeout :: "TimerFunc \<Rightarrow> real \<Rightarrow> Lightbox \<Rightarrow> nat \<times> Lightbox" where
  "setTimeout func time s =
     (let tid = nextTimerId s
      in (tid, s\<lparr>pendingTimers := pendingTimers s @ [(tid, func, time)],
                 nextTimerId := Suc tid,
                 timeouts := timeouts s @ [tid]\<rparr>))"

definition clearTimeout :: "TimeoutRef \<Rightarrow> Lightbox \<Rightarrow> Lightbox" where
  "clearTimeout r s =
     (case r of
        TimerId tid \<Rightarrow>
          s\<lparr>timeouts := filter (\<lambda>t. t \<noteq> tid) (timeouts s),
            pendingTimers := filter (\<lambda>e. fst e \<noteq> tid) (pendingTimers s)\<rparr>
      | _ \<Rightarrow> s)"

definition setPreventInnerClose :: "Lightbox \<Rightarrow> Lightbox" where
  "setPreventInnerClose s0 =
     (let s1 = (case preventInnerCloseTimeout s0 of
                  TimerId tid \<Rightarrow>
                    if tid \<noteq> 0 then clearTimeout (preventInnerCloseTimeout s0) s0 else s0
                | _ \<Rightarrow> s0);
          s2 = s1\<lparr>preventInnerClose := True\<rparr>;
          r = setTimeout PreventInnerCloseFunc 100 s2
      in (snd r)\<lparr>preventInnerCloseTimeout := TimerId (fst r)\<rparr>)"

definition handleWindowResize :: "Lightbox \<Rightarrow> Lightbox" where
  "handleWindowResize s0 =
     (let s1 = clearTimeout (resizeTimeout s0) s0;
          r = setTimeout ForceUpdateFunc 100 s1
      in (snd r)\<lparr>resizeTimeout := TimerId (fst r)\<rparr>)"

section \<open>Images\<close>

text \<open>
  \<open>this.props[name]\<close> for the six source props; \<open>None\<close> is \<open>undefined\<close>. A value is
  truthy when it is a string that is not empty.
\<close>

definition props_get :: "Props \<Rightarrow> string \<Rightarrow> string option" where
  "props_get p name =
     (if name = ''mainSrc'' then Some (mainSrc p)
      else if name = ''prevSrc'' then prevSrc p
      else if name = ''nextSrc'' then nextSrc p
      else if name = ''mainSrcThumbnail'' then mainSrcThumbnail p
      else if name = ''prevSrcThumbnail'' then prevSrcThumbnail p
      else if name = ''nextSrcThumbnail'' then nextSrcThumbnail p
      else None)"

definition truthy :: "string option \<Rightarrow> bool" where
  "truthy v = (case v of None \<Rightarrow> False | Some u \<Rightarrow> u \<noteq> [])"

definition isAnimating :: "Lightbox \<Rightarrow> bool" where
  "isAnimating s = (shouldAnimate (state s) \<or> isClosing (state s))"

definition isImageLoaded :: "Lightbox \<Rightarrow> string option \<Rightarrow> bool" where
  "isImageLoaded s imageSrc =
     (case imageSrc of
        None \<Rightarrow> False
      | Some u \<Rightarrow> u \<noteq> [] \<and> (case imageCache s u of None \<Rightarrow> False | Some e \<Rightarrow> loaded e))"

record ImageInfo =
  info_src :: string
  info_height :: real
  info_width :: real
  targetHeight :: JsNumber
  targetWidth :: JsNumber

text \<open>The object that \<open>getBestImageForType\<close> returns for a URL of the cache.\<close>

definition imageInfo :: "Lightbox \<Rightarrow> string option \<Rightarrow> bool \<Rightarrow> ImageInfo option" where
  "imageInfo s imageSrc stretch =
     (case imageSrc of
        None \<Rightarrow> None
      | Some u \<Rightarrow>
          (case imageCache s u of
             None \<Rightarrow> None
           | Some e \<Rightarrow>
               (let fitSizes = getFitSizes s (img_width e) (img_height e) stretch
                in Some \<lparr>info_src = u, info_height = img_height e, info_width = img_width e,
                         targetHeight = fit_height fitSizes,
                         targetWidth = fit_width fitSizes\<rparr>)))"

text \<open>
  \<open>getBestImageForType\<close>: the full-size image when it is loaded, else the thumbnail
  when it is loaded (stretched), else \<open>null\<close>.
\<close>

definition getBestImageForType :: "Lightbox \<Rightarrow> string \<Rightarrow> ImageInfo option" where
  "getBestImageForType s srcType =
     (if isImageLoaded s (props_get (props s) srcType)
      then imageInfo s (props_get (props s) srcType) False
      else if isImageLoaded s (props_get (props s) (srcType @ ''Thumbnail''))
      then imageInfo s (props_get (props s) (srcType @ ''Thumbnail'')) True
      else None)"

definition getSrcTypes :: "string list" where
  "getSrcTypes =
     [''mainSrc'', ''mainSrcThumbnail'', ''nextSrc'', ''nextSrcThumbnail'',
      ''prevSrc'', ''prevSrcThumbnail'']"

section \<open>Zoom\<close>

text \<open>\<open>ZOOM_RATIO ** zoomLevel\<close>, for a positive \<open>ZOOM_RATIO\<close>.\<close>

definition getZoomMultiplier :: "Constants \<Rightarrow> real \<Rightarrow> real" where
  "getZoomMultiplier c level = ZOOM_RATIO c powr level"

record MaxOffsets =
  maxX :: real
  minX :: real
  maxY :: real
  minY :: real

definition getMaxOffsets :: "Constants \<Rightarrow> Lightbox \<Rightarrow> MaxOffsets" where
  "getMaxOffsets c s =
     (case getBestImageForType s ''mainSrc'' of
        None \<Rightarrow> \<lparr>maxX = 0, minX = 0, maxY = 0, minY = 0\<rparr>
      | Some currentImageInfo \<Rightarrow>
          (let boxSize = getLightboxRect s;
               zoomMultiplier = getZoomMultiplier c (zoomLevel (state s));
               mx = (if zoomMultiplier * info_width currentImageInfo - rect_width boxSize < 0
                     then (rect_width boxSize - zoomMultiplier * info_width currentImageInfo) / 2
                     else (zoomMultiplier * info_width currentImageInfo - rect_width boxSize) / 2);
               my = (if zoomMultiplier * info_height currentImageInfo - rect_height boxSize < 0
                     then (rect_height boxSize - zoomMultiplier * info_height currentImageInfo) / 2
                     else (zoomMultiplier * info_height currentImageInfo - rect_height boxSize) / 2)
           in \<lparr>maxX = mx, minX = -1 * mx, maxY = my, minY = -1 * my\<rparr>))"

definition changeZoom ::
  "Constants \<Rightarrow> real \<Rightarrow> real option \<Rightarrow> real option \<Rightarrow> Lightbox \<Rightarrow> Lightbox" where
  "changeZoom c level clientX clientY s =
     (if \<not> enableZoom (props s) then s
      else
        let nextZoomLevel = max (MIN_ZOOM_LEVEL c) (min (MAX_ZOOM_LEVEL c) level)
        in if nextZoomLevel = zoomLevel (state s) then s
           else if nextZoomLevel = MIN_ZOOM_LEVEL c
           then setState (\<lambda>st. st\<lparr>zoomLevel := nextZoomLevel, offsetX := 0, offsetY := 0\<rparr>) s
           else
             (case getBestImageForType s ''mainSrc'' of
                None \<Rightarrow> s
              | Some imageBaseSize \<Rightarrow>
                  (let currentZoomMultiplier = getZoomMultiplier c (zoomLevel (state s));
                       nextZoomMultiplier = getZoomMultiplier c nextZoomLevel;
                       boxRect = getLightboxRect s;
                       pointerX = (case clientX of
                                     Some cx \<Rightarrow> cx - rect_left boxRect
                                   | None \<Rightarrow> rect_width boxRect / 2);
                       pointerY = (case clientY of
                                     Some cy \<Rightarrow> cy - rect_top boxRect
                                   | None \<Rightarrow> rect_height boxRect / 2);
                       currentImageOffsetX =
                         (rect_width boxRect - info_width imageBaseSize * currentZoomMultiplier) / 2;
                       currentImageOffsetY =
                         (rect_height boxRect - info_height imageBaseSize * currentZoomMultiplier) / 2;
                       currentImageRealOffsetX = currentImageOffsetX - offsetX (state s);
                       currentImageRealOffsetY = currentImageOffsetY - offsetY (state s);
                       currentPointerXRelativeToImage =
                         (pointerX - currentImageRealOffsetX) / currentZoomMultiplier;
                       currentPointerYRelativeToImage =
                         (pointerY - currentImageRealOffsetY) / currentZoomMultiplier;
                       nextImageRealOffsetX =
                         pointerX - currentPointerXRelativeToImage * nextZoomMultiplier;
                       nextImageRealOffsetY =
                         pointerY - currentPointerYRelativeToImage * nextZoomMultiplier;
                       nextImageOffsetX =
                         (rect_width boxRect - info_width imageBaseSize * nextZoomMultiplier) / 2;
                       nextImageOffsetY =
                         (rect_height boxRect - info_height imageBaseSize * nextZoomMultiplier) / 2;
                       nextOffsetX0 = nextImageOffsetX - nextImageRealOffsetX;
                       nextOffsetY0 = nextImageOffsetY - nextImageRealOffsetY;
                       maxOffsets = getMaxOffsets c s;
                       clamp = (currentAction s \<noteq> PINCH \<and> zoomLevel (state s) > nextZoomLevel);
                       nextOffsetX = (if clamp
                                      then max (minX maxOffsets) (min (maxX maxOffsets) nextOffsetX0)
                                      else nextOffsetX0);
                       nextOffsetY = (if clamp
                                      then max (minY maxOffsets) (min (maxY maxOffsets) nextOffsetY0)
                                      else nextOffsetY0)
                   in setState (\<lambda>st. st\<lparr>zoomLevel := nextZoomLevel, offsetX := nextOffsetX,
                                          offsetY := nextOffsetY\<rparr>) s)))"

section \<open>Navigation\<close>

text \<open>
  \<open>requestMove\<close> resets zoom, offset and error flags, starts the animation unless it is
  disabled, and asks the parent for the previous or the next image.
\<close>

definition requestMove :: "Constants \<Rightarrow> string \<Rightarrow> Lightbox \<Rightarrow> Lightbox" where
  "requestMove c direction s0 =
     (let animate = (\<not> animationDisabled (props s0) \<and>
                     (\<not> keyPressed s0 \<or> animationOnKeyInput (props s0)));
          s1 = (if animate
                then snd (setTimeout ShouldAnimateFalseFunc (animationDuration (props s0)) s0)
                else s0);
          s2 = s1\<lparr>keyPressed := False, moveRequested := True\<rparr>;
          nextState = (\<lambda>st. (if animate then st\<lparr>shouldAnimate := True\<rparr> else st)
                         \<lparr>zoomLevel := MIN_ZOOM_LEVEL c, offsetX := 0, offsetY := 0,
                          loadErrorStatus := Map.empty\<rparr>)
      in if direction = ''prev''
         then (setState nextState (s2\<lparr>keyCounter := keyCounter s2 - 1\<rparr>))
                \<lparr>calls := calls s2 @ [OnMovePrevRequest]\<rparr>
         else (setState nextState (s2\<lparr>keyCounter := keyCounter s2 + 1\<rparr>))
                \<lparr>calls := calls s2 @ [OnMoveNextRequest]\<rparr>)"

definition requestMoveNext :: "Constants \<Rightarrow> Lightbox \<Rightarrow> Lightbox" where
  "requestMoveNext c s = requestMove c ''next'' s"

definition requestMovePrev :: "Constants \<Rightarrow> Lightbox \<Rightarrow> Lightbox" where
  "requestMovePrev c s = requestMove c ''prev'' s"

text \<open>\<open>requestClose\<close>; the argument says whether the event is a \<open>keydown\<close>.\<close>

definition requestClose :: "bool \<Rightarrow> Lightbox \<Rightarrow> Lightbox" where
  "requestClose keydown s =
     (if animationDisabled (props s) \<or> (keydown \<and> \<not> animationOnKeyInput (props s))
      then s\<lparr>calls := calls s @ [OnCloseRequest]\<rparr>
      else snd (setTimeout CloseLightboxFunc (animationDuration (props s))
                  (setState (\<lambda>st. st\<lparr>isClosing := True\<rparr>) s)))"

section \<open>Source arbitration and the pointer list\<close>

definition filterPointersBySource :: "Lightbox \<Rightarrow> Lightbox" where
  "filterPointersBySource s =
     s\<lparr>pointerList := filter (\<lambda>p. ev_source p = Some (eventsSource s)) (pointerList s)\<rparr>"

definition shouldHandleEvent :: "Source \<Rightarrow> Lightbox \<Rightarrow> bool \<times> Lightbox" where
  "shouldHandleEvent source s =
     (if eventsSource s = source then (True, s)
      else if eventsSource s = ANY then (True, s\<lparr>eventsSource := source\<rparr>)
      else
        (case source of
           MOUSE \<Rightarrow> (False, s)
         | TOUCH \<Rightarrow> (True, filterPointersBySource (s\<lparr>eventsSource := TOUCH\<rparr>))
         | POINTER \<Rightarrow>
             if eventsSource s = MOUSE
             then (True, filterPointersBySource (s\<lparr>eventsSource := POINTER\<rparr>))
             else (False, s)
         | ANY \<Rightarrow> (False, s)))"

definition addPointer :: "ParsedEvent \<Rightarrow> Lightbox \<Rightarrow> Lightbox" where
  "addPointer pointer s = s\<lparr>pointerList := pointerList s @ [pointer]\<rparr>"

definition removePointer :: "ParsedEvent \<Rightarrow> Lightbox \<Rightarrow> Lightbox" where
  "removePointer pointer s =
     s\<lparr>pointerList := filter (\<lambda>p. ev_id p \<noteq> ev_id pointer) (pointerList s)\<rparr>"

section \<open>Pan\<close>

definition handleMoveStart :: "ParsedEvent \<Rightarrow> Lightbox \<Rightarrow> Lightbox" where
  "handleMoveStart pointer s =
     (if \<not> enableZoom (props s) then s
      else s\<lparr>currentAction := MOVE,
             moveStartX := ev_x pointer,
             moveStartY := ev_y pointer,
             moveStartOffsetX := offsetX (state s),
             moveStartOffsetY := offsetY (state s)\<rparr>)"

definition handleMove :: "ParsedEvent \<Rightarrow> Lightbox \<Rightarrow> Lightbox" where
  "handleMove pointer s =
     (let newOffsetX = moveStartX s - ev_x pointer + moveStartOffsetX s;
          newOffsetY = moveStartY s - ev_y pointer + moveStartOffsetY s
      in if offsetX (state s) \<noteq> newOffsetX \<or> offsetY (state s) \<noteq> newOffsetY
         then setState (\<lambda>st. st\<lparr>offsetX := newOffsetX, offsetY := newOffsetY\<rparr>) s
         else s)"

definition handleMoveEnd :: "Constants \<Rightarrow> Lightbox \<Rightarrow> Lightbox" where
  "handleMoveEnd c s0 =
     (let s = s0\<lparr>currentAction := NONE, moveStartX := 0, moveStartY := 0,
                 moveStartOffsetX := 0, moveStartOffsetY := 0\<rparr>;
          maxOffsets = getMaxOffsets c s;
          nextOffsetX = max (minX maxOffsets) (min (maxX maxOffsets) (offsetX (state s)));
          nextOffsetY = max (minY maxOffsets) (min (maxY maxOffsets) (offsetY (state s)))
      in if nextOffsetX \<noteq> offsetX (state s) \<or> nextOffsetY \<noteq> offsetY (state s)
         then snd (setTimeout ShouldAnimateFalseFunc (animationDuration (props s))
                     (setState (\<lambda>st. st\<lparr>offsetX := nextOffsetX, offsetY := nextOffsetY,
                                           shouldAnimate := True\<rparr>) s))
         else s)"

section \<open>Swipe\<close>

definition handleSwipeStart :: "ParsedEvent \<Rightarrow> Lightbox \<Rightarrow> Lightbox" where
  "handleSwipeStart pointer s =
     s\<lparr>currentAction := SWIPE,
       swipeStartX := ev_x pointer, swipeStartY := ev_y pointer,
       swipeEndX := ev_x pointer, swipeEndY := ev_y pointer\<rparr>"

definition handleSwipe :: "ParsedEvent \<Rightarrow> Lightbox \<Rightarrow> Lightbox" where
  "handleSwipe pointer s = s\<lparr>swipeEndX := ev_x pointer, swipeEndY := ev_y pointer\<rparr>"

text \<open>
  \<open>handleSwipeEnd\<close>; the argument \<open>event\<close> says whether an event was passed
  (\<open>multiPointerStart\<close> passes \<open>null\<close>).
\<close>

definition handleSwipeEnd :: "Constants \<Rightarrow> bool \<Rightarrow> Lightbox \<Rightarrow> Lightbox" where
  "handleSwipeEnd c event s0 =
     (let xDiff = swipeEndX s0 - swipeStartX s0;
          xDiffAbs = \<bar>xDiff\<bar>;
          yDiffAbs = \<bar>swipeEndY s0 - swipeStartY s0\<bar>;
          s = s0\<lparr>currentAction := NONE, swipeStartX := 0, swipeStartY := 0,
                 swipeEndX := 0, swipeEndY := 0\<rparr>
      in if \<not> event \<or> isAnimating s \<or> xDiffAbs < yDiffAbs * 1.5 then s
         else if xDiffAbs < MIN_SWIPE_DISTANCE c \<and> xDiffAbs < rect_width (getLightboxRect s) / 4
         then s
         else if xDiff > 0 \<and> truthy (prevSrc (props s)) then requestMovePrev c s
         else if xDiff < 0 \<and> truthy (nextSrc (props s)) then requestMoveNext c s
         else s)"

section \<open>Pinch\<close>

text \<open>
  The distance and the centre of the first two samples of a list; \<open>None\<close> stands for
  the \<open>TypeError\<close> of reading a coordinate of \<open>undefined\<close> when the list is shorter.
\<close>

definition calculatePinchDistance :: "ParsedEvent list \<Rightarrow> real option" where
  "calculatePinchDistance l =
     (case l of
        a # b # _ \<Rightarrow> Some (sqrt ((ev_x a - ev_x b) ^ 2 + (ev_y a - ev_y b) ^ 2))
      | _ \<Rightarrow> None)"

definition calculatePinchCenter :: "ParsedEvent list \<Rightarrow> (real \<times> real) option" where
  "calculatePinchCenter l =
     (case l of
        a # b # _ \<Rightarrow> Some (ev_x a - (ev_x a - ev_x b) / 2, ev_y a - (ev_y a - ev_y b) / 2)
      | _ \<Rightarrow> None)"

definition handlePinchStart :: "ParsedEvent list \<Rightarrow> Lightbox \<Rightarrow> Lightbox option" where
  "handlePinchStart pointers s =
     (if \<not> enableZoom (props s) then Some s
      else
        let touchList = map (\<lambda>p. \<lparr>ev_id = ev_id p, ev_source = None,
                                   ev_x = ev_x p, ev_y = ev_y p\<rparr>) pointers
        in (case calculatePinchDistance touchList of
              None \<Rightarrow> None
            | Some d \<Rightarrow>
                Some (s\<lparr>currentAction := PINCH, pinchTouchList := touchList,
                        pinchDistance := d\<rparr>)))"

definition handlePinch :: "Constants \<Rightarrow> ParsedEvent list \<Rightarrow> Lightbox \<Rightarrow> Lightbox option" where
  "handlePinch c pointers s =
     (let touchList = map (\<lambda>oldPointer.
                             case find (\<lambda>p. ev_id p = ev_id oldPointer) pointers of
                               Some p \<Rightarrow> p
                             | None \<Rightarrow> oldPointer) (pinchTouchList s)
      in (case calculatePinchDistance touchList of
            None \<Rightarrow> None
          | Some newDistance \<Rightarrow>
              (let level = zoomLevel (state s) + newDistance - pinchDistance s;
                   s1 = s\<lparr>pinchTouchList := touchList, pinchDistance := newDistance\<rparr>
               in (case calculatePinchCenter touchList of
                     None \<Rightarrow> None
                   | Some centre \<Rightarrow>
                       Some (changeZoom c level (Some (fst centre)) (Some (snd centre)) s1)))))"

definition handlePinchEnd :: "Lightbox \<Rightarrow> Lightbox" where
  "handlePinchEnd s = s\<lparr>currentAction := NONE, pinchTouchList := [], pinchDistance := 0\<rparr>"

section \<open>The gesture state machine\<close>

definition decideMoveOrSwipe :: "Constants \<Rightarrow> ParsedEvent \<Rightarrow> Lightbox \<Rightarrow> Lightbox" where
  "decideMoveOrSwipe c pointer s =
     (if zoomLevel (state s) \<le> MIN_ZOOM_LEVEL c
      then handleSwipeStart pointer s
      else handleMoveStart pointer s)"

definition handleEnd :: "Constants \<Rightarrow> bool \<Rightarrow> Lightbox \<Rightarrow> Lightbox" where
  "handleEnd c event s =
     (case currentAction s of
        MOVE \<Rightarrow> handleMoveEnd c s
      | SWIPE \<Rightarrow> handleSwipeEnd c event s
      | PINCH \<Rightarrow> handlePinchEnd s
      | NONE \<Rightarrow> s)"

definition multiPointerStart :: "Constants \<Rightarrow> Lightbox \<Rightarrow> Lightbox option" where
  "multiPointerStart c s0 =
     (let s = handleEnd c False s0
      in if length (pointerList s) = 1 then Some (decideMoveOrSwipe c (hd (pointerList s)) s)
         else if length (pointerList s) = 2 then handlePinchStart (pointerList s) s
         else Some s)"

text \<open>
  \<open>multiPointerMove\<close> hands the first sample of the event to the pan and swipe
  handlers; \<open>None\<close> stands for the \<open>TypeError\<close> of destructuring \<open>undefined\<close> when the
  event carries no sample.
\<close>

definition multiPointerMove ::
  "Constants \<Rightarrow> ParsedEvent list \<Rightarrow> Lightbox \<Rightarrow> Lightbox option" where
  "multiPointerMove c pointers s =
     (case currentAction s of
        MOVE \<Rightarrow> (case pointers of [] \<Rightarrow> None | p # _ \<Rightarrow> Some (handleMove p s))
      | SWIPE \<Rightarrow> (case pointers of [] \<Rightarrow> None | p # _ \<Rightarrow> Some (handleSwipe p s))
      | PINCH \<Rightarrow> handlePinch c pointers s
      | NONE \<Rightarrow> Some s)"

definition multiPointerEnd :: "Constants \<Rightarrow> Lightbox \<Rightarrow> Lightbox option" where
  "multiPointerEnd c s0 =
     (let s = (if currentAction s0 \<noteq> NONE
               then handleEnd c True (setPreventInnerClose s0)
               else s0)
      in if length (pointerList s) = 0 then Some (s\<lparr>eventsSource := ANY\<rparr>)
         else if length (pointerList s) = 1
         then Some (decideMoveOrSwipe c (hd (pointerList s)) s)
         else if length (pointerList s) = 2 then handlePinchStart (pointerList s) s
         else Some s)"

section \<open>Event handlers\<close>

text \<open>
  The client coordinates of an event are taken to be integers, on which \<open>parseInt\<close> is
  the identity. A touch is its identifier and its client coordinates.
\<close>

definition parseMouseEvent :: "int \<Rightarrow> int \<Rightarrow> ParsedEvent" where
  "parseMouseEvent clientX clientY =
     \<lparr>ev_id = MouseId, ev_source = Some MOUSE,
      ev_x = of_int clientX, ev_y = of_int clientY\<rparr>"

definition parseTouchPointer :: "int \<times> int \<times> int \<Rightarrow> ParsedEvent" where
  "parseTouchPointer touchPointer =
     \<lparr>ev_id = NumId (fst touchPointer), ev_source = Some TOUCH,
      ev_x = of_int (fst (snd touchPointer)), ev_y = of_int (snd (snd touchPointer))\<rparr>"

definition parsePointerEvent :: "int \<Rightarrow> int \<Rightarrow> int \<Rightarrow> ParsedEvent" where
  "parsePointerEvent pointerId clientX clientY =
     \<lparr>ev_id = NumId pointerId, ev_source = Some POINTER,
      ev_x = of_int clientX, ev_y = of_int clientY\<rparr>"

text \<open>
  In the handlers of a press, \<open>onImage\<close> is \<open>isTargetMatchImage(event.target)\<close>: whether
  the class of the target has \<open>ril-image-current\<close>.
\<close>

definition handleMouseDown :: "Constants \<Rightarrow> bool \<Rightarrow> int \<Rightarrow> int \<Rightarrow> Lightbox \<Rightarrow> Lightbox option" where
  "handleMouseDown c onImage clientX clientY s0 =
     (let r = shouldHandleEvent MOUSE s0
      in if fst r \<and> onImage
         then multiPointerStart c (addPointer (parseMouseEvent clientX clientY) (snd r))
         else Some (snd r))"

definition handleMouseMove :: "Constants \<Rightarrow> int \<Rightarrow> int \<Rightarrow> Lightbox \<Rightarrow> Lightbox option" where
  "handleMouseMove c clientX clientY s0 =
     (let r = shouldHandleEvent MOUSE s0
      in if fst r then multiPointerMove c [parseMouseEvent clientX clientY] (snd r)
         else Some (snd r))"

definition handleMouseUp :: "Constants \<Rightarrow> int \<Rightarrow> int \<Rightarrow> Lightbox \<Rightarrow> Lightbox option" where
  "handleMouseUp c clientX clientY s0 =
     (let r = shouldHandleEvent MOUSE s0
      in if fst r
         then multiPointerEnd c (removePointer (parseMouseEvent clientX clientY) (snd r))
         else Some (snd r))"

definition handleTouchStart ::
  "Constants \<Rightarrow> bool \<Rightarrow> (int \<times> int \<times> int) list \<Rightarrow> Lightbox \<Rightarrow> Lightbox option" where
  "handleTouchStart c onImage changedTouches s0 =
     (let r = shouldHandleEvent TOUCH s0
      in if fst r \<and> onImage
         then multiPointerStart c
                (foldl (\<lambda>s eventTouch. addPointer (parseTouchPointer eventTouch) s)
                   (snd r) changedTouches)
         else Some (snd r))"

definition handleTouchMove ::
  "Constants \<Rightarrow> (int \<times> int \<times> int) list \<Rightarrow> Lightbox \<Rightarrow> Lightbox option" where
  "handleTouchMove c changedTouches s0 =
     (let r = shouldHandleEvent TOUCH s0
      in if fst r then multiPointerMove c (map parseTouchPointer changedTouches) (snd r)
         else Some (snd r))"

definition handleTouchEnd ::
  "Constants \<Rightarrow> (int \<times> int \<times> int) list \<Rightarrow> Lightbox \<Rightarrow> Lightbox option" where
  "handleTouchEnd c changedTouches s0 =
     (let r = shouldHandleEvent TOUCH s0
      in if fst r
         then multiPointerEnd c
                (foldl (\<lambda>s touch. removePointer (parseTouchPointer touch) s)
                   (snd r) changedTouches)
         else Some (snd r))"

text \<open>\<open>handlePointerEvent\<close>, by \<open>event.type\<close>.\<close>

definition handlePointerEvent ::
  "Constants \<Rightarrow> string \<Rightarrow> bool \<Rightarrow> int \<Rightarrow> int \<Rightarrow> int \<Rightarrow> Lightbox \<Rightarrow> Lightbox option" where
  "handlePointerEvent c type onImage pointerId clientX clientY s0 =
     (let r = shouldHandleEvent POINTER s0;
          pointer = parsePointerEvent pointerId clientX clientY
      in if fst r
         then (if type = ''pointerdown''
               then (if onImage then multiPointerStart c (addPointer pointer (snd r))
                     else Some (snd r))
               else if type = ''pointermove'' then multiPointerMove c [pointer] (snd r)
               else if type = ''pointerup'' \<or> type = ''pointercancel''
               then multiPointerEnd c (removePointer pointer (snd r))
               else Some (snd r))
         else Some (snd r))"

definition handleImageMouseWheel ::
  "Constants \<Rightarrow> real \<Rightarrow> real \<Rightarrow> real \<Rightarrow> real \<Rightarrow> Lightbox \<Rightarrow> Lightbox" where
  "handleImageMouseWheel c deltaX deltaY clientX clientY s =
     (if \<bar>deltaY\<bar> \<ge> \<bar>deltaX\<bar>
      then (if \<bar>deltaY\<bar> < WHEEL_MOVE_Y_THRESHOLD c then s
            else changeZoom c (zoomLevel (state s) - deltaY) (Some clientX) (Some clientY)
                   (s\<lparr>scrollX := 0, scrollY := scrollY s + deltaY\<rparr>))
      else s)"

definition handleImageDoubleClick :: "Constants \<Rightarrow> real \<Rightarrow> real \<Rightarrow> Lightbox \<Rightarrow> Lightbox" where
  "handleImageDoubleClick c clientX clientY s =
     (if zoomLevel (state s) > MIN_ZOOM_LEVEL c
      then changeZoom c (MIN_ZOOM_LEVEL c) (Some clientX) (Some clientY) s
      else changeZoom c (zoomLevel (state s) + ZOOM_BUTTON_INCREMENT_SIZE c)
             (Some clientX) (Some clientY) s)"

definition handleZoomInButtonClick :: "Constants \<Rightarrow> Lightbox \<Rightarrow> Lightbox" where
  "handleZoomInButtonClick c s =
     changeZoom c (zoomLevel (state s) + ZOOM_BUTTON_INCREMENT_SIZE c) None None s"

definition handleZoomOutButtonClick :: "Constants \<Rightarrow> Lightbox \<Rightarrow> Lightbox" where
  "handleZoomOutButtonClick c s =
     changeZoom c (zoomLevel (state s) - ZOOM_BUTTON_INCREMENT_SIZE c) None None s"

definition handleOuterMousewheel :: "Constants \<Rightarrow> real \<Rightarrow> real \<Rightarrow> Lightbox \<Rightarrow> Lightbox" where
  "handleOuterMousewheel c deltaX deltaY s0 =
     (let xThreshold = WHEEL_MOVE_X_THRESHOLD c;
          imageMoveDelay = 500;
          s1 = clearTimeout (resetScrollTimeout s0) s0;
          r = setTimeout ResetScrollFunc 300 s1;
          s2 = (snd r)\<lparr>resetScrollTimeout := TimerId (fst r)\<rparr>
      in if wheelActionTimeout s2 \<noteq> Null \<or> isAnimating s2 then s2
         else
           let bigLeapX = xThreshold / 2;
               s3 = (if \<bar>deltaY\<bar> < \<bar>deltaX\<bar>
                     then s2\<lparr>scrollY := 0, scrollX := scrollX s2 + deltaX\<rparr>
                     else s2);
               next = (\<bar>deltaY\<bar> < \<bar>deltaX\<bar> \<and>
                       (scrollX s3 \<ge> xThreshold \<or> deltaX \<ge> bigLeapX));
               prev = (\<bar>deltaY\<bar> < \<bar>deltaX\<bar> \<and> \<not> next \<and>
                       (scrollX s3 \<le> -1 * xThreshold \<or> deltaX \<le> -1 * bigLeapX));
               s4 = (if next then (requestMoveNext c s3)\<lparr>scrollX := 0\<rparr>
                     else if prev then (requestMovePrev c s3)\<lparr>scrollX := 0\<rparr>
                     else s3);
               actionDelay = (if next \<or> prev then imageMoveDelay else 0)
           in if actionDelay \<noteq> 0
              then (let q = setTimeout WheelActionFunc actionDelay s4
                    in (snd q)\<lparr>wheelActionTimeout := TimerId (fst q)\<rparr>)
              else s4)"

section \<open>Loading images\<close>

text \<open>
  The callback that \<open>generateLoadDoneCallback(srcType, imageSrc)\<close> builds; \<open>err\<close> says
  whether it is called with an error.
\<close>

definition loadDoneCallback :: "string \<Rightarrow> string \<Rightarrow> bool \<Rightarrow> Lightbox \<Rightarrow> Lightbox" where
  "loadDoneCallback srcType imageSrc err s =
     (if err then s
      else if props_get (props s) srcType \<noteq> Some imageSrc \<or> didUnmount s then s
      else s\<lparr>calls := calls s @ [ForceUpdate]\<rparr>)"

text \<open>
  \<open>loadImage\<close> creates an image and sets its \<open>src\<close>: the load is then in flight, and
  the browser will call one of \<open>onload\<close> and \<open>onerror\<close>, modelled by \<open>imageOnLoad\<close> (with
  the natural size of the image) and \<open>imageOnError\<close>.
\<close>

definition loadImage :: "string \<Rightarrow> string \<Rightarrow> Lightbox \<Rightarrow> Lightbox" where
  "loadImage srcType imageSrc s =
     (if isImageLoaded s (Some imageSrc)
      then snd (setTimeout (LoadDoneFunc srcType imageSrc) 1 s)
      else s\<lparr>pendingLoads := pendingLoads s @ [(srcType, imageSrc)]\<rparr>)"

definition imageOnLoad :: "string \<Rightarrow> string \<Rightarrow> real \<Rightarrow> real \<Rightarrow> Lightbox \<Rightarrow> Lightbox" where
  "imageOnLoad srcType imageSrc width height s =
     loadDoneCallback srcType imageSrc False
       (s\<lparr>calls := calls s @ [OnImageLoad imageSrc srcType],
          imageCache := (imageCache s)
            (imageSrc \<mapsto> \<lparr>loaded = True, img_width = width, img_height = height\<rparr>)\<rparr>)"

definition imageOnError :: "string \<Rightarrow> string \<Rightarrow> Lightbox \<Rightarrow> Lightbox" where
  "imageOnError srcType imageSrc s =
     loadDoneCallback srcType imageSrc True
       (setState (\<lambda>prevState. prevState\<lparr>loadErrorStatus :=
                    (loadErrorStatus prevState)(srcType \<mapsto> True)\<rparr>)
          (s\<lparr>calls := calls s @ [OnImageLoadError imageSrc srcType]\<rparr>))"

text \<open>
  \<open>loadAllImages\<close> runs \<open>loadSrcType\<close>, the function it passes to \<open>forEach\<close>, on every
  source type: it resets the error flag of a type that has a source, and loads the
  source unless it is loaded.
\<close>

definition loadSrcType :: "Props \<Rightarrow> Lightbox \<Rightarrow> string \<Rightarrow> Lightbox" where
  "loadSrcType p s type =
     (let s1 = (if truthy (props_get p type) \<and> loadErrorStatus (state s) type = Some True
                then setState (\<lambda>prevState. prevState\<lparr>loadErrorStatus :=
                       (loadErrorStatus prevState)(type \<mapsto> False)\<rparr>) s
                else s)
      in (case props_get p type of
            None \<Rightarrow> s1
          | Some u \<Rightarrow>
              if u \<noteq> [] \<and> \<not> isImageLoaded s1 (Some u) then loadImage type u s1 else s1))"

definition loadAllImages :: "Props \<Rightarrow> Lightbox \<Rightarrow> Lightbox" where
  "loadAllImages p s0 = foldl (loadSrcType p) s0 getSrcTypes"

section \<open>Life cycle\<close>

definition constructor :: "Constants \<Rightarrow> Props \<Rightarrow> Rect \<Rightarrow> Lightbox" where
  "constructor c p r =
     \<lparr>props = p,
      state = \<lparr>isClosing = \<not> animationDisabled p, shouldAnimate = False,
               zoomLevel = MIN_ZOOM_LEVEL c, offsetX = 0, offsetY = 0,
               loadErrorStatus = Map.empty\<rparr>,
      timeouts = [], currentAction = NONE, eventsSource = ANY, pointerList = [],
      preventInnerClose = False, preventInnerCloseTimeout = Undefined,
      keyPressed = False, imageCache = Map.empty,
      resizeTimeout = Undefined, wheelActionTimeout = Undefined,
      resetScrollTimeout = Undefined, scrollX = 0, scrollY = 0,
      moveStartX = 0, moveStartY = 0, moveStartOffsetX = 0, moveStartOffsetY = 0,
      swipeStartX = 0, swipeStartY = 0, swipeEndX = 0, swipeEndY = 0,
      pinchTouchList = [], pinchDistance = 0, keyCounter = 0,
      moveRequested = False, didUnmount = False,
      lightboxRect = r, pendingTimers = [], nextTimerId = 1, pendingLoads = [],
      calls = []\<rparr>"

definition componentDidMount :: "Lightbox \<Rightarrow> Lightbox" where
  "componentDidMount s0 =
     (let s1 = (if \<not> animationDisabled (props s0)
                then setState (\<lambda>st. st\<lparr>isClosing := False\<rparr>) s0
                else s0)
      in loadAllImages (props s1) s1)"

text \<open>
  The keys of \<open>prevSrcDict\<close> and \<open>nextSrcDict\<close> are the values of the changed props as
  property names: \<open>undefined\<close> becomes the name \<open>undefined\<close>.
\<close>

definition dictKey :: "string option \<Rightarrow> string" where
  "dictKey v = (case v of None \<Rightarrow> ''undefined'' | Some u \<Rightarrow> u)"

definition UNSAFE_componentWillReceiveProps :: "Props \<Rightarrow> Lightbox \<Rightarrow> Lightbox" where
  "UNSAFE_componentWillReceiveProps nextProps s =
     (let changed = filter (\<lambda>name. props_get (props s) name \<noteq> props_get nextProps name)
                      getSrcTypes;
          sourcesChanged = (changed \<noteq> []);
          prevSrcDict = map (\<lambda>name. dictKey (props_get (props s) name)) changed;
          nextSrcDict = map (\<lambda>name. dictKey (props_get nextProps name)) changed
      in if sourcesChanged \<or> moveRequested s
         then
           (let cache = foldl (\<lambda>m prevSrc.
                                 case m prevSrc of
                                   None \<Rightarrow> m
                                 | Some e \<Rightarrow>
                                     if prevSrc \<notin> set nextSrcDict
                                     then m(prevSrc \<mapsto> e\<lparr>loaded := False\<rparr>)
                                     else m)
                          (imageCache s) prevSrcDict
            in loadAllImages nextProps (s\<lparr>imageCache := cache, moveRequested := False\<rparr>))
         else s)"

text \<open>
  \<open>componentWillUnmount\<close> cancels the browser's timer of every id in \<open>timeouts\<close>; the
  list itself is left as it is. (Removing the listeners is the condition \<open>didUnmount\<close>
  of \<open>dispatch\<close> below.)
\<close>

definition componentWillUnmount :: "Lightbox \<Rightarrow> Lightbox" where
  "componentWillUnmount s =
     s\<lparr>didUnmount := True,
       pendingTimers := filter (\<lambda>e. fst e \<notin> set (timeouts s)) (pendingTimers s)\<rparr>"

section \<open>Timers that fire\<close>

definition runTimerFunc :: "TimerFunc \<Rightarrow> Lightbox \<Rightarrow> Lightbox" where
  "runTimerFunc func s =
     (case func of
        ForceUpdateFunc \<Rightarrow> s\<lparr>calls := calls s @ [ForceUpdate]\<rparr>
      | PreventInnerCloseFunc \<Rightarrow>
          s\<lparr>preventInnerClose := False, preventInnerCloseTimeout := Undefined\<rparr>
      | ResetScrollFunc \<Rightarrow> s\<lparr>scrollX := 0, scrollY := 0\<rparr>
      | WheelActionFunc \<Rightarrow> s\<lparr>wheelActionTimeout := Undefined\<rparr>
      | ShouldAnimateFalseFunc \<Rightarrow> setState (\<lambda>st. st\<lparr>shouldAnimate := False\<rparr>) s
      | LoadDoneFunc srcType imageSrc \<Rightarrow> loadDoneCallback srcType imageSrc False s
      | CloseLightboxFunc \<Rightarrow> s\<lparr>calls := calls s @ [OnCloseRequest]\<rparr>)"

text \<open>
  The browser runs the closure of a pending timer: the timer is no longer pending, the
  closure of \<open>this.setTimeout\<close> takes the id out of \<open>timeouts\<close> and calls the function.
  A timer that is not pending does not fire.
\<close>

definition fireTimer :: "nat \<Rightarrow> Lightbox \<Rightarrow> Lightbox" where
  "fireTimer tid s =
     (case find (\<lambda>e. fst e = tid) (pendingTimers s) of
        None \<Rightarrow> s
      | Some e \<Rightarrow>
          runTimerFunc (fst (snd e))
            (s\<lparr>pendingTimers := filter (\<lambda>e. fst e \<noteq> tid) (pendingTimers s),
               timeouts := filter (\<lambda>t. t \<noteq> tid) (timeouts s)\<rparr>))"

section \<open>Events\<close>

text \<open>
  What can happen to a mounted component: the events of its listeners, new props from
  the parent, the completion of a load in flight, a pending timer that fires, and the
  unmount. The buttons call their handlers under the conditions of \<open>render\<close>.
  Key input is not modelled.
\<close>

datatype Event =
    MouseDown bool int int
  | MouseMove int int
  | MouseUp int int
  | TouchStart bool "(int \<times> int \<times> int) list"
  | TouchMove "(int \<times> int \<times> int) list"
  | TouchEnd "(int \<times> int \<times> int) list"
  | PointerEvent string bool int int int
  | ImageWheel real real real real
  | OuterWheel real real
  | ImageDoubleClick real real
  | ZoomInButtonClick
  | ZoomOutButtonClick
  | PrevButtonClick
  | NextButtonClick
  | CloseButtonClick
  | WindowResize Rect
  | ReceiveProps Props
  | ImageLoaded string string real real
  | ImageErrored string string
  | TimerFires nat
  | Unmount

text \<open>
  After the unmount the listeners are gone: only a load in flight can still complete,
  and a timer that is still pending can still fire. A load completes once.
\<close>

definition dispatch :: "Constants \<Rightarrow> Event \<Rightarrow> Lightbox \<Rightarrow> Lightbox option" where
  "dispatch c e s =
     (case e of
        ImageLoaded srcType imageSrc w h \<Rightarrow>
          if (srcType, imageSrc) \<in> set (pendingLoads s)
          then Some (imageOnLoad srcType imageSrc w h
                       (s\<lparr>pendingLoads := remove1 (srcType, imageSrc) (pendingLoads s)\<rparr>))
          else Some s
      | ImageErrored srcType imageSrc \<Rightarrow>
          if (srcType, imageSrc) \<in> set (pendingLoads s)
          then Some (imageOnError srcType imageSrc
                       (s\<lparr>pendingLoads := remove1 (srcType, imageSrc) (pendingLoads s)\<rparr>))
          else Some s
      | TimerFires tid \<Rightarrow> Some (fireTimer tid s)
      | _ \<Rightarrow>
          if didUnmount s then Some s
          else
            (case e of
               MouseDown onImage x y \<Rightarrow> handleMouseDown c onImage x y s
             | MouseMove x y \<Rightarrow> handleMouseMove c x y s
             | MouseUp x y \<Rightarrow> handleMouseUp c x y s
             | TouchStart onImage touches \<Rightarrow> handleTouchStart c onImage touches s
             | TouchMove touches \<Rightarrow> handleTouchMove c touches s
             | TouchEnd touches \<Rightarrow> handleTouchEnd c touches s
             | PointerEvent type onImage pointerId x y \<Rightarrow>
                 handlePointerEvent c type onImage pointerId x y s
             | ImageWheel dx dy x y \<Rightarrow> Some (handleImageMouseWheel c dx dy x y s)
             | OuterWheel dx dy \<Rightarrow> Some (handleOuterMousewheel c dx dy s)
             | ImageDoubleClick x y \<Rightarrow> Some (handleImageDoubleClick c x y s)
             | ZoomInButtonClick \<Rightarrow>
                 if enableZoom (props s) \<and> \<not> isAnimating s
                    \<and> zoomLevel (state s) \<noteq> MAX_ZOOM_LEVEL c
                 then Some (handleZoomInButtonClick c s) else Some s
             | ZoomOutButtonClick \<Rightarrow>
                 if enableZoom (props s) \<and> \<not> isAnimating s
                    \<and> zoomLevel (state s) \<noteq> MIN_ZOOM_LEVEL c
                 then Some (handleZoomOutButtonClick c s) else Some s
             | PrevButtonClick \<Rightarrow>
                 if truthy (prevSrc (props s)) \<and> \<not> isAnimating s
                 then Some (requestMovePrev c s) else Some s
             | NextButtonClick \<Rightarrow>
                 if truthy (nextSrc (props s)) \<and> \<not> isAnimating s
                 then Some (requestMoveNext c s) else Some s
             | CloseButtonClick \<Rightarrow>
                 if \<not> isAnimating s then Some (requestClose False s) else Some s
             | WindowResize r \<Rightarrow> Some (handleWindowResize (s\<lparr>lightboxRect := r\<rparr>))
             | ReceiveProps nextProps \<Rightarrow>
                 Some ((UNSAFE_componentWillReceiveProps nextProps s)\<lparr>props := nextProps\<rparr>)
             | Unmount \<Rightarrow> Some (componentWillUnmount s)
             | _ \<Rightarrow> Some s))"

text \<open>A run of events from a state; \<open>None\<close> when a handler throws.\<close>

fun run :: "Constants \<Rightarrow> Event list \<Rightarrow> Lightbox \<Rightarrow> Lightbox option" where
  "run c [] s = Some s"
| "run c (e # es) s = (case dispatch c e s of None \<Rightarrow> None | Some s' \<Rightarrow> run c es s')"

text \<open>The component after \<open>constructor\<close> and \<open>componentDidMount\<close>.\<close>

definition mounted :: "Constants \<Rightarrow> Props \<Rightarrow> Rect \<Rightarrow> Lightbox" where
  "mounted c p r = componentDidMount (constructor c p r)"


section \<open>Values for the examples\<close>

text \<open>
  The theorems below hold for all values of the constants and of the props, under the
  hypotheses they state. The examples use these values.
\<close>

definition exampleConstants :: Constants where
  "exampleConstants =
     \<lparr>MIN_ZOOM_LEVEL = 0, MAX_ZOOM_LEVEL = 300, ZOOM_RATIO = 1.007,
      ZOOM_BUTTON_INCREMENT_SIZE = 100, WHEEL_MOVE_X_THRESHOLD = 200,
      WHEEL_MOVE_Y_THRESHOLD = 1, MIN_SWIPE_DISTANCE = 200\<rparr>"

definition exampleProps :: Props where
  "exampleProps =
     \<lparr>mainSrc = ''b.jpg'', prevSrc = Some ''a.jpg'', nextSrc = Some ''c.jpg'',
      mainSrcThumbnail = None, prevSrcThumbnail = None, nextSrcThumbnail = None,
      animationDisabled = False, animationOnKeyInput = False, animationDuration = 300,
      enableZoom = True, imagePadding = 10\<rparr>"

definition exampleRect :: Rect where
  "exampleRect = \<lparr>rect_width = 800, rect_height = 600, rect_left = 0, rect_top = 0\<rparr>"

definition smallRect :: Rect where
  "smallRect = \<lparr>rect_width = 20, rect_height = 20, rect_left = 0, rect_top = 0\<rparr>"

text \<open>
  What \<open>handleSwipeEnd\<close> does first in every case: it ends the action and forgets the
  positions of the swipe.
\<close>

definition swipeReset :: "Lightbox \<Rightarrow> Lightbox" where
  "swipeReset s = s\<lparr>currentAction := NONE, swipeStartX := 0, swipeStartY := 0,
                     swipeEndX := 0, swipeEndY := 0\<rparr>"

text \<open>
  The test of \<open>handleSwipeEnd\<close> before a navigation, read off its two early returns: it
  goes on when an event was passed, \<open>isAnimating\<close> is false (neither \<open>shouldAnimate\<close>
  nor \<open>isClosing\<close> is set), the swipe is at least 1.5 times as horizontal as vertical,
  and it is at least \<open>MIN_SWIPE_DISTANCE\<close> or a quarter of the width of the lightbox
  long.
\<close>

definition swipeCommits :: "Constants \<Rightarrow> bool \<Rightarrow> Lightbox \<Rightarrow> bool" where
  "swipeCommits c event s =
     (event \<and> \<not> isAnimating s
      \<and> \<bar>swipeEndX s - swipeStartX s\<bar> \<ge> \<bar>swipeEndY s - swipeStartY s\<bar> * 1.5
      \<and> (\<bar>swipeEndX s - swipeStartX s\<bar> \<ge> MIN_SWIPE_DISTANCE c
           \<or> \<bar>swipeEndX s - swipeStartX s\<bar> \<ge> rect_width (lightboxRect s) / 4))"

text \<open>What \<open>handleMoveEnd\<close> does first: it ends the action and forgets the start of the pan.\<close>

definition moveReset :: "Lightbox \<Rightarrow> Lightbox" where
  "moveReset s = s\<lparr>currentAction := NONE, moveStartX := 0, moveStartY := 0,
                    moveStartOffsetX := 0, moveStartOffsetY := 0\<rparr>"


text \<open>
  The point of the lightbox that a zoom is anchored at, as \<open>changeZoom\<close> computes
  \<open>pointerX\<close> and \<open>pointerY\<close>: the client position relative to the lightbox, or the
  centre of the lightbox when no position is given.
\<close>

definition anchorX :: "Lightbox \<Rightarrow> real option \<Rightarrow> real" where
  "anchorX s clientX =
     (case clientX of
        Some cx \<Rightarrow> cx - rect_left (getLightboxRect s)
      | None \<Rightarrow> rect_width (getLightboxRect s) / 2)"

definition anchorY :: "Lightbox \<Rightarrow> real option \<Rightarrow> real" where
  "anchorY s clientY =
     (case clientY of
        Some cy \<Rightarrow> cy - rect_top (getLightboxRect s)
      | None \<Rightarrow> rect_height (getLightboxRect s) / 2)"

text \<open>
  The coordinate of the image under a point of the lightbox, as \<open>changeZoom\<close> computes
  \<open>currentPointerXRelativeToImage\<close> and \<open>currentPointerYRelativeToImage\<close> from the
  current zoom level and offset; \<open>None\<close> when no image is known.
\<close>

definition imagePointX :: "Constants \<Rightarrow> Lightbox \<Rightarrow> real \<Rightarrow> real option" where
  "imagePointX c s pointerX =
     (case getBestImageForType s ''mainSrc'' of
        None \<Rightarrow> None
      | Some imageBaseSize \<Rightarrow>
          Some ((pointerX
                 - ((rect_width (getLightboxRect s)
                     - info_width imageBaseSize * getZoomMultiplier c (zoomLevel (state s))) / 2
                    - offsetX (state s)))
                / getZoomMultiplier c (zoomLevel (state s))))"

definition imagePointY :: "Constants \<Rightarrow> Lightbox \<Rightarrow> real \<Rightarrow> real option" where
  "imagePointY c s pointerY =
     (case getBestImageForType s ''mainSrc'' of
        None \<Rightarrow> None
      | Some imageBaseSize \<Rightarrow>
          Some ((pointerY
                 - ((rect_height (getLightboxRect s)
                     - info_height imageBaseSize * getZoomMultiplier c (zoomLevel (state s))) / 2
                    - offsetY (state s)))
                / getZoomMultiplier c (zoomLevel (state s))))"

text \<open>
  The offset that \<open>changeZoom\<close> computes on one axis before it clamps (\<open>nextOffsetX\<close>,
  \<open>nextOffsetY\<close>), from the size of the lightbox and of the image on that axis, the
  current and the next multiplier, the anchor and the current offset.
\<close>

definition anchoredOffset :: "real \<Rightarrow> real \<Rightarrow> real \<Rightarrow> real \<Rightarrow> real \<Rightarrow> real \<Rightarrow> real" where
  "anchoredOffset box img cm nm pointer off =
     (box - img * nm) / 2 - (pointer - (pointer - ((box - img * cm) / 2 - off)) / cm * nm)"

text \<open>The example component, mounted.\<close>

definition mountedExample :: Lightbox where
  "mountedExample = mounted exampleConstants exampleProps exampleRect"

text \<open>
  States of the example: the main image, 1000 by 500, has loaded; a wheel event over
  the centre of the image has zoomed in to level 2; the mouse is pressed on the image
  at (600, 300); the mouse has moved to (300, 300).
\<close>

definition loadedExample :: Lightbox where
  "loadedExample =
     mountedExample
       \<lparr>pendingLoads := [(''nextSrc'', ''c.jpg''), (''prevSrc'', ''a.jpg'')],
        calls := [OnImageLoad ''b.jpg'' ''mainSrc'', ForceUpdate],
        imageCache := [''b.jpg'' \<mapsto> \<lparr>loaded = True, img_width = 1000, img_height = 500\<rparr>]\<rparr>"

definition zoomedExample :: Lightbox where
  "zoomedExample =
     loadedExample
       \<lparr>scrollX := 0, scrollY := - 2,
        state := (state loadedExample)\<lparr>zoomLevel := 2, offsetX := 0, offsetY := 0\<rparr>\<rparr>"

definition pressedExample :: Lightbox where
  "pressedExample =
     zoomedExample
       \<lparr>eventsSource := MOUSE, pointerList := [parseMouseEvent 600 300],
        currentAction := MOVE, moveStartX := 600, moveStartY := 300,
        moveStartOffsetX := 0, moveStartOffsetY := 0\<rparr>"

definition draggedExample :: Lightbox where
  "draggedExample =
     pressedExample\<lparr>state := (state pressedExample)\<lparr>offsetX := 300, offsetY := 0\<rparr>\<rparr>"

text \<open>The example with zoom disabled, mounted.\<close>

definition noZoomProps :: Props where
  "noZoomProps = exampleProps\<lparr>enableZoom := False\<rparr>"

definition noZoomExample :: Lightbox where
  "noZoomExample = mounted exampleConstants noZoomProps exampleRect"

text \<open>
  Two touches on one horizontal line, 200 apart, each as identifier and position.
\<close>

definition twoTouches :: "(int \<times> int \<times> int) list" where
  "twoTouches = [(0, 300, 300), (1, 500, 300)]"

text \<open>
  States of the example: two fingers are down on the placeholder of the image that has
  not loaded yet, and one of them has moved; and the same on the loaded image.
\<close>

definition pinchStartExample :: Lightbox where
  "pinchStartExample =
     mountedExample
       \<lparr>eventsSource := TOUCH, pointerList := map parseTouchPointer twoTouches,
        currentAction := PINCH,
        pinchTouchList := [\<lparr>ev_id = NumId 0, ev_source = None, ev_x = 300, ev_y = 300\<rparr>,
                           \<lparr>ev_id = NumId 1, ev_source = None, ev_x = 500, ev_y = 300\<rparr>],
        pinchDistance := 200\<rparr>"

definition pinchMovedExample :: Lightbox where
  "pinchMovedExample =
     pinchStartExample
       \<lparr>pinchTouchList := [\<lparr>ev_id = NumId 0, ev_source = None, ev_x = 300, ev_y = 300\<rparr>,
                           parseTouchPointer (1, 600, 300)],
        pinchDistance := 300\<rparr>"

definition pinchLoadedExample :: Lightbox where
  "pinchLoadedExample =
     loadedExample
       \<lparr>eventsSource := TOUCH, pointerList := map parseTouchPointer twoTouches,
        currentAction := PINCH,
        pinchTouchList := [\<lparr>ev_id = NumId 0, ev_source = None, ev_x = 300, ev_y = 300\<rparr>,
                           \<lparr>ev_id = NumId 1, ev_source = None, ev_x = 500, ev_y = 300\<rparr>],
        pinchDistance := 200\<rparr>"

text \<open>
  The pinch samples after a move, as \<open>handlePinch\<close> matches them: a sample whose id the
  event carries is replaced by the first sample of the event with that id, the others
  stay.
\<close>

definition rematch :: "ParsedEvent list \<Rightarrow> ParsedEvent list \<Rightarrow> ParsedEvent list" where
  "rematch pointers touchList =
     map (\<lambda>oldPointer.
            case find (\<lambda>p. ev_id p = ev_id oldPointer) pointers of
              Some p \<Rightarrow> p
            | None \<Rightarrow> oldPointer) touchList"

text \<open>
  The props after the parent has moved to the next image, and states of the example:
  the component has received these props while the first loads are in flight; the
  load of the former main image has failed; the load of the new main image has
  succeeded.
\<close>

definition advancedProps :: Props where
  "advancedProps =
     exampleProps\<lparr>mainSrc := ''c.jpg'', prevSrc := Some ''b.jpg'', nextSrc := Some ''d.jpg''\<rparr>"

definition advancedExample :: Lightbox where
  "advancedExample =
     mountedExample
       \<lparr>props := advancedProps,
        pendingLoads := [(''mainSrc'', ''b.jpg''), (''nextSrc'', ''c.jpg''),
                         (''prevSrc'', ''a.jpg''), (''mainSrc'', ''c.jpg''),
                         (''nextSrc'', ''d.jpg''), (''prevSrc'', ''b.jpg'')]\<rparr>"

definition staleErrorExample :: Lightbox where
  "staleErrorExample =
     advancedExample
       \<lparr>pendingLoads := [(''nextSrc'', ''c.jpg''), (''prevSrc'', ''a.jpg''),
                         (''mainSrc'', ''c.jpg''), (''nextSrc'', ''d.jpg''),
                         (''prevSrc'', ''b.jpg'')],
        calls := [OnImageLoadError ''b.jpg'' ''mainSrc''],
        state := (state advancedExample)\<lparr>loadErrorStatus := [''mainSrc'' \<mapsto> True]\<rparr>\<rparr>"

definition staleSuccessExample :: Lightbox where
  "staleSuccessExample =
     staleErrorExample
       \<lparr>pendingLoads := [(''nextSrc'', ''c.jpg''), (''prevSrc'', ''a.jpg''),
                         (''nextSrc'', ''d.jpg''), (''prevSrc'', ''b.jpg'')],
        calls := [OnImageLoadError ''b.jpg'' ''mainSrc'', OnImageLoad ''c.jpg'' ''mainSrc'',
                  ForceUpdate],
        imageCache := [''c.jpg'' \<mapsto> \<lparr>loaded = True, img_width = 1000, img_height = 500\<rparr>]\<rparr>"

text \<open>
  Every timer of the browser that is pending is recorded in \<open>timeouts\<close>. A step from
  \<open>s\<close> to \<open>s'\<close> keeps the timers when it keeps this property and does not change
  \<open>didUnmount\<close>; for a handler that may throw, the step is the one to its result.
\<close>

definition timersTracked :: "Lightbox \<Rightarrow> bool" where
  "timersTracked s = (fst ` set (pendingTimers s) \<subseteq> set (timeouts s))"

definition timerStep :: "Lightbox \<Rightarrow> Lightbox \<Rightarrow> bool" where
  "timerStep s s' = ((timersTracked s \<longrightarrow> timersTracked s') \<and> didUnmount s' = didUnmount s)"

definition timerStepTo :: "Lightbox \<Rightarrow> Lightbox option \<Rightarrow> bool" where
  "timerStepTo s r = (case r of None \<Rightarrow> True | Some s' \<Rightarrow> timerStep s s')"

text \<open>
  States of the example: the close button has been clicked, and the closing animation
  runs; the component has then been unmounted.
\<close>

definition closingExample :: Lightbox where
  "closingExample =
     mountedExample
       \<lparr>state := (state mountedExample)\<lparr>isClosing := True\<rparr>,
        pendingTimers := [(1, CloseLightboxFunc, 300)], nextTimerId := 2, timeouts := [1]\<rparr>"

definition unmountedExample :: Lightbox where
  "unmountedExample = closingExample\<lparr>didUnmount := True, pendingTimers := []\<rparr>"

text \<open>The invariant of the viewport: at the minimum zoom level the offset is zero.\<close>

definition centredAtMinZoom :: "Constants \<Rightarrow> Lightbox \<Rightarrow> bool" where
  "centredAtMinZoom c s =
     (zoomLevel (state s) = MIN_ZOOM_LEVEL c \<longrightarrow>
        offsetX (state s) = 0 \<and> offsetY (state s) = 0)"

text \<open>
  States of the example: while the mouse is pressed on the zoomed image, a wheel event
  has zoomed out to the minimum level; the mouse has then moved to (300, 300); the
  mouse button has been released there.
\<close>

definition resetExample :: Lightbox where
  "resetExample =
     pressedExample
       \<lparr>scrollX := 0, scrollY := 0,
        state := (state pressedExample)\<lparr>zoomLevel := 0, offsetX := 0, offsetY := 0\<rparr>\<rparr>"

definition offCentreExample :: Lightbox where
  "offCentreExample =
     resetExample\<lparr>state := (state resetExample)\<lparr>offsetX := 300, offsetY := 0\<rparr>\<rparr>"

definition releasedExample :: Lightbox where
  "releasedExample =
     offCentreExample
       \<lparr>pointerList := [], eventsSource := ANY, currentAction := NONE,
        moveStartX := 0, moveStartY := 0, moveStartOffsetX := 0, moveStartOffsetY := 0,
        preventInnerClose := True, preventInnerCloseTimeout := TimerId 1,
        state := (state offCentreExample)\<lparr>offsetX := 100, offsetY := 0,
                                               shouldAnimate := True\<rparr>,
        pendingTimers := [(1, PreventInnerCloseFunc, 100), (2, ShouldAnimateFalseFunc, 300)],
        timeouts := [1, 2], nextTimerId := 3\<rparr>"








section \<open>Fitting an image into the lightbox\<close>

lemma fit_general:
  fixes w h mw mh :: real
  assumes "0 < w" "0 < h"
  defines "r \<equiv> (if js_gt (js_div mw mh) (js_div w h)
                 then \<lparr>fit_width = js_div (w * mh) h, fit_height = Finite mh\<rparr>
                 else \<lparr>fit_width = Finite mw, fit_height = js_div (h * mw) w\<rparr>)"
  shows "\<exists>fw fh. r = \<lparr>fit_width = Finite fw, fit_height = Finite fh\<rparr>
           \<and> fw * h = fh * w
           \<and> ((fw = 0 \<and> fh = 0) \<longleftrightarrow> (mw = 0 \<or> (mh = 0 \<and> 0 < mw)))
           \<and> (has_ratio r w h \<longleftrightarrow> \<not> (mw = 0 \<or> (mh = 0 \<and> 0 < mw)))"
proof (cases "js_gt (js_div mw mh) (js_div w h)")
  case True
  have q: "\<not> w / h < 0" using assms(1,2) by (simp add: divide_less_0_iff)
  have r: "r = \<lparr>fit_width = Finite (w * mh / h), fit_height = Finite mh\<rparr>"
    using True assms(1,2) by (simp add: r_def js_div_def)
  have c: "mh = 0 \<longrightarrow> 0 < mw" "mw = 0 \<longrightarrow> mh \<noteq> 0 \<and> False"
    using True assms(1,2) q by (auto simp: js_div_def split: if_splits)
  have "w * mh / h * h = mh * w"
    "(w * mh / h = 0 \<and> mh = 0) \<longleftrightarrow> (mw = 0 \<or> (mh = 0 \<and> 0 < mw))"
    "has_ratio \<lparr>fit_width = Finite (w * mh / h), fit_height = Finite mh\<rparr> w h
       \<longleftrightarrow> \<not> (mw = 0 \<or> (mh = 0 \<and> 0 < mw))"
    using assms(1,2) c by (auto simp: has_ratio_def)
  then show ?thesis unfolding r by blast
next
  case False
  have r: "r = \<lparr>fit_width = Finite mw, fit_height = Finite (h * mw / w)\<rparr>"
    using False assms(1,2) by (simp add: r_def js_div_def)
  have c: "mh = 0 \<longrightarrow> \<not> 0 < mw"
    using False assms(1,2) by (auto simp: js_div_def split: if_splits)
  have "mw * h = h * mw / w * w"
    "(mw = 0 \<and> h * mw / w = 0) \<longleftrightarrow> (mw = 0 \<or> (mh = 0 \<and> 0 < mw))"
    "has_ratio \<lparr>fit_width = Finite mw, fit_height = Finite (h * mw / w)\<rparr> w h
       \<longleftrightarrow> \<not> (mw = 0 \<or> (mh = 0 \<and> 0 < mw))"
    using assms(1,2) c by (auto simp: has_ratio_def)
  then show ?thesis unfolding r by blast
qed


lemma getFitSizes_eq:
  "getFitSizes s width height stretch =
     (if js_gt (js_div (if \<not> stretch
                         then min (rect_width (lightboxRect s) - imagePadding (props s) * 2) width
                         else rect_width (lightboxRect s) - imagePadding (props s) * 2)
                       (if \<not> stretch
                         then min (rect_height (lightboxRect s) - imagePadding (props s) * 2) height
                         else rect_height (lightboxRect s) - imagePadding (props s) * 2))
               (js_div width height)
      then \<lparr>fit_width =
              js_div (width * (if \<not> stretch
                         then min (rect_height (lightboxRect s) - imagePadding (props s) * 2) height
                         else rect_height (lightboxRect s) - imagePadding (props s) * 2)) height,
            fit_height =
              Finite (if \<not> stretch
                         then min (rect_height (lightboxRect s) - imagePadding (props s) * 2) height
                         else rect_height (lightboxRect s) - imagePadding (props s) * 2)\<rparr>
      else \<lparr>fit_width =
              Finite (if \<not> stretch
                         then min (rect_width (lightboxRect s) - imagePadding (props s) * 2) width
                         else rect_width (lightboxRect s) - imagePadding (props s) * 2),
            fit_height =
              js_div (height * (if \<not> stretch
                         then min (rect_width (lightboxRect s) - imagePadding (props s) * 2) width
                         else rect_width (lightboxRect s) - imagePadding (props s) * 2)) width\<rparr>)"
  unfolding getFitSizes_def getLightboxRect_def Let_def by (rule refl)

text \<open>
  Claim C10, as amended. Numbers are real numbers. For a positive width and height, and
  every lightbox and image padding, the size that \<open>getFitSizes\<close> returns, stretched or
  not, has two numbers as sides, in the proportion of the input: the fitted width times
  the height is the fitted height times the width. The size is 0 by 0 exactly when the
  width of the lightbox is twice the padding, or its height is twice the padding and
  its width is more; in every other case the ratio of the fitted width to the fitted
  height is the ratio of the width to the height.
\<close>

theorem getFitSizes_keeps_ratio:
  assumes "0 < width" and "0 < height"
  shows "(\<exists>fw fh.
            getFitSizes s width height stretch
              = \<lparr>fit_width = Finite fw, fit_height = Finite fh\<rparr>
            \<and> fw * height = fh * width
            \<and> ((fw = 0 \<and> fh = 0) \<longleftrightarrow>
                 (rect_width (lightboxRect s) = imagePadding (props s) * 2
                  \<or> (rect_height (lightboxRect s) = imagePadding (props s) * 2
                      \<and> imagePadding (props s) * 2 < rect_width (lightboxRect s)))))
         \<and> (has_ratio (getFitSizes s width height stretch) width height \<longleftrightarrow>
              \<not> (rect_width (lightboxRect s) = imagePadding (props s) * 2
                  \<or> (rect_height (lightboxRect s) = imagePadding (props s) * 2
                      \<and> imagePadding (props s) * 2 < rect_width (lightboxRect s))))"
proof -
  define pw where "pw = rect_width (lightboxRect s) - imagePadding (props s) * 2"
  define ph where "ph = rect_height (lightboxRect s) - imagePadding (props s) * 2"
  define mw where "mw = (if \<not> stretch then min pw width else pw)"
  define mh where "mh = (if \<not> stretch then min ph height else ph)"
  have z: "mw = 0 \<longleftrightarrow> rect_width (lightboxRect s) = imagePadding (props s) * 2"
    "mh = 0 \<longleftrightarrow> rect_height (lightboxRect s) = imagePadding (props s) * 2"
    "0 < mw \<longleftrightarrow> imagePadding (props s) * 2 < rect_width (lightboxRect s)"
    using assms by (auto simp: mw_def mh_def pw_def ph_def min_def)
  have e: "getFitSizes s width height stretch =
     (if js_gt (js_div mw mh) (js_div width height)
      then \<lparr>fit_width = js_div (width * mh) height, fit_height = Finite mh\<rparr>
      else \<lparr>fit_width = Finite mw, fit_height = js_div (height * mw) width\<rparr>)"
    unfolding mw_def mh_def pw_def ph_def by (rule getFitSizes_eq)
  show ?thesis
    unfolding e z [symmetric] using fit_general [OF assms, of mw mh] by blast
qed

text \<open>The theorem at an image of 1000 by 500 in a lightbox of 800 by 600, padding 10.\<close>

theorem getFitSizes_keeps_ratio_witness:
  "has_ratio (getFitSizes (constructor exampleConstants exampleProps exampleRect) 1000 500 False)
     1000 500
   \<and> has_ratio (getFitSizes (constructor exampleConstants exampleProps exampleRect) 1000 500 True)
       1000 500"
proof -
  define ex where "ex = constructor exampleConstants exampleProps exampleRect"
  have f: "rect_width (lightboxRect ex) = 800" "rect_height (lightboxRect ex) = 600"
    "imagePadding (props ex) = 10"
    by (simp_all add: ex_def constructor_def exampleProps_def exampleRect_def)
  have "has_ratio (getFitSizes ex 1000 500 False) 1000 500"
    using getFitSizes_keeps_ratio [of 1000 500 ex False] by (simp add: f)
  moreover have "has_ratio (getFitSizes ex 1000 500 True) 1000 500"
    using getFitSizes_keeps_ratio [of 1000 500 ex True] by (simp add: f)
  ultimately show ?thesis unfolding ex_def by simp
qed

text \<open>
  Claim C10 as stated fails for a positive viewport that the padding uses up: in a
  lightbox of 20 by 20 with padding 10, the fitted size of an image of 100 by 50 is
  0 by 0, which has no ratio.
\<close>

theorem getFitSizes_ratio_counterexample:
  "(0::real) < 100 \<and> (0::real) < 50
   \<and> 0 < rect_width (lightboxRect (constructor exampleConstants exampleProps smallRect))
   \<and> 0 < rect_height (lightboxRect (constructor exampleConstants exampleProps smallRect))
   \<and> getFitSizes (constructor exampleConstants exampleProps smallRect) 100 50 False
       = \<lparr>fit_width = Finite 0, fit_height = Finite 0\<rparr>
   \<and> \<not> has_ratio (getFitSizes (constructor exampleConstants exampleProps smallRect) 100 50 False)
          100 50"
  by (simp add: constructor_def exampleProps_def smallRect_def getFitSizes_def
        getLightboxRect_def js_div_def has_ratio_def Let_def)


section \<open>Helper lemmas\<close>

lemma loadSrcType_absent: "props_get p t = None \<Longrightarrow> loadSrcType p s t = s"
  by (simp add: loadSrcType_def truthy_def)

lemma loadSrcType_start:
  "props_get p t = Some u \<Longrightarrow> u \<noteq> [] \<Longrightarrow> loadErrorStatus (state s) t \<noteq> Some True
   \<Longrightarrow> \<not> isImageLoaded s (Some u)
   \<Longrightarrow> loadSrcType p s t = s\<lparr>pendingLoads := pendingLoads s @ [(t, u)]\<rparr>"
  by (simp add: loadSrcType_def truthy_def loadImage_def)

lemma mounted_example:
  "mounted c exampleProps r =
     (constructor c exampleProps r)
       \<lparr>state := (state (constructor c exampleProps r))\<lparr>isClosing := False\<rparr>,
        pendingLoads := [(''mainSrc'', ''b.jpg''), (''nextSrc'', ''c.jpg''),
                         (''prevSrc'', ''a.jpg'')]\<rparr>"
  by (simp add: mounted_def componentDidMount_def loadAllImages_def getSrcTypes_def
        loadSrcType_absent loadSrcType_start constructor_def setState_def props_get_def
        isImageLoaded_def exampleProps_def)


lemma requestMove_frame:
  "pointerList (requestMove c d s) = pointerList s"
  "eventsSource (requestMove c d s) = eventsSource s"
  "currentAction (requestMove c d s) = currentAction s"
  "props (requestMove c d s) = props s"
  "imageCache (requestMove c d s) = imageCache s"
  "lightboxRect (requestMove c d s) = lightboxRect s"
  "didUnmount (requestMove c d s) = didUnmount s"
  "zoomLevel (state (requestMove c d s)) = MIN_ZOOM_LEVEL c"
  "offsetX (state (requestMove c d s)) = 0"
  "offsetY (state (requestMove c d s)) = 0"
  by (simp_all add: requestMove_def setState_def setTimeout_def Let_def)

lemma swipeReset_simps:
  "isAnimating (swipeReset s) = isAnimating s"
  "props (swipeReset s) = props s"
  "calls (swipeReset s) = calls s"
  "getLightboxRect (swipeReset s) = lightboxRect s"
  by (simp_all add: swipeReset_def isAnimating_def getLightboxRect_def)

lemma swipe_cond:
  fixes ax ay m w :: real
  shows "(\<not> (e \<and> \<not> an \<and> ay * 1.5 \<le> ax \<and> (m \<le> ax \<or> w \<le> ax)))
         = ((\<not> e \<or> an \<or> ax < ay * 1.5) \<or> (ax < m \<and> ax < w))"
  by (auto simp: not_le)

lemma if_twice: "(if A then R else if B then R else X) = (if A \<or> B then R else X)"
  by simp

lemma handleSwipeEnd_eq:
  "handleSwipeEnd c event s =
     (if \<not> swipeCommits c event s then swipeReset s
      else if swipeEndX s - swipeStartX s > 0 \<and> truthy (prevSrc (props s))
      then requestMovePrev c (swipeReset s)
      else if swipeEndX s - swipeStartX s < 0 \<and> truthy (nextSrc (props s))
      then requestMoveNext c (swipeReset s)
      else swipeReset s)"
  unfolding handleSwipeEnd_def Let_def swipeReset_def [symmetric] swipeReset_simps
    swipeCommits_def swipe_cond if_twice
  by (rule refl)


section \<open>Ending a pan\<close>

lemma getBestImageForType_cong:
  assumes "props s' = props s" and "imageCache s' = imageCache s"
    and "lightboxRect s' = lightboxRect s"
  shows "getBestImageForType s' t = getBestImageForType s t"
  unfolding getBestImageForType_def isImageLoaded_def imageInfo_def getFitSizes_def
    getLightboxRect_def assms
  by (rule refl)

lemma getMaxOffsets_cong:
  assumes "props s' = props s" and "imageCache s' = imageCache s"
    and "lightboxRect s' = lightboxRect s" and "zoomLevel (state s') = zoomLevel (state s)"
  shows "getMaxOffsets c s' = getMaxOffsets c s"
proof -
  have "getBestImageForType s' ''mainSrc'' = getBestImageForType s ''mainSrc''"
    using assms(1-3) by (rule getBestImageForType_cong)
  then show ?thesis
    unfolding getMaxOffsets_def getLightboxRect_def assms by simp
qed

lemma getMaxOffsets_symmetric:
  "0 \<le> maxX (getMaxOffsets c s) \<and> minX (getMaxOffsets c s) = - maxX (getMaxOffsets c s)
   \<and> 0 \<le> maxY (getMaxOffsets c s) \<and> minY (getMaxOffsets c s) = - maxY (getMaxOffsets c s)"
  by (simp add: getMaxOffsets_def Let_def split: option.split)

lemma clamp_in_range:
  fixes b x :: real
  shows "0 \<le> b \<Longrightarrow> - b \<le> max (- b) (min b x) \<and> max (- b) (min b x) \<le> b"
  by simp

lemma clamp_inside:
  fixes b x :: real
  shows "- b \<le> x \<Longrightarrow> x \<le> b \<Longrightarrow> max (- b) (min b x) = x"
  by simp

lemma clamp_outside:
  fixes b x :: real
  shows "max (- b) (min b x) \<noteq> x \<Longrightarrow> x < - b \<or> b < x"
  unfolding max_def min_def by (auto split: if_splits)

lemma clamp_idem:
  fixes b x :: real
  shows "0 \<le> b \<Longrightarrow> max (- b) (min b (max (- b) (min b x))) = max (- b) (min b x)"
  by simp

lemma moveReset_frame:
  "props (moveReset s) = props s" "imageCache (moveReset s) = imageCache s"
  "lightboxRect (moveReset s) = lightboxRect s" "state (moveReset s) = state s"
  "pendingTimers (moveReset s) = pendingTimers s" "nextTimerId (moveReset s) = nextTimerId s"
  "timeouts (moveReset s) = timeouts s" "currentAction (moveReset s) = NONE"
  "pointerList (moveReset s) = pointerList s" "eventsSource (moveReset s) = eventsSource s"
  "didUnmount (moveReset s) = didUnmount s" "calls (moveReset s) = calls s"
  by (simp_all add: moveReset_def)

lemma getMaxOffsets_moveReset: "getMaxOffsets c (moveReset s) = getMaxOffsets c s"
  by (rule getMaxOffsets_cong) (simp_all add: moveReset_frame)

text \<open>The two outcomes of \<open>handleMoveEnd\<close>, with the clamped offsets named.\<close>

lemma handleMoveEnd_eq:
  "handleMoveEnd c s =
     (let nx = max (minX (getMaxOffsets c s)) (min (maxX (getMaxOffsets c s)) (offsetX (state s)));
          ny = max (minY (getMaxOffsets c s)) (min (maxY (getMaxOffsets c s)) (offsetY (state s)))
      in if nx \<noteq> offsetX (state s) \<or> ny \<noteq> offsetY (state s)
         then snd (setTimeout ShouldAnimateFalseFunc (animationDuration (props s))
                     (setState (\<lambda>st. st\<lparr>offsetX := nx, offsetY := ny, shouldAnimate := True\<rparr>)
                        (moveReset s)))
         else moveReset s)"
  unfolding handleMoveEnd_def moveReset_def [symmetric] Let_def getMaxOffsets_moveReset
    moveReset_frame
  by (rule refl)

lemma handleMoveEnd_offsets:
  "offsetX (state (handleMoveEnd c s)) =
     max (minX (getMaxOffsets c s)) (min (maxX (getMaxOffsets c s)) (offsetX (state s)))"
  "offsetY (state (handleMoveEnd c s)) =
     max (minY (getMaxOffsets c s)) (min (maxY (getMaxOffsets c s)) (offsetY (state s)))"
proof -
  define nx where
    "nx = max (minX (getMaxOffsets c s)) (min (maxX (getMaxOffsets c s)) (offsetX (state s)))"
  define ny where
    "ny = max (minY (getMaxOffsets c s)) (min (maxY (getMaxOffsets c s)) (offsetY (state s)))"
  have e: "handleMoveEnd c s =
     (if nx \<noteq> offsetX (state s) \<or> ny \<noteq> offsetY (state s)
      then snd (setTimeout ShouldAnimateFalseFunc (animationDuration (props s))
                  (setState (\<lambda>st. st\<lparr>offsetX := nx, offsetY := ny, shouldAnimate := True\<rparr>)
                     (moveReset s)))
      else moveReset s)"
    unfolding nx_def ny_def handleMoveEnd_eq Let_def by (rule refl)
  show "offsetX (state (handleMoveEnd c s)) =
     max (minX (getMaxOffsets c s)) (min (maxX (getMaxOffsets c s)) (offsetX (state s)))"
    unfolding nx_def [symmetric] e
    by (cases "nx \<noteq> offsetX (state s) \<or> ny \<noteq> offsetY (state s)")
       (simp_all add: setTimeout_def setState_def moveReset_frame Let_def)
  show "offsetY (state (handleMoveEnd c s)) =
     max (minY (getMaxOffsets c s)) (min (maxY (getMaxOffsets c s)) (offsetY (state s)))"
    unfolding ny_def [symmetric] e
    by (cases "nx \<noteq> offsetX (state s) \<or> ny \<noteq> offsetY (state s)")
       (simp_all add: setTimeout_def setState_def moveReset_frame Let_def)
qed

lemma handleMoveEnd_frame:
  "props (handleMoveEnd c s) = props s"
  "imageCache (handleMoveEnd c s) = imageCache s"
  "lightboxRect (handleMoveEnd c s) = lightboxRect s"
  "zoomLevel (state (handleMoveEnd c s)) = zoomLevel (state s)"
  "currentAction (handleMoveEnd c s) = NONE"
  "pointerList (handleMoveEnd c s) = pointerList s"
  "eventsSource (handleMoveEnd c s) = eventsSource s"
  "didUnmount (handleMoveEnd c s) = didUnmount s"
  "calls (handleMoveEnd c s) = calls s"
  unfolding handleMoveEnd_eq Let_def
  by (simp_all add: setTimeout_def setState_def moveReset_frame Let_def)


lemma getMaxOffsets_handleMoveEnd: "getMaxOffsets c (handleMoveEnd c s) = getMaxOffsets c s"
  by (rule getMaxOffsets_cong) (simp_all add: handleMoveEnd_frame)

lemma getMaxOffsets_abs:
  "getBestImageForType s ''mainSrc'' = Some img \<Longrightarrow>
     maxX (getMaxOffsets c s) =
       \<bar>getZoomMultiplier c (zoomLevel (state s)) * info_width img - rect_width (lightboxRect s)\<bar> / 2
     \<and> maxY (getMaxOffsets c s) =
       \<bar>getZoomMultiplier c (zoomLevel (state s)) * info_height img - rect_height (lightboxRect s)\<bar> / 2"
  by (simp add: getMaxOffsets_def getLightboxRect_def Let_def abs_if)

lemma getMaxOffsets_no_image:
  "getBestImageForType s ''mainSrc'' = None \<Longrightarrow>
     getMaxOffsets c s = \<lparr>maxX = 0, minX = 0, maxY = 0, minY = 0\<rparr>"
  by (simp add: getMaxOffsets_def)

text \<open>
  Claim C5. \<open>handleMoveEnd\<close> clamps each offset into the range of \<open>getMaxOffsets\<close>:
  symmetric about zero, with half the distance between the scaled image and the
  lightbox as bound on each axis, and zero when no image is known. An offset inside
  the range is left as it is, and nothing else happens than the end of the action;
  clamping again changes nothing. When an offset changed, the state animates and a
  timer is pending for the animation duration that ends the animation.
\<close>

theorem handleMoveEnd_clamps:
  fixes c :: Constants and s :: Lightbox
  defines "m \<equiv> getMaxOffsets c s"
  defines "s' \<equiv> handleMoveEnd c s"
  defines "inside \<equiv> minX m \<le> offsetX (state s) \<and> offsetX (state s) \<le> maxX m
                    \<and> minY m \<le> offsetY (state s) \<and> offsetY (state s) \<le> maxY m"
  shows "offsetX (state s') = max (minX m) (min (maxX m) (offsetX (state s)))
       \<and> offsetY (state s') = max (minY m) (min (maxY m) (offsetY (state s)))
       \<and> minX m \<le> offsetX (state s') \<and> offsetX (state s') \<le> maxX m
       \<and> minY m \<le> offsetY (state s') \<and> offsetY (state s') \<le> maxY m
       \<and> minX m = - maxX m \<and> minY m = - maxY m
       \<and> (getBestImageForType s ''mainSrc'' = None \<longrightarrow> maxX m = 0 \<and> maxY m = 0)
       \<and> (\<forall>img. getBestImageForType s ''mainSrc'' = Some img \<longrightarrow>
             maxX m = \<bar>getZoomMultiplier c (zoomLevel (state s)) * info_width img
                        - rect_width (lightboxRect s)\<bar> / 2
             \<and> maxY m = \<bar>getZoomMultiplier c (zoomLevel (state s)) * info_height img
                          - rect_height (lightboxRect s)\<bar> / 2)
       \<and> (inside \<longrightarrow> s' = moveReset s)
       \<and> (\<not> inside \<longrightarrow>
             shouldAnimate (state s')
             \<and> pendingTimers s' =
                 pendingTimers s @
                   [(nextTimerId s, ShouldAnimateFalseFunc, animationDuration (props s))]
             \<and> timeouts s' = timeouts s @ [nextTimerId s])
       \<and> offsetX (state (handleMoveEnd c s')) = offsetX (state s')
       \<and> offsetY (state (handleMoveEnd c s')) = offsetY (state s')"
proof -
  note sym = getMaxOffsets_symmetric [of c s, folded m_def]
  define ox where "ox = offsetX (state s)"
  define oy where "oy = offsetY (state s)"
  define bx where "bx = maxX m"
  define by' where "by' = maxY m"
  have mins: "minX m = - bx" "minY m = - by'" and nonneg: "0 \<le> bx" "0 \<le> by'"
    using sym by (simp_all add: bx_def by'_def)
  have offs: "offsetX (state s') = max (- bx) (min bx ox)"
    "offsetY (state s') = max (- by') (min by' oy)"
    unfolding s'_def handleMoveEnd_offsets m_def [symmetric] mins
    by (simp_all add: bx_def by'_def ox_def oy_def)
  have range: "- bx \<le> offsetX (state s') \<and> offsetX (state s') \<le> bx"
    "- by' \<le> offsetY (state s') \<and> offsetY (state s') \<le> by'"
    unfolding offs using nonneg by (simp_all only: clamp_in_range)
  have ins: "inside = (- bx \<le> ox \<and> ox \<le> bx \<and> - by' \<le> oy \<and> oy \<le> by')"
    by (simp add: inside_def mins ox_def oy_def bx_def by'_def)
  have e: "s' =
     (if max (- bx) (min bx ox) \<noteq> ox \<or> max (- by') (min by' oy) \<noteq> oy
      then snd (setTimeout ShouldAnimateFalseFunc (animationDuration (props s))
                  (setState (\<lambda>st. st\<lparr>offsetX := max (- bx) (min bx ox),
                                        offsetY := max (- by') (min by' oy),
                                        shouldAnimate := True\<rparr>)
                     (moveReset s)))
      else moveReset s)"
    unfolding s'_def handleMoveEnd_eq Let_def m_def [symmetric] mins
    unfolding bx_def by'_def ox_def oy_def by (rule refl)
  have inside_case: "inside \<longrightarrow> s' = moveReset s"
  proof
    assume inside
    then have "max (- bx) (min bx ox) = ox" "max (- by') (min by' oy) = oy"
      unfolding ins by (simp_all only: clamp_inside)
    then show "s' = moveReset s" unfolding e by simp
  qed
  have outside_case: "\<not> inside \<longrightarrow>
             shouldAnimate (state s')
             \<and> pendingTimers s' =
                 pendingTimers s @
                   [(nextTimerId s, ShouldAnimateFalseFunc, animationDuration (props s))]
             \<and> timeouts s' = timeouts s @ [nextTimerId s]"
  proof
    assume "\<not> inside"
    then have "max (- bx) (min bx ox) \<noteq> ox \<or> max (- by') (min by' oy) \<noteq> oy"
      unfolding ins using clamp_inside [of bx ox] clamp_inside [of by' oy] by (metis clamp_in_range nonneg)
    then have "s' = snd (setTimeout ShouldAnimateFalseFunc (animationDuration (props s))
                  (setState (\<lambda>st. st\<lparr>offsetX := max (- bx) (min bx ox),
                                        offsetY := max (- by') (min by' oy),
                                        shouldAnimate := True\<rparr>)
                     (moveReset s)))"
      unfolding e by (simp only: if_True)
    then show "shouldAnimate (state s')
             \<and> pendingTimers s' =
                 pendingTimers s @
                   [(nextTimerId s, ShouldAnimateFalseFunc, animationDuration (props s))]
             \<and> timeouts s' = timeouts s @ [nextTimerId s]"
      by (simp add: setTimeout_def setState_def moveReset_frame Let_def)
  qed
  have m': "getMaxOffsets c s' = m"
    unfolding s'_def m_def by (rule getMaxOffsets_handleMoveEnd)
  have idem: "offsetX (state (handleMoveEnd c s')) = offsetX (state s')"
    "offsetY (state (handleMoveEnd c s')) = offsetY (state s')"
    unfolding handleMoveEnd_offsets m' mins offs bx_def [symmetric] by'_def [symmetric]
    using nonneg by (simp_all only: clamp_idem)
  have img: "getBestImageForType s ''mainSrc'' = None \<longrightarrow> maxX m = 0 \<and> maxY m = 0"
    unfolding m_def by (simp add: getMaxOffsets_no_image)
  have img': "\<forall>img. getBestImageForType s ''mainSrc'' = Some img \<longrightarrow>
             maxX m = \<bar>getZoomMultiplier c (zoomLevel (state s)) * info_width img
                        - rect_width (lightboxRect s)\<bar> / 2
             \<and> maxY m = \<bar>getZoomMultiplier c (zoomLevel (state s)) * info_height img
                          - rect_height (lightboxRect s)\<bar> / 2"
    unfolding m_def using getMaxOffsets_abs by blast
  show ?thesis
    using offs range mins inside_case outside_case idem img img'
    unfolding ox_def oy_def bx_def by'_def
    by (simp only: simp_thms)
qed

section \<open>Changing the zoom level\<close>

lemma changeZoom_disabled: "\<not> enableZoom (props s) \<Longrightarrow> changeZoom c L cx cy s = s"
  by (simp add: changeZoom_def)

lemma changeZoom_same:
  "max (MIN_ZOOM_LEVEL c) (min (MAX_ZOOM_LEVEL c) L) = zoomLevel (state s)
   \<Longrightarrow> changeZoom c L cx cy s = s"
  by (simp add: changeZoom_def)

lemma changeZoom_reset:
  assumes "enableZoom (props s)"
    and "max (MIN_ZOOM_LEVEL c) (min (MAX_ZOOM_LEVEL c) L) \<noteq> zoomLevel (state s)"
    and "max (MIN_ZOOM_LEVEL c) (min (MAX_ZOOM_LEVEL c) L) = MIN_ZOOM_LEVEL c"
  shows "changeZoom c L cx cy s =
           setState (\<lambda>st. st\<lparr>zoomLevel := MIN_ZOOM_LEVEL c, offsetX := 0, offsetY := 0\<rparr>) s"
  using assms unfolding changeZoom_def Let_def by (simp only: if_True if_False simp_thms)

lemma changeZoom_no_image:
  assumes "getBestImageForType s ''mainSrc'' = None"
    and "max (MIN_ZOOM_LEVEL c) (min (MAX_ZOOM_LEVEL c) L) \<noteq> MIN_ZOOM_LEVEL c"
  shows "changeZoom c L cx cy s = s"
  using assms unfolding changeZoom_def Let_def by (simp only: if_False option.case if_cancel)

lemma changeZoom_anchor:
  assumes "enableZoom (props s)"
    and "n = max (MIN_ZOOM_LEVEL c) (min (MAX_ZOOM_LEVEL c) L)"
    and "n \<noteq> zoomLevel (state s)"
    and "n \<noteq> MIN_ZOOM_LEVEL c"
    and "getBestImageForType s ''mainSrc'' = Some img"
  shows "changeZoom c L cx cy s =
     setState (\<lambda>st. st\<lparr>zoomLevel := n,
        offsetX :=
          (if currentAction s \<noteq> PINCH \<and> zoomLevel (state s) > n
           then max (minX (getMaxOffsets c s)) (min (maxX (getMaxOffsets c s))
                  (anchoredOffset (rect_width (lightboxRect s)) (info_width img)
                     (getZoomMultiplier c (zoomLevel (state s))) (getZoomMultiplier c n)
                     (anchorX s cx) (offsetX (state s))))
           else anchoredOffset (rect_width (lightboxRect s)) (info_width img)
                  (getZoomMultiplier c (zoomLevel (state s))) (getZoomMultiplier c n)
                  (anchorX s cx) (offsetX (state s))),
        offsetY :=
          (if currentAction s \<noteq> PINCH \<and> zoomLevel (state s) > n
           then max (minY (getMaxOffsets c s)) (min (maxY (getMaxOffsets c s))
                  (anchoredOffset (rect_height (lightboxRect s)) (info_height img)
                     (getZoomMultiplier c (zoomLevel (state s))) (getZoomMultiplier c n)
                     (anchorY s cy) (offsetY (state s))))
           else anchoredOffset (rect_height (lightboxRect s)) (info_height img)
                  (getZoomMultiplier c (zoomLevel (state s))) (getZoomMultiplier c n)
                  (anchorY s cy) (offsetY (state s)))\<rparr>) s"
  using assms(1,3,4,5)
  unfolding changeZoom_def Let_def assms(2) [symmetric] anchoredOffset_def anchorX_def
    anchorY_def getLightboxRect_def
  by (simp only: if_False simp_thms option.case)


lemma getZoomMultiplier_pos: "0 < ZOOM_RATIO c \<Longrightarrow> 0 < getZoomMultiplier c z"
  by (simp add: getZoomMultiplier_def)

lemma anchoredOffset_keeps_point:
  assumes "nm \<noteq> 0"
  shows "(p - ((box - img * nm) / 2 - anchoredOffset box img cm nm p off)) / nm
         = (p - ((box - img * cm) / 2 - off)) / cm"
proof -
  have "p - ((box - img * nm) / 2 - anchoredOffset box img cm nm p off)
        = (p - ((box - img * cm) / 2 - off)) / cm * nm"
    by (simp add: anchoredOffset_def)
  then show ?thesis using assms by simp
qed

lemma setState_frame:
  "props (setState f s) = props s" "imageCache (setState f s) = imageCache s"
  "lightboxRect (setState f s) = lightboxRect s" "state (setState f s) = f (state s)"
  "currentAction (setState f s) = currentAction s"
  "pendingTimers (setState f s) = pendingTimers s" "timeouts (setState f s) = timeouts s"
  "didUnmount (setState f s) = didUnmount s" "calls (setState f s) = calls s"
  "pointerList (setState f s) = pointerList s" "eventsSource (setState f s) = eventsSource s"
  "nextTimerId (setState f s) = nextTimerId s" "pendingLoads (setState f s) = pendingLoads s"
  by (simp_all add: setState_def)

lemma getBestImageForType_setState:
  "getBestImageForType (setState f s) t = getBestImageForType s t"
  by (rule getBestImageForType_cong) (simp_all add: setState_frame)

text \<open>The image point under a point of the lightbox, for a state with a known image.\<close>

lemma imagePoint_setState:
  assumes "getBestImageForType s ''mainSrc'' = Some img"
  shows "imagePointX c (setState (\<lambda>st. st\<lparr>zoomLevel := n, offsetX := ox, offsetY := oy\<rparr>) s) p
         = Some ((p - ((rect_width (lightboxRect s) - info_width img * getZoomMultiplier c n) / 2
                      - ox)) / getZoomMultiplier c n)"
    and "imagePointY c (setState (\<lambda>st. st\<lparr>zoomLevel := n, offsetX := ox, offsetY := oy\<rparr>) s) p
         = Some ((p - ((rect_height (lightboxRect s) - info_height img * getZoomMultiplier c n) / 2
                      - oy)) / getZoomMultiplier c n)"
  unfolding imagePointX_def imagePointY_def getBestImageForType_setState assms
  by (simp_all add: setState_frame getLightboxRect_def)

lemma imagePoint_known:
  assumes "getBestImageForType s ''mainSrc'' = Some img"
  shows "imagePointX c s p
         = Some ((p - ((rect_width (lightboxRect s)
                        - info_width img * getZoomMultiplier c (zoomLevel (state s))) / 2
                      - offsetX (state s))) / getZoomMultiplier c (zoomLevel (state s)))"
    and "imagePointY c s p
         = Some ((p - ((rect_height (lightboxRect s)
                        - info_height img * getZoomMultiplier c (zoomLevel (state s))) / 2
                      - offsetY (state s))) / getZoomMultiplier c (zoomLevel (state s)))"
  unfolding imagePointX_def imagePointY_def assms
  by (simp_all add: getLightboxRect_def)

lemma clamp_fixed:
  fixes lo hi x :: real
  assumes "lo \<le> hi"
  shows "max lo (min hi x) = x \<longleftrightarrow> lo \<le> x \<and> x \<le> hi"
  using assms unfolding max_def min_def by auto

lemma getMaxOffsets_ordered:
  "minX (getMaxOffsets c s) \<le> maxX (getMaxOffsets c s)"
  "minY (getMaxOffsets c s) \<le> maxY (getMaxOffsets c s)"
  by (auto simp: getMaxOffsets_def Let_def split: option.split)

lemma imagePoint_offset:
  fixes p box img zm ox ax :: real
  assumes "zm \<noteq> 0"
  shows "(p - ((box - img * zm) / 2 - ox)) / zm = (p - ((box - img * zm) / 2 - ax)) / zm
         \<longleftrightarrow> ox = ax"
  using assms by simp

text \<open>
  Claim C1, as amended. Numbers are real numbers and \<open>ZOOM_RATIO\<close> is positive.
  \<open>changeZoom\<close> clamps the level \<open>L\<close> to \<open>n\<close> and changes nothing but the zoom level and
  the offset. It changes nothing at all when zoom is disabled, when \<open>n\<close> is the current
  level, and when \<open>n\<close> is not \<open>MIN_ZOOM_LEVEL\<close> and no size of the current image is
  known. Otherwise the zoom level becomes \<open>n\<close>. When \<open>n\<close> is \<open>MIN_ZOOM_LEVEL\<close>, the offset
  is reset to zero. During a pinch, and when the level increases, the offset becomes the
  anchored offset, and the coordinate of the image under the anchor is the same before
  and after. When the level decreases outside a pinch, the offset becomes the anchored
  offset clamped into the range of \<open>getMaxOffsets\<close> at the level before the zoom, and on
  each axis the coordinate under the anchor is the same before and after exactly when
  the anchored offset lies in that range.
\<close>

theorem changeZoom_keeps_anchor:
  fixes c :: Constants and s :: Lightbox and L :: real and cx cy :: "real option"
  assumes ratio: "0 < ZOOM_RATIO c"
  defines "n \<equiv> max (MIN_ZOOM_LEVEL c) (min (MAX_ZOOM_LEVEL c) L)"
  defines "s' \<equiv> changeZoom c L cx cy s"
  defines "m \<equiv> getMaxOffsets c s"
  defines "ax \<equiv> \<lambda>img. anchoredOffset (rect_width (lightboxRect s)) (info_width img)
                         (getZoomMultiplier c (zoomLevel (state s))) (getZoomMultiplier c n)
                         (anchorX s cx) (offsetX (state s))"
  defines "ay \<equiv> \<lambda>img. anchoredOffset (rect_height (lightboxRect s)) (info_height img)
                         (getZoomMultiplier c (zoomLevel (state s))) (getZoomMultiplier c n)
                         (anchorY s cy) (offsetY (state s))"
  shows "s' = setState (\<lambda>st. st\<lparr>zoomLevel := zoomLevel (state s'),
                                  offsetX := offsetX (state s'),
                                  offsetY := offsetY (state s')\<rparr>) s
       \<and> (\<not> enableZoom (props s) \<or> n = zoomLevel (state s)
           \<or> (n \<noteq> MIN_ZOOM_LEVEL c \<and> getBestImageForType s ''mainSrc'' = None)
           \<longrightarrow> s' = s)
       \<and> (enableZoom (props s) \<and> n \<noteq> zoomLevel (state s) \<and> n = MIN_ZOOM_LEVEL c \<longrightarrow>
            zoomLevel (state s') = n \<and> offsetX (state s') = 0 \<and> offsetY (state s') = 0)
       \<and> (\<forall>img. enableZoom (props s) \<and> n \<noteq> zoomLevel (state s) \<and> n \<noteq> MIN_ZOOM_LEVEL c
                 \<and> getBestImageForType s ''mainSrc'' = Some img \<longrightarrow>
            zoomLevel (state s') = n
            \<and> (currentAction s = PINCH \<or> zoomLevel (state s) < n \<longrightarrow>
                 offsetX (state s') = ax img \<and> offsetY (state s') = ay img
                 \<and> imagePointX c s' (anchorX s cx) = imagePointX c s (anchorX s cx)
                 \<and> imagePointY c s' (anchorY s cy) = imagePointY c s (anchorY s cy))
            \<and> (currentAction s \<noteq> PINCH \<and> n < zoomLevel (state s) \<longrightarrow>
                 offsetX (state s') = max (minX m) (min (maxX m) (ax img))
                 \<and> offsetY (state s') = max (minY m) (min (maxY m) (ay img))
                 \<and> (imagePointX c s' (anchorX s cx) = imagePointX c s (anchorX s cx)
                      \<longleftrightarrow> minX m \<le> ax img \<and> ax img \<le> maxX m)
                 \<and> (imagePointY c s' (anchorY s cy) = imagePointY c s (anchorY s cy)
                      \<longleftrightarrow> minY m \<le> ay img \<and> ay img \<le> maxY m)))"
proof -
  have noop: "s' = s"
    if "\<not> enableZoom (props s) \<or> n = zoomLevel (state s)
        \<or> (n \<noteq> MIN_ZOOM_LEVEL c \<and> getBestImageForType s ''mainSrc'' = None)"
    using that unfolding s'_def n_def
    by (metis changeZoom_disabled changeZoom_same changeZoom_no_image)
  have reset: "s' = setState (\<lambda>st. st\<lparr>zoomLevel := n, offsetX := 0, offsetY := 0\<rparr>) s"
    if "enableZoom (props s) \<and> n \<noteq> zoomLevel (state s) \<and> n = MIN_ZOOM_LEVEL c"
    using that unfolding s'_def n_def by (simp add: changeZoom_reset)
  have anch: "s' = setState (\<lambda>st. st\<lparr>zoomLevel := n,
        offsetX := (if currentAction s \<noteq> PINCH \<and> zoomLevel (state s) > n
                    then max (minX m) (min (maxX m) (ax img)) else ax img),
        offsetY := (if currentAction s \<noteq> PINCH \<and> zoomLevel (state s) > n
                    then max (minY m) (min (maxY m) (ay img)) else ay img)\<rparr>) s"
    if "enableZoom (props s) \<and> n \<noteq> zoomLevel (state s) \<and> n \<noteq> MIN_ZOOM_LEVEL c
        \<and> getBestImageForType s ''mainSrc'' = Some img" for img
    unfolding s'_def ax_def ay_def m_def
    by (rule changeZoom_anchor) (use that in \<open>simp_all add: n_def\<close>)
  have idem: "t = setState (\<lambda>st. st\<lparr>zoomLevel := zoomLevel (state t),
                                  offsetX := offsetX (state t),
                                  offsetY := offsetY (state t)\<rparr>) s"
    if "t = setState (\<lambda>st. st\<lparr>zoomLevel := a, offsetX := b, offsetY := d\<rparr>) s" for t a b d
    unfolding that by (simp add: setState_def)
  have same: "s = setState (\<lambda>st. st\<lparr>zoomLevel := zoomLevel (state s),
                                  offsetX := offsetX (state s),
                                  offsetY := offsetY (state s)\<rparr>) s"
    by (simp add: setState_def)
  have frame: "s' = setState (\<lambda>st. st\<lparr>zoomLevel := zoomLevel (state s'),
                                  offsetX := offsetX (state s'),
                                  offsetY := offsetY (state s')\<rparr>) s"
  proof -
    consider "\<not> enableZoom (props s) \<or> n = zoomLevel (state s)
        \<or> (n \<noteq> MIN_ZOOM_LEVEL c \<and> getBestImageForType s ''mainSrc'' = None)"
      | "enableZoom (props s) \<and> n \<noteq> zoomLevel (state s) \<and> n = MIN_ZOOM_LEVEL c"
      | img where "enableZoom (props s) \<and> n \<noteq> zoomLevel (state s) \<and> n \<noteq> MIN_ZOOM_LEVEL c
        \<and> getBestImageForType s ''mainSrc'' = Some img"
      by (cases "getBestImageForType s ''mainSrc''") auto
    then show ?thesis
    proof cases
      case 1
      show ?thesis unfolding noop [OF 1] by (rule same)
    next
      case 2
      show ?thesis by (rule idem [OF reset [OF 2]])
    next
      case 3
      show ?thesis by (rule idem [OF anch [OF 3]])
    qed
  qed
  have R: "zoomLevel (state s') = n \<and> offsetX (state s') = 0 \<and> offsetY (state s') = 0"
    if "enableZoom (props s) \<and> n \<noteq> zoomLevel (state s) \<and> n = MIN_ZOOM_LEVEL c"
    unfolding reset [OF that] by (simp add: setState_frame)
  have A: "zoomLevel (state s') = n
            \<and> (currentAction s = PINCH \<or> zoomLevel (state s) < n \<longrightarrow>
                 offsetX (state s') = ax img \<and> offsetY (state s') = ay img
                 \<and> imagePointX c s' (anchorX s cx) = imagePointX c s (anchorX s cx)
                 \<and> imagePointY c s' (anchorY s cy) = imagePointY c s (anchorY s cy))
            \<and> (currentAction s \<noteq> PINCH \<and> n < zoomLevel (state s) \<longrightarrow>
                 offsetX (state s') = max (minX m) (min (maxX m) (ax img))
                 \<and> offsetY (state s') = max (minY m) (min (maxY m) (ay img))
                 \<and> (imagePointX c s' (anchorX s cx) = imagePointX c s (anchorX s cx)
                      \<longleftrightarrow> minX m \<le> ax img \<and> ax img \<le> maxX m)
                 \<and> (imagePointY c s' (anchorY s cy) = imagePointY c s (anchorY s cy)
                      \<longleftrightarrow> minY m \<le> ay img \<and> ay img \<le> maxY m))"
    if h: "enableZoom (props s) \<and> n \<noteq> zoomLevel (state s) \<and> n \<noteq> MIN_ZOOM_LEVEL c
        \<and> getBestImageForType s ''mainSrc'' = Some img" for img
  proof -
    from h have img: "getBestImageForType s ''mainSrc'' = Some img" and ne: "n \<noteq> zoomLevel (state s)"
      by simp_all
    define cl where "cl = (currentAction s \<noteq> PINCH \<and> zoomLevel (state s) > n)"
    define ox where "ox = (if cl then max (minX m) (min (maxX m) (ax img)) else ax img)"
    define oy where "oy = (if cl then max (minY m) (min (maxY m) (ay img)) else ay img)"
    have e: "s' = setState (\<lambda>st. st\<lparr>zoomLevel := n, offsetX := ox, offsetY := oy\<rparr>) s"
      unfolding ox_def oy_def cl_def by (rule anch [OF h])
    have zm0: "getZoomMultiplier c n \<noteq> 0"
      using getZoomMultiplier_pos [OF ratio, of n] by simp
    have lev: "zoomLevel (state s') = n" and offs: "offsetX (state s') = ox" "offsetY (state s') = oy"
      unfolding e by (simp_all add: setState_frame)
    have kx: "imagePointX c s (anchorX s cx)
              = Some ((anchorX s cx - ((rect_width (lightboxRect s)
                          - info_width img * getZoomMultiplier c n) / 2 - ax img))
                      / getZoomMultiplier c n)"
      unfolding imagePoint_known(1) [OF img] ax_def
      using anchoredOffset_keeps_point [OF zm0] by simp
    have ky: "imagePointY c s (anchorY s cy)
              = Some ((anchorY s cy - ((rect_height (lightboxRect s)
                          - info_height img * getZoomMultiplier c n) / 2 - ay img))
                      / getZoomMultiplier c n)"
      unfolding imagePoint_known(2) [OF img] ay_def
      using anchoredOffset_keeps_point [OF zm0] by simp
    have px: "imagePointX c s' (anchorX s cx) = imagePointX c s (anchorX s cx) \<longleftrightarrow> ox = ax img"
      unfolding kx unfolding e imagePoint_setState(1) [OF img] option.inject
      by (rule imagePoint_offset [OF zm0])
    have py: "imagePointY c s' (anchorY s cy) = imagePointY c s (anchorY s cy) \<longleftrightarrow> oy = ay img"
      unfolding ky unfolding e imagePoint_setState(2) [OF img] option.inject
      by (rule imagePoint_offset [OF zm0])
    have B: "offsetX (state s') = ax img \<and> offsetY (state s') = ay img
                 \<and> imagePointX c s' (anchorX s cx) = imagePointX c s (anchorX s cx)
                 \<and> imagePointY c s' (anchorY s cy) = imagePointY c s (anchorY s cy)"
      if "currentAction s = PINCH \<or> zoomLevel (state s) < n"
    proof -
      from that have "\<not> cl" unfolding cl_def by auto
      then have "ox = ax img" "oy = ay img" by (simp_all add: ox_def oy_def)
      then show ?thesis using px py offs by simp
    qed
    have C: "offsetX (state s') = max (minX m) (min (maxX m) (ax img))
                 \<and> offsetY (state s') = max (minY m) (min (maxY m) (ay img))
                 \<and> (imagePointX c s' (anchorX s cx) = imagePointX c s (anchorX s cx)
                      \<longleftrightarrow> minX m \<le> ax img \<and> ax img \<le> maxX m)
                 \<and> (imagePointY c s' (anchorY s cy) = imagePointY c s (anchorY s cy)
                      \<longleftrightarrow> minY m \<le> ay img \<and> ay img \<le> maxY m)"
      if "currentAction s \<noteq> PINCH \<and> n < zoomLevel (state s)"
    proof -
      from that have cl unfolding cl_def by auto
      then have o: "ox = max (minX m) (min (maxX m) (ax img))"
        "oy = max (minY m) (min (maxY m) (ay img))"
        by (simp_all add: ox_def oy_def)
      have fx: "ox = ax img \<longleftrightarrow> minX m \<le> ax img \<and> ax img \<le> maxX m"
        unfolding o m_def by (rule clamp_fixed) (rule getMaxOffsets_ordered)
      have fy: "oy = ay img \<longleftrightarrow> minY m \<le> ay img \<and> ay img \<le> maxY m"
        unfolding o m_def by (rule clamp_fixed) (rule getMaxOffsets_ordered)
      show ?thesis
        unfolding offs px py fx fy using o by simp
    qed
    from lev B C show ?thesis by blast
  qed
  from frame noop R A show ?thesis by blast
qed

section \<open>Runs of the example\<close>

lemma getBestImageForType_loaded:
  assumes "props_get (props s) t = Some u" and "u \<noteq> []" and "imageCache s u = Some e"
    and "loaded e"
  shows "\<exists>img. getBestImageForType s t = Some img \<and> info_width img = img_width e
               \<and> info_height img = img_height e \<and> info_src img = u"
  using assms by (simp add: getBestImageForType_def isImageLoaded_def imageInfo_def Let_def)

lemma anchoredOffset_centre:
  "cm \<noteq> 0 \<Longrightarrow> anchoredOffset box img cm nm (box / 2) 0 = 0"
  by (simp add: anchoredOffset_def field_simps)

lemma dispatch_simps:
  "(t, u) \<in> set (pendingLoads s) \<Longrightarrow>
     dispatch c (ImageLoaded t u w h) s =
       Some (imageOnLoad t u w h (s\<lparr>pendingLoads := remove1 (t, u) (pendingLoads s)\<rparr>))"
  "(t, u) \<in> set (pendingLoads s) \<Longrightarrow>
     dispatch c (ImageErrored t u) s =
       Some (imageOnError t u (s\<lparr>pendingLoads := remove1 (t, u) (pendingLoads s)\<rparr>))"
  "dispatch c (TimerFires tid) s = Some (fireTimer tid s)"
  "\<not> didUnmount s \<Longrightarrow> dispatch c (MouseDown b x y) s = handleMouseDown c b x y s"
  "\<not> didUnmount s \<Longrightarrow> dispatch c (MouseMove x y) s = handleMouseMove c x y s"
  "\<not> didUnmount s \<Longrightarrow> dispatch c (MouseUp x y) s = handleMouseUp c x y s"
  "\<not> didUnmount s \<Longrightarrow> dispatch c (TouchStart b ts) s = handleTouchStart c b ts s"
  "\<not> didUnmount s \<Longrightarrow> dispatch c (TouchMove ts) s = handleTouchMove c ts s"
  "\<not> didUnmount s \<Longrightarrow> dispatch c (TouchEnd ts) s = handleTouchEnd c ts s"
  "\<not> didUnmount s \<Longrightarrow>
     dispatch c (ImageWheel dx dy wx wy) s = Some (handleImageMouseWheel c dx dy wx wy s)"
  "\<not> didUnmount s \<Longrightarrow>
     dispatch c (ReceiveProps np) s =
       Some ((UNSAFE_componentWillReceiveProps np s)\<lparr>props := np\<rparr>)"
  "\<not> didUnmount s \<Longrightarrow> dispatch c Unmount s = Some (componentWillUnmount s)"
  by (simp_all add: dispatch_def)


lemma mountedExample_fields:
  "props mountedExample = exampleProps"
  "state mountedExample =
     \<lparr>isClosing = False, shouldAnimate = False, zoomLevel = 0, offsetX = 0, offsetY = 0,
      loadErrorStatus = Map.empty\<rparr>"
  "timeouts mountedExample = []"
  "currentAction mountedExample = NONE"
  "eventsSource mountedExample = ANY"
  "pointerList mountedExample = []"
  "preventInnerClose mountedExample = False"
  "preventInnerCloseTimeout mountedExample = Undefined"
  "keyPressed mountedExample = False"
  "imageCache mountedExample = Map.empty"
  "resizeTimeout mountedExample = Undefined"
  "wheelActionTimeout mountedExample = Undefined"
  "resetScrollTimeout mountedExample = Undefined"
  "scrollX mountedExample = 0" "scrollY mountedExample = 0"
  "moveStartX mountedExample = 0" "moveStartY mountedExample = 0"
  "moveStartOffsetX mountedExample = 0" "moveStartOffsetY mountedExample = 0"
  "swipeStartX mountedExample = 0" "swipeStartY mountedExample = 0"
  "swipeEndX mountedExample = 0" "swipeEndY mountedExample = 0"
  "pinchTouchList mountedExample = []" "pinchDistance mountedExample = 0"
  "keyCounter mountedExample = 0" "moveRequested mountedExample = False"
  "didUnmount mountedExample = False"
  "lightboxRect mountedExample = exampleRect"
  "pendingTimers mountedExample = []" "nextTimerId mountedExample = 1"
  "pendingLoads mountedExample =
     [(''mainSrc'', ''b.jpg''), (''nextSrc'', ''c.jpg''), (''prevSrc'', ''a.jpg'')]"
  "calls mountedExample = []"
  unfolding mountedExample_def mounted_example
  by (simp_all add: constructor_def exampleConstants_def exampleProps_def)

lemma exampleConstants_fields:
  "MIN_ZOOM_LEVEL exampleConstants = 0" "MAX_ZOOM_LEVEL exampleConstants = 300"
  "ZOOM_RATIO exampleConstants = 1.007" "ZOOM_BUTTON_INCREMENT_SIZE exampleConstants = 100"
  "WHEEL_MOVE_X_THRESHOLD exampleConstants = 200" "WHEEL_MOVE_Y_THRESHOLD exampleConstants = 1"
  "MIN_SWIPE_DISTANCE exampleConstants = 200"
  by (simp_all add: exampleConstants_def)

lemma exampleProps_fields:
  "mainSrc exampleProps = ''b.jpg''" "prevSrc exampleProps = Some ''a.jpg''"
  "nextSrc exampleProps = Some ''c.jpg''" "mainSrcThumbnail exampleProps = None"
  "prevSrcThumbnail exampleProps = None" "nextSrcThumbnail exampleProps = None"
  "animationDisabled exampleProps = False" "animationOnKeyInput exampleProps = False"
  "animationDuration exampleProps = 300" "enableZoom exampleProps = True"
  "imagePadding exampleProps = 10"
  by (simp_all add: exampleProps_def)

lemma exampleRect_fields:
  "rect_width exampleRect = 800" "rect_height exampleRect = 600"
  "rect_left exampleRect = 0" "rect_top exampleRect = 0"
  by (simp_all add: exampleRect_def)

lemmas example_defs = exampleConstants_fields exampleProps_fields exampleRect_fields

text \<open>The example: the main image of 1000 by 500 has loaded.\<close>

lemma run_loaded:
  "dispatch exampleConstants (ImageLoaded ''mainSrc'' ''b.jpg'' 1000 500) mountedExample =
     Some loadedExample"
  by (simp add: dispatch_simps mountedExample_fields imageOnLoad_def loadDoneCallback_def
        props_get_def example_defs loadedExample_def)

lemmas example_states =
  draggedExample_def pressedExample_def zoomedExample_def loadedExample_def

lemma example_image:
  assumes "props s = exampleProps" and "imageCache s = imageCache loadedExample"
    and "lightboxRect s = exampleRect"
  shows "getBestImageForType s ''mainSrc'' =
     Some \<lparr>info_src = ''b.jpg'', info_height = 500, info_width = 1000,
           targetHeight = Finite 390, targetWidth = Finite 780\<rparr>"
  by (simp add: getBestImageForType_def isImageLoaded_def imageInfo_def getFitSizes_def
        getLightboxRect_def js_div_def assms props_get_def example_defs loadedExample_def
        Let_def)

lemma run_zoomed:
  "dispatch exampleConstants (ImageWheel 0 (- 2) 400 300) loadedExample = Some zoomedExample"
proof -
  have f: "\<not> didUnmount loadedExample" "enableZoom (props loadedExample)"
    "zoomLevel (state loadedExample) = 0" "currentAction loadedExample = NONE"
    "offsetX (state loadedExample) = 0" "offsetY (state loadedExample) = 0"
    "lightboxRect loadedExample = exampleRect" "scrollY loadedExample = 0"
    by (simp_all add: loadedExample_def mountedExample_fields example_defs)
  have img: "getBestImageForType (loadedExample\<lparr>scrollX := 0, scrollY := - 2\<rparr>) ''mainSrc'' =
     Some \<lparr>info_src = ''b.jpg'', info_height = 500, info_width = 1000,
           targetHeight = Finite 390, targetWidth = Finite 780\<rparr>"
    by (rule example_image) (simp_all add: loadedExample_def mountedExample_fields)
  have z: "changeZoom exampleConstants 2 (Some 400) (Some 300)
             (loadedExample\<lparr>scrollX := 0, scrollY := - 2\<rparr>)
           = zoomedExample"
    by (subst changeZoom_anchor [OF _ _ _ _ img, of 2])
       (simp_all add: f example_defs zoomedExample_def setState_def anchorX_def anchorY_def
          getLightboxRect_def anchoredOffset_def getZoomMultiplier_def loadedExample_def
          mountedExample_fields)
  show ?thesis
    by (simp add: dispatch_simps f handleImageMouseWheel_def example_defs z)
qed


lemma run_pressed:
  "dispatch exampleConstants (MouseDown True 600 300) zoomedExample = Some pressedExample"
  by (simp add: dispatch_simps handleMouseDown_def shouldHandleEvent_def addPointer_def
        multiPointerStart_def handleEnd_def decideMoveOrSwipe_def handleMoveStart_def
        parseMouseEvent_def Let_def pressedExample_def zoomedExample_def loadedExample_def
        mountedExample_fields example_defs)

lemma run_dragged:
  "dispatch exampleConstants (MouseMove 300 300) pressedExample = Some draggedExample"
  by (simp add: dispatch_simps handleMouseMove_def shouldHandleEvent_def
        multiPointerMove_def handleMove_def setState_def
        parseMouseEvent_def Let_def draggedExample_def pressedExample_def zoomedExample_def
        loadedExample_def mountedExample_fields example_defs)

lemma run_example:
  "run exampleConstants
     [ImageLoaded ''mainSrc'' ''b.jpg'' 1000 500, ImageWheel 0 (- 2) 400 300,
      MouseDown True 600 300, MouseMove 300 300] mountedExample
   = Some draggedExample"
  by (simp add: run_loaded run_zoomed run_pressed run_dragged)

lemma draggedExample_fields:
  "props draggedExample = exampleProps" "lightboxRect draggedExample = exampleRect"
  "imageCache draggedExample = imageCache loadedExample"
  "zoomLevel (state draggedExample) = 2" "offsetX (state draggedExample) = 300"
  "offsetY (state draggedExample) = 0" "currentAction draggedExample = MOVE"
  "didUnmount draggedExample = False"
  by (simp_all add: example_states mountedExample_fields)

lemma example_multipliers:
  "getZoomMultiplier exampleConstants 0 = 1"
  "getZoomMultiplier exampleConstants 1 = 1.007"
  "getZoomMultiplier exampleConstants 2 = 1.014049"
  by (simp_all add: getZoomMultiplier_def exampleConstants_fields power2_eq_square)

lemma draggedExample_image:
  "getBestImageForType draggedExample ''mainSrc'' =
     Some \<lparr>info_src = ''b.jpg'', info_height = 500, info_width = 1000,
           targetHeight = Finite 390, targetWidth = Finite 780\<rparr>"
  by (rule example_image) (simp_all add: draggedExample_fields)

lemma draggedExample_maxOffsets:
  "getMaxOffsets exampleConstants draggedExample =
     \<lparr>maxX = 107.0245, minX = - 107.0245, maxY = 46.48775, minY = - 46.48775\<rparr>"
  by (simp add: getMaxOffsets_def draggedExample_image draggedExample_fields
        getLightboxRect_def example_multipliers example_defs Let_def)

lemma draggedExample_zoom_out:
  "changeZoom exampleConstants 1 (Some 400) (Some 300) draggedExample =
     setState (\<lambda>st. st\<lparr>zoomLevel := 1, offsetX := 107.0245, offsetY := 0\<rparr>) draggedExample"
  by (subst changeZoom_anchor [OF _ _ _ _ draggedExample_image, of 1])
     (simp_all add: draggedExample_fields draggedExample_maxOffsets example_defs
        anchorX_def anchorY_def getLightboxRect_def anchoredOffset_def example_multipliers)

text \<open>
  Claim C1 as stated fails when the zoom level decreases outside a pinch. In the
  example, the image is zoomed to level 2 and dragged by 300 to the left; a wheel event
  over the centre of the lightbox then zooms out to level 1, which is in range and is
  not \<open>MIN_ZOOM_LEVEL\<close>. \<open>changeZoom\<close> clamps the horizontal offset to 107.0245, and the
  image coordinate under the anchor changes.
\<close>

theorem changeZoom_anchor_counterexample:
  "run exampleConstants
     [ImageLoaded ''mainSrc'' ''b.jpg'' 1000 500, ImageWheel 0 (- 2) 400 300,
      MouseDown True 600 300, MouseMove 300 300] mountedExample
   = Some draggedExample
   \<and> MIN_ZOOM_LEVEL exampleConstants < 1 \<and> 1 \<le> MAX_ZOOM_LEVEL exampleConstants
   \<and> dispatch exampleConstants (ImageWheel 0 1 400 300) draggedExample
       = Some (changeZoom exampleConstants 1 (Some 400) (Some 300)
                 (draggedExample\<lparr>scrollX := 0, scrollY := - 1\<rparr>))
   \<and> imagePointX exampleConstants draggedExample (anchorX draggedExample (Some 400))
       = Some (807.0245 / 1.014049)
   \<and> imagePointX exampleConstants
        (changeZoom exampleConstants 1 (Some 400) (Some 300) draggedExample)
        (anchorX draggedExample (Some 400))
       = Some (610.5245 / 1.007)
   \<and> imagePointX exampleConstants
        (changeZoom exampleConstants 1 (Some 400) (Some 300) draggedExample)
        (anchorX draggedExample (Some 400))
       \<noteq> imagePointX exampleConstants draggedExample (anchorX draggedExample (Some 400))"
proof -
  have a: "anchorX draggedExample (Some 400) = 400"
    by (simp add: anchorX_def getLightboxRect_def draggedExample_fields example_defs)
  have before: "imagePointX exampleConstants draggedExample 400 = Some (807.0245 / 1.014049)"
    unfolding imagePoint_known(1) [OF draggedExample_image]
    by (simp add: draggedExample_fields example_defs example_multipliers)
  have after: "imagePointX exampleConstants
        (changeZoom exampleConstants 1 (Some 400) (Some 300) draggedExample) 400
       = Some (610.5245 / 1.007)"
    unfolding draggedExample_zoom_out imagePoint_setState(1) [OF draggedExample_image]
    by (simp add: draggedExample_fields example_defs example_multipliers)
  have wheel: "dispatch exampleConstants (ImageWheel 0 1 400 300) draggedExample
       = Some (changeZoom exampleConstants 1 (Some 400) (Some 300)
                 (draggedExample\<lparr>scrollX := 0, scrollY := - 1\<rparr>))"
    by (simp add: dispatch_simps handleImageMouseWheel_def draggedExample_fields example_defs
          example_states mountedExample_fields)
  show ?thesis
    unfolding a before after using run_example wheel by (simp add: example_defs)
qed


lemma loadedExample_fields:
  "props loadedExample = exampleProps" "lightboxRect loadedExample = exampleRect"
  "zoomLevel (state loadedExample) = 0" "offsetX (state loadedExample) = 0"
  "offsetY (state loadedExample) = 0" "currentAction loadedExample = NONE"
  "didUnmount loadedExample = False"
  by (simp_all add: example_states mountedExample_fields)

lemma loadedExample_image:
  "getBestImageForType loadedExample ''mainSrc'' =
     Some \<lparr>info_src = ''b.jpg'', info_height = 500, info_width = 1000,
           targetHeight = Finite 390, targetWidth = Finite 780\<rparr>"
  by (rule example_image) (simp_all add: loadedExample_fields)

text \<open>
  The theorem of claim C1 at the example. Zooming in from level 0 to level 2 with the
  anchor at (600, 300), the anchor stays over the image coordinate 700. Zooming out
  from level 2 to level 1 during the drag, with the anchor at (400, 300), the offset is
  clamped to the bound 107.0245, and the image coordinate under the anchor changes.
\<close>

theorem changeZoom_keeps_anchor_witness:
  "0 < ZOOM_RATIO exampleConstants
   \<and> zoomLevel (state (changeZoom exampleConstants 2 (Some 600) (Some 300) loadedExample)) = 2
   \<and> imagePointX exampleConstants loadedExample (anchorX loadedExample (Some 600)) = Some 700
   \<and> imagePointX exampleConstants
        (changeZoom exampleConstants 2 (Some 600) (Some 300) loadedExample)
        (anchorX loadedExample (Some 600)) = Some 700
   \<and> offsetX (state (changeZoom exampleConstants 1 (Some 400) (Some 300) draggedExample))
       = 107.0245
   \<and> imagePointX exampleConstants
        (changeZoom exampleConstants 1 (Some 400) (Some 300) draggedExample)
        (anchorX draggedExample (Some 400))
       \<noteq> imagePointX exampleConstants draggedExample (anchorX draggedExample (Some 400))"
proof -
  have r: "0 < ZOOM_RATIO exampleConstants" by (simp add: example_defs)
  have a: "anchorX loadedExample (Some 600) = 600"
    by (simp add: anchorX_def getLightboxRect_def loadedExample_fields example_defs)
  have before: "imagePointX exampleConstants loadedExample 600 = Some 700"
    unfolding imagePoint_known(1) [OF loadedExample_image]
    by (simp add: loadedExample_fields example_defs example_multipliers)
  have zin: "zoomLevel (state (changeZoom exampleConstants 2 (Some 600) (Some 300) loadedExample)) = 2
        \<and> imagePointX exampleConstants
          (changeZoom exampleConstants 2 (Some 600) (Some 300) loadedExample)
          (anchorX loadedExample (Some 600))
        = imagePointX exampleConstants loadedExample (anchorX loadedExample (Some 600))"
    using changeZoom_keeps_anchor [where c = exampleConstants and L = 2 and s = loadedExample
        and cx = "Some 600" and cy = "Some 300", OF r, THEN conjunct2]
    by (simp add: loadedExample_fields loadedExample_image example_defs)
  have ad: "anchorX draggedExample (Some 400) = 400"
    by (simp add: anchorX_def getLightboxRect_def draggedExample_fields example_defs)
  have ay: "anchorY draggedExample (Some 300) = 300"
    by (simp add: anchorY_def getLightboxRect_def draggedExample_fields example_defs)
  have zout: "offsetX (state (changeZoom exampleConstants 1 (Some 400) (Some 300) draggedExample))
       = 107.0245
   \<and> imagePointX exampleConstants
        (changeZoom exampleConstants 1 (Some 400) (Some 300) draggedExample)
        (anchorX draggedExample (Some 400))
       \<noteq> imagePointX exampleConstants draggedExample (anchorX draggedExample (Some 400))"
    using changeZoom_keeps_anchor [where c = exampleConstants and L = 1 and s = draggedExample
        and cx = "Some 400" and cy = "Some 300", OF r, THEN conjunct2]
    by (simp add: draggedExample_fields draggedExample_image draggedExample_maxOffsets
          example_defs ad ay anchoredOffset_def example_multipliers)
  from r zin zout before show ?thesis unfolding a by simp
qed

text \<open>
  The theorem of claim C5 at the example: the image is dragged to the offset 300 at
  zoom level 2, where the bound is 107.0245; ending the pan clamps the offset to the
  bound and starts the animation of 300 ms.
\<close>

theorem handleMoveEnd_clamps_witness:
  "offsetX (state (handleMoveEnd exampleConstants draggedExample)) = 107.0245
   \<and> offsetY (state (handleMoveEnd exampleConstants draggedExample)) = 0
   \<and> shouldAnimate (state (handleMoveEnd exampleConstants draggedExample))
   \<and> pendingTimers (handleMoveEnd exampleConstants draggedExample)
       = [(1, ShouldAnimateFalseFunc, 300)]"
proof -
  have f: "pendingTimers draggedExample = []" "nextTimerId draggedExample = 1"
    by (simp_all add: example_states mountedExample_fields)
  show ?thesis
    using handleMoveEnd_clamps [of exampleConstants draggedExample]
    by (simp add: draggedExample_maxOffsets draggedExample_fields f example_defs)
qed

section \<open>Source arbitration\<close>

lemma setTimeout_frame:
  "props (snd (setTimeout f t s)) = props s" "state (snd (setTimeout f t s)) = state s"
  "imageCache (snd (setTimeout f t s)) = imageCache s"
  "lightboxRect (snd (setTimeout f t s)) = lightboxRect s"
  "currentAction (snd (setTimeout f t s)) = currentAction s"
  "pointerList (snd (setTimeout f t s)) = pointerList s"
  "eventsSource (snd (setTimeout f t s)) = eventsSource s"
  "didUnmount (snd (setTimeout f t s)) = didUnmount s"
  "calls (snd (setTimeout f t s)) = calls s"
  "pendingLoads (snd (setTimeout f t s)) = pendingLoads s"
  "pendingTimers (snd (setTimeout f t s)) = pendingTimers s @ [(nextTimerId s, f, t)]"
  "timeouts (snd (setTimeout f t s)) = timeouts s @ [nextTimerId s]"
  "nextTimerId (snd (setTimeout f t s)) = Suc (nextTimerId s)"
  "fst (setTimeout f t s) = nextTimerId s"
  by (simp_all add: setTimeout_def Let_def)

lemma clearTimeout_frame:
  "props (clearTimeout r s) = props s" "state (clearTimeout r s) = state s"
  "imageCache (clearTimeout r s) = imageCache s"
  "lightboxRect (clearTimeout r s) = lightboxRect s"
  "currentAction (clearTimeout r s) = currentAction s"
  "pointerList (clearTimeout r s) = pointerList s"
  "eventsSource (clearTimeout r s) = eventsSource s"
  "didUnmount (clearTimeout r s) = didUnmount s"
  "calls (clearTimeout r s) = calls s"
  "pendingLoads (clearTimeout r s) = pendingLoads s"
  "nextTimerId (clearTimeout r s) = nextTimerId s"
  by (simp_all add: clearTimeout_def split: TimeoutRef.split)

lemma setPreventInnerClose_frame:
  "props (setPreventInnerClose s) = props s" "state (setPreventInnerClose s) = state s"
  "imageCache (setPreventInnerClose s) = imageCache s"
  "lightboxRect (setPreventInnerClose s) = lightboxRect s"
  "currentAction (setPreventInnerClose s) = currentAction s"
  "pointerList (setPreventInnerClose s) = pointerList s"
  "eventsSource (setPreventInnerClose s) = eventsSource s"
  "didUnmount (setPreventInnerClose s) = didUnmount s"
  "calls (setPreventInnerClose s) = calls s"
  "swipeStartX (setPreventInnerClose s) = swipeStartX s"
  "swipeStartY (setPreventInnerClose s) = swipeStartY s"
  "swipeEndX (setPreventInnerClose s) = swipeEndX s"
  "swipeEndY (setPreventInnerClose s) = swipeEndY s"
  by (simp_all add: setPreventInnerClose_def setTimeout_def clearTimeout_def Let_def
        split: TimeoutRef.split)

lemma swipeReset_frame:
  "props (swipeReset s) = props s" "state (swipeReset s) = state s"
  "imageCache (swipeReset s) = imageCache s" "lightboxRect (swipeReset s) = lightboxRect s"
  "currentAction (swipeReset s) = NONE" "pointerList (swipeReset s) = pointerList s"
  "eventsSource (swipeReset s) = eventsSource s" "didUnmount (swipeReset s) = didUnmount s"
  "pendingTimers (swipeReset s) = pendingTimers s" "timeouts (swipeReset s) = timeouts s"
  by (simp_all add: swipeReset_def)

lemma handleSwipeEnd_frame:
  "props (handleSwipeEnd c e s) = props s"
  "imageCache (handleSwipeEnd c e s) = imageCache s"
  "lightboxRect (handleSwipeEnd c e s) = lightboxRect s"
  "currentAction (handleSwipeEnd c e s) = NONE"
  "pointerList (handleSwipeEnd c e s) = pointerList s"
  "eventsSource (handleSwipeEnd c e s) = eventsSource s"
  "didUnmount (handleSwipeEnd c e s) = didUnmount s"
  unfolding handleSwipeEnd_eq requestMovePrev_def requestMoveNext_def
  by (simp_all add: requestMove_frame swipeReset_frame)

lemma handleSwipeEnd_null: "handleSwipeEnd c False s = swipeReset s"
  unfolding handleSwipeEnd_eq by (simp add: swipeCommits_def)

lemma handleEnd_frame:
  "props (handleEnd c e s) = props s"
  "imageCache (handleEnd c e s) = imageCache s"
  "lightboxRect (handleEnd c e s) = lightboxRect s"
  "currentAction (handleEnd c e s) = NONE"
  "pointerList (handleEnd c e s) = pointerList s"
  "eventsSource (handleEnd c e s) = eventsSource s"
  "didUnmount (handleEnd c e s) = didUnmount s"
  by (simp_all add: handleEnd_def handleMoveEnd_frame handleSwipeEnd_frame handlePinchEnd_def
        split: Action.split)

lemma handleEnd_null_zoom: "zoomLevel (state (handleEnd c False s)) = zoomLevel (state s)"
  by (simp add: handleEnd_def handleMoveEnd_frame handleSwipeEnd_null swipeReset_frame
        handlePinchEnd_def split: Action.split)

text \<open>
  Claim C4. \<open>shouldHandleEvent\<close> accepts a sample of the active source, and a sample
  of any source when none is active, which then becomes the active source. It rejects
  a mouse sample while touch or pointer is active. It accepts every touch sample and
  makes touch the active source; when mouse or pointer was active, it keeps only the
  touch samples of the pointer list. It accepts a pointer sample exactly when mouse,
  pointer or no source is active; when mouse was active, pointer becomes the active
  source and only the pointer samples of the list are kept. When \<open>multiPointerEnd\<close>
  finds the pointer list empty, no source is active afterwards.
\<close>

theorem shouldHandleEvent_arbitration:
  "(eventsSource s = source \<or> eventsSource s = ANY \<longrightarrow>
      shouldHandleEvent source s = (True, s\<lparr>eventsSource := source\<rparr>))
   \<and> (eventsSource s = TOUCH \<or> eventsSource s = POINTER \<longrightarrow>
        shouldHandleEvent MOUSE s = (False, s))
   \<and> fst (shouldHandleEvent TOUCH s)
   \<and> eventsSource (snd (shouldHandleEvent TOUCH s)) = TOUCH
   \<and> (eventsSource s = MOUSE \<or> eventsSource s = POINTER \<longrightarrow>
        snd (shouldHandleEvent TOUCH s) =
          s\<lparr>eventsSource := TOUCH,
            pointerList := filter (\<lambda>p. ev_source p = Some TOUCH) (pointerList s)\<rparr>)
   \<and> (fst (shouldHandleEvent POINTER s) \<longleftrightarrow>
        eventsSource s = MOUSE \<or> eventsSource s = POINTER \<or> eventsSource s = ANY)
   \<and> (eventsSource s = MOUSE \<longrightarrow>
        snd (shouldHandleEvent POINTER s) =
          s\<lparr>eventsSource := POINTER,
            pointerList := filter (\<lambda>p. ev_source p = Some POINTER) (pointerList s)\<rparr>)
   \<and> (eventsSource s = TOUCH \<longrightarrow> shouldHandleEvent POINTER s = (False, s))
   \<and> (pointerList s = [] \<longrightarrow>
        (\<exists>s'. multiPointerEnd c s = Some s' \<and> eventsSource s' = ANY \<and> pointerList s' = []))"
proof -
  have same: "eventsSource s = source \<or> eventsSource s = ANY \<longrightarrow>
      shouldHandleEvent source s = (True, s\<lparr>eventsSource := source\<rparr>)"
    by (auto simp: shouldHandleEvent_def)
  have mouse: "eventsSource s = TOUCH \<or> eventsSource s = POINTER \<longrightarrow>
        shouldHandleEvent MOUSE s = (False, s)"
    by (auto simp: shouldHandleEvent_def)
  have touch: "fst (shouldHandleEvent TOUCH s)"
    "eventsSource (snd (shouldHandleEvent TOUCH s)) = TOUCH"
    by (simp_all add: shouldHandleEvent_def filterPointersBySource_def)
  have touch': "eventsSource s = MOUSE \<or> eventsSource s = POINTER \<longrightarrow>
        snd (shouldHandleEvent TOUCH s) =
          s\<lparr>eventsSource := TOUCH,
            pointerList := filter (\<lambda>p. ev_source p = Some TOUCH) (pointerList s)\<rparr>"
    by (auto simp: shouldHandleEvent_def filterPointersBySource_def)
  have pointer: "fst (shouldHandleEvent POINTER s) \<longleftrightarrow>
        eventsSource s = MOUSE \<or> eventsSource s = POINTER \<or> eventsSource s = ANY"
    by (cases "eventsSource s") (simp_all add: shouldHandleEvent_def)
  have pointer': "eventsSource s = MOUSE \<longrightarrow>
        snd (shouldHandleEvent POINTER s) =
          s\<lparr>eventsSource := POINTER,
            pointerList := filter (\<lambda>p. ev_source p = Some POINTER) (pointerList s)\<rparr>"
    by (simp add: shouldHandleEvent_def filterPointersBySource_def)
  have pointer'': "eventsSource s = TOUCH \<longrightarrow> shouldHandleEvent POINTER s = (False, s)"
    by (simp add: shouldHandleEvent_def)
  have zero: "pointerList s = [] \<longrightarrow>
        (\<exists>s'. multiPointerEnd c s = Some s' \<and> eventsSource s' = ANY \<and> pointerList s' = [])"
    by (simp add: multiPointerEnd_def handleEnd_frame setPreventInnerClose_frame Let_def)
  from same mouse touch touch' pointer pointer' pointer'' zero show ?thesis
    by (simp only: simp_thms)
qed


text \<open>
  The theorem of claim C4 at the example: a touch sample claims the source; a mouse or a
  pointer sample is then rejected; when the pointer list is empty at the end of the
  gesture, no source is active.
\<close>

theorem shouldHandleEvent_arbitration_witness:
  "shouldHandleEvent TOUCH mountedExample = (True, mountedExample\<lparr>eventsSource := TOUCH\<rparr>)
   \<and> shouldHandleEvent MOUSE (mountedExample\<lparr>eventsSource := TOUCH\<rparr>)
       = (False, mountedExample\<lparr>eventsSource := TOUCH\<rparr>)
   \<and> shouldHandleEvent POINTER (mountedExample\<lparr>eventsSource := TOUCH\<rparr>)
       = (False, mountedExample\<lparr>eventsSource := TOUCH\<rparr>)
   \<and> map_option eventsSource
         (multiPointerEnd exampleConstants (mountedExample\<lparr>eventsSource := TOUCH\<rparr>))
       = Some ANY"
  using shouldHandleEvent_arbitration [of mountedExample TOUCH exampleConstants]
    shouldHandleEvent_arbitration
      [of "mountedExample\<lparr>eventsSource := TOUCH\<rparr>" TOUCH exampleConstants]
  by (auto simp: mountedExample_fields)

section \<open>Starting a gesture\<close>

lemma calculatePinchDistance_strip:
  "calculatePinchDistance
     (map (\<lambda>p. \<lparr>ev_id = ev_id p, ev_source = None, ev_x = ev_x p, ev_y = ev_y p\<rparr>) l)
   = calculatePinchDistance l"
  by (cases l rule: list.exhaust [case_product list.exhaust])
     (auto simp: calculatePinchDistance_def split: list.split)

lemma handlePinchStart_two:
  assumes "length l = 2"
  shows "\<exists>s'. handlePinchStart l s = Some s'
          \<and> (enableZoom (props s) \<longrightarrow>
                currentAction s' = PINCH
                \<and> pinchTouchList s' =
                    map (\<lambda>p. \<lparr>ev_id = ev_id p, ev_source = None,
                               ev_x = ev_x p, ev_y = ev_y p\<rparr>) l
                \<and> Some (pinchDistance s') = calculatePinchDistance l)
          \<and> (\<not> enableZoom (props s) \<longrightarrow> s' = s)"
proof -
  from assms obtain a b where l: "l = [a, b]"
    by (cases l; cases "tl l") auto
  have "calculatePinchDistance l \<noteq> None"
    by (simp add: l calculatePinchDistance_def)
  then obtain d where d: "calculatePinchDistance l = Some d" by blast
  show ?thesis
    unfolding handlePinchStart_def Let_def calculatePinchDistance_strip d
    by simp
qed

lemma decideMoveOrSwipe_action:
  "currentAction (decideMoveOrSwipe c p s) =
     (if zoomLevel (state s) \<le> MIN_ZOOM_LEVEL c then SWIPE
      else if enableZoom (props s) then MOVE else currentAction s)"
  by (simp add: decideMoveOrSwipe_def handleSwipeStart_def handleMoveStart_def)


text \<open>
  Claim C7, as amended. \<open>multiPointerStart\<close> and \<open>multiPointerEnd\<close> first run the end
  handler of the action in progress (the latter only if there is one); the pointer
  list and the props are as before. With one pointer the component then enters Swipe
  when the zoom level is at (or below) the minimum, and otherwise Pan, provided zoom
  is enabled. With two pointers and zoom enabled it enters Pinch, with the two samples
  of the pointer list and their distance. With more than two pointers, and where zoom
  is disabled for Pan and Pinch, no action is in progress afterwards.
\<close>

theorem gesture_start:
  fixes c :: Constants and s :: Lightbox
  defines "e \<equiv> (if currentAction s \<noteq> NONE
                  then handleEnd c True (setPreventInnerClose s) else s)"
  shows "(\<exists>s'. multiPointerStart c s = Some s'
            \<and> (length (pointerList s) = 1 \<longrightarrow>
                 currentAction s' =
                   (if zoomLevel (state s) \<le> MIN_ZOOM_LEVEL c then SWIPE
                    else if enableZoom (props s) then MOVE else NONE))
            \<and> (length (pointerList s) = 2 \<and> enableZoom (props s) \<longrightarrow>
                 currentAction s' = PINCH
                 \<and> pinchTouchList s' =
                     map (\<lambda>p. \<lparr>ev_id = ev_id p, ev_source = None,
                                ev_x = ev_x p, ev_y = ev_y p\<rparr>) (pointerList s)
                 \<and> Some (pinchDistance s') = calculatePinchDistance (pointerList s))
            \<and> (length (pointerList s) = 2 \<and> \<not> enableZoom (props s) \<longrightarrow>
                 currentAction s' = NONE)
            \<and> (length (pointerList s) > 2 \<longrightarrow> currentAction s' = NONE))
       \<and> (\<exists>s'. multiPointerEnd c s = Some s'
            \<and> (length (pointerList s) = 1 \<longrightarrow>
                 currentAction s' =
                   (if zoomLevel (state e) \<le> MIN_ZOOM_LEVEL c then SWIPE
                    else if enableZoom (props s) then MOVE else NONE))
            \<and> (length (pointerList s) = 2 \<and> enableZoom (props s) \<longrightarrow>
                 currentAction s' = PINCH
                 \<and> pinchTouchList s' =
                     map (\<lambda>p. \<lparr>ev_id = ev_id p, ev_source = None,
                                ev_x = ev_x p, ev_y = ev_y p\<rparr>) (pointerList s)
                 \<and> Some (pinchDistance s') = calculatePinchDistance (pointerList s))
            \<and> (length (pointerList s) = 2 \<and> \<not> enableZoom (props s) \<longrightarrow>
                 currentAction s' = NONE)
            \<and> (length (pointerList s) > 2 \<longrightarrow> currentAction s' = NONE))"
proof -
  have rule: "\<exists>s'. (if length (pointerList a) = 1
                     then Some (decideMoveOrSwipe c (hd (pointerList a)) a)
                     else if length (pointerList a) = 2
                     then handlePinchStart (pointerList a) a
                     else Some (f a)) = Some s'
            \<and> (length (pointerList a) = 1 \<longrightarrow>
                 currentAction s' =
                   (if zoomLevel (state a) \<le> MIN_ZOOM_LEVEL c then SWIPE
                    else if enableZoom (props a) then MOVE else NONE))
            \<and> (length (pointerList a) = 2 \<and> enableZoom (props a) \<longrightarrow>
                 currentAction s' = PINCH
                 \<and> pinchTouchList s' =
                     map (\<lambda>p. \<lparr>ev_id = ev_id p, ev_source = None,
                                ev_x = ev_x p, ev_y = ev_y p\<rparr>) (pointerList a)
                 \<and> Some (pinchDistance s') = calculatePinchDistance (pointerList a))
            \<and> (length (pointerList a) = 2 \<and> \<not> enableZoom (props a) \<longrightarrow>
                 currentAction s' = NONE)
            \<and> (length (pointerList a) > 2 \<longrightarrow> currentAction s' = NONE)"
    if none: "currentAction a = NONE" and f: "currentAction (f a) = NONE"
    for a :: Lightbox and f :: "Lightbox \<Rightarrow> Lightbox"
  proof (cases "length (pointerList a) = 2")
    case True
    from handlePinchStart_two [OF True, of a] obtain s' where
      "handlePinchStart (pointerList a) a = Some s'"
      "enableZoom (props a) \<longrightarrow>
         currentAction s' = PINCH
         \<and> pinchTouchList s' =
             map (\<lambda>p. \<lparr>ev_id = ev_id p, ev_source = None,
                        ev_x = ev_x p, ev_y = ev_y p\<rparr>) (pointerList a)
         \<and> Some (pinchDistance s') = calculatePinchDistance (pointerList a)"
      "\<not> enableZoom (props a) \<longrightarrow> s' = a"
      by blast
    with True none show ?thesis by auto
  next
    case False
    then show ?thesis
      using none f by (auto simp: decideMoveOrSwipe_action)
  qed
  have start: "currentAction (handleEnd c False s) = NONE"
    "pointerList (handleEnd c False s) = pointerList s"
    "props (handleEnd c False s) = props s"
    "zoomLevel (state (handleEnd c False s)) = zoomLevel (state s)"
    by (simp_all add: handleEnd_frame handleEnd_null_zoom)
  have "end": "currentAction e = NONE" "pointerList e = pointerList s" "props e = props s"
    by (simp_all add: e_def handleEnd_frame setPreventInnerClose_frame)
  have s1: "multiPointerStart c s =
              (if length (pointerList (handleEnd c False s)) = 1
               then Some (decideMoveOrSwipe c (hd (pointerList (handleEnd c False s)))
                            (handleEnd c False s))
               else if length (pointerList (handleEnd c False s)) = 2
               then handlePinchStart (pointerList (handleEnd c False s)) (handleEnd c False s)
               else Some ((\<lambda>a. a) (handleEnd c False s)))"
    by (simp add: multiPointerStart_def Let_def)
  have e1: "multiPointerEnd c s =
              (if length (pointerList e) = 1
               then Some (decideMoveOrSwipe c (hd (pointerList e)) e)
               else if length (pointerList e) = 2
               then handlePinchStart (pointerList e) e
               else Some ((\<lambda>a. if length (pointerList a) = 0 then a\<lparr>eventsSource := ANY\<rparr>
                                else a) e))"
    by (simp add: multiPointerEnd_def Let_def e_def)
  have A: "\<exists>s'. multiPointerStart c s = Some s'
            \<and> (length (pointerList s) = 1 \<longrightarrow>
                 currentAction s' =
                   (if zoomLevel (state s) \<le> MIN_ZOOM_LEVEL c then SWIPE
                    else if enableZoom (props s) then MOVE else NONE))
            \<and> (length (pointerList s) = 2 \<and> enableZoom (props s) \<longrightarrow>
                 currentAction s' = PINCH
                 \<and> pinchTouchList s' =
                     map (\<lambda>p. \<lparr>ev_id = ev_id p, ev_source = None,
                                ev_x = ev_x p, ev_y = ev_y p\<rparr>) (pointerList s)
                 \<and> Some (pinchDistance s') = calculatePinchDistance (pointerList s))
            \<and> (length (pointerList s) = 2 \<and> \<not> enableZoom (props s) \<longrightarrow>
                 currentAction s' = NONE)
            \<and> (length (pointerList s) > 2 \<longrightarrow> currentAction s' = NONE)"
    unfolding s1
    using rule [of "handleEnd c False s" "\<lambda>a. a", OF start(1) start(1)]
    unfolding start .
  have B: "\<exists>s'. multiPointerEnd c s = Some s'
            \<and> (length (pointerList s) = 1 \<longrightarrow>
                 currentAction s' =
                   (if zoomLevel (state e) \<le> MIN_ZOOM_LEVEL c then SWIPE
                    else if enableZoom (props s) then MOVE else NONE))
            \<and> (length (pointerList s) = 2 \<and> enableZoom (props s) \<longrightarrow>
                 currentAction s' = PINCH
                 \<and> pinchTouchList s' =
                     map (\<lambda>p. \<lparr>ev_id = ev_id p, ev_source = None,
                                ev_x = ev_x p, ev_y = ev_y p\<rparr>) (pointerList s)
                 \<and> Some (pinchDistance s') = calculatePinchDistance (pointerList s))
            \<and> (length (pointerList s) = 2 \<and> \<not> enableZoom (props s) \<longrightarrow>
                 currentAction s' = NONE)
            \<and> (length (pointerList s) > 2 \<longrightarrow> currentAction s' = NONE)"
    unfolding e1
    using rule [of e "\<lambda>a. if length (pointerList a) = 0 then a\<lparr>eventsSource := ANY\<rparr> else a",
        OF "end"(1)] "end"(1)
    unfolding "end"(2,3) by simp
  from A B show ?thesis by (rule conjI)
qed

lemma mounted_sources:
  assumes "mainSrc p = ''b.jpg''" "prevSrc p = Some ''a.jpg''" "nextSrc p = Some ''c.jpg''"
    "mainSrcThumbnail p = None" "prevSrcThumbnail p = None" "nextSrcThumbnail p = None"
    "\<not> animationDisabled p"
  shows "mounted c p r =
     (constructor c p r)
       \<lparr>state := (state (constructor c p r))\<lparr>isClosing := False\<rparr>,
        pendingLoads := [(''mainSrc'', ''b.jpg''), (''nextSrc'', ''c.jpg''),
                         (''prevSrc'', ''a.jpg'')]\<rparr>"
  using assms
  by (simp add: mounted_def componentDidMount_def loadAllImages_def getSrcTypes_def
        loadSrcType_absent loadSrcType_start constructor_def setState_def props_get_def
        isImageLoaded_def)

lemma noZoomExample_eq: "noZoomExample = mountedExample\<lparr>props := noZoomProps\<rparr>"
  unfolding noZoomExample_def mountedExample_def
  by (subst mounted_sources, simp_all add: noZoomProps_def exampleProps_fields)+
     (simp add: constructor_def exampleProps_fields)

lemma horizontal_distance:
  "ev_y a = ev_y b \<Longrightarrow> calculatePinchDistance (a # b # l) = Some \<bar>ev_x a - ev_x b\<bar>"
  by (simp add: calculatePinchDistance_def)

lemma run_pinchStart:
  "dispatch exampleConstants (TouchStart True twoTouches) mountedExample
   = Some pinchStartExample"
  by (simp add: dispatch_simps handleTouchStart_def shouldHandleEvent_def addPointer_def
        multiPointerStart_def handleEnd_def handlePinchStart_def horizontal_distance
        parseTouchPointer_def Let_def pinchStartExample_def twoTouches_def
        mountedExample_fields example_defs)


text \<open>
  Claim C7 as stated fails when zoom is disabled: with \<open>enableZoom\<close> false, a touch
  start with two fingers on the image leaves exactly two active pointers and no action
  in progress, not Pinch.
\<close>

theorem gesture_start_counterexample:
  "\<not> enableZoom (props noZoomExample)
   \<and> dispatch exampleConstants (TouchStart True twoTouches) noZoomExample
       = Some (noZoomExample\<lparr>eventsSource := TOUCH,
                              pointerList := map parseTouchPointer twoTouches\<rparr>)
   \<and> length (pointerList (noZoomExample\<lparr>eventsSource := TOUCH,
                              pointerList := map parseTouchPointer twoTouches\<rparr>)) = 2
   \<and> currentAction (noZoomExample\<lparr>eventsSource := TOUCH,
                              pointerList := map parseTouchPointer twoTouches\<rparr>) = NONE"
  unfolding noZoomExample_eq
  by (simp add: dispatch_simps handleTouchStart_def shouldHandleEvent_def addPointer_def
        multiPointerStart_def handleEnd_def handlePinchStart_def
        Let_def twoTouches_def mountedExample_fields noZoomProps_def)

text \<open>
  The theorem of claim C7 at the example: two touches start a pinch with the distance
  200 between them; one touch at the minimum zoom level starts a swipe.
\<close>

theorem gesture_start_witness:
  "map_option currentAction
     (multiPointerStart exampleConstants
        (mountedExample\<lparr>eventsSource := TOUCH,
                         pointerList := map parseTouchPointer twoTouches\<rparr>)) = Some PINCH
   \<and> map_option pinchDistance
       (multiPointerStart exampleConstants
          (mountedExample\<lparr>eventsSource := TOUCH,
                           pointerList := map parseTouchPointer twoTouches\<rparr>)) = Some 200
   \<and> map_option currentAction
       (multiPointerStart exampleConstants
          (mountedExample\<lparr>eventsSource := TOUCH,
                           pointerList := [parseTouchPointer (0, 300, 300)]\<rparr>)) = Some SWIPE"
proof -
  have d: "calculatePinchDistance (map parseTouchPointer twoTouches) = Some 200"
    by (simp add: twoTouches_def horizontal_distance parseTouchPointer_def)
  have "\<exists>s'. multiPointerStart exampleConstants
                (mountedExample\<lparr>eventsSource := TOUCH,
                                 pointerList := map parseTouchPointer twoTouches\<rparr>) = Some s'
             \<and> currentAction s' = PINCH \<and> pinchDistance s' = 200"
    using gesture_start [of exampleConstants
        "mountedExample\<lparr>eventsSource := TOUCH,
                        pointerList := map parseTouchPointer twoTouches\<rparr>"] d
    by (auto simp: mountedExample_fields example_defs twoTouches_def)
  moreover have "\<exists>s'. multiPointerStart exampleConstants
                (mountedExample\<lparr>eventsSource := TOUCH,
                                 pointerList := [parseTouchPointer (0, 300, 300)]\<rparr>) = Some s'
             \<and> currentAction s' = SWIPE"
    using gesture_start [of exampleConstants
        "mountedExample\<lparr>eventsSource := TOUCH,
                        pointerList := [parseTouchPointer (0, 300, 300)]\<rparr>"]
    by (auto simp: mountedExample_fields example_defs)
  ultimately show ?thesis by auto
qed

section \<open>Pinch\<close>

lemma changeZoom_setState: "\<exists>f. changeZoom c L cx cy s = setState f s"
proof -
  define n where "n = max (MIN_ZOOM_LEVEL c) (min (MAX_ZOOM_LEVEL c) L)"
  have id: "s = setState (\<lambda>st. st) s" by (simp add: setState_def)
  consider "\<not> enableZoom (props s)" | "n = zoomLevel (state s)"
    | "enableZoom (props s)" "n \<noteq> zoomLevel (state s)" "n = MIN_ZOOM_LEVEL c"
    | "n \<noteq> MIN_ZOOM_LEVEL c" "getBestImageForType s ''mainSrc'' = None"
    | img where "enableZoom (props s)" "n \<noteq> zoomLevel (state s)" "n \<noteq> MIN_ZOOM_LEVEL c"
        "getBestImageForType s ''mainSrc'' = Some img"
    by blast
  then show ?thesis
  proof cases
    case 1
    then show ?thesis using id by (metis changeZoom_disabled)
  next
    case 2
    then show ?thesis using id unfolding n_def by (metis changeZoom_same)
  next
    case 3
    then show ?thesis unfolding n_def by (metis changeZoom_reset)
  next
    case 4
    then show ?thesis using id unfolding n_def by (metis changeZoom_no_image)
  next
    case 5
    show ?thesis
      by (rule exI, rule changeZoom_anchor [OF 5(1) n_def 5(2) 5(3) 5(4)])
  qed
qed


lemma changeZoom_level:
  assumes "enableZoom (props s)" and "getBestImageForType s ''mainSrc'' \<noteq> None"
  shows "zoomLevel (state (changeZoom c L cx cy s))
         = max (MIN_ZOOM_LEVEL c) (min (MAX_ZOOM_LEVEL c) L)"
proof -
  define n where "n = max (MIN_ZOOM_LEVEL c) (min (MAX_ZOOM_LEVEL c) L)"
  from assms(2) obtain img where img: "getBestImageForType s ''mainSrc'' = Some img" by blast
  consider "n = zoomLevel (state s)" | "n \<noteq> zoomLevel (state s)" "n = MIN_ZOOM_LEVEL c"
    | "n \<noteq> zoomLevel (state s)" "n \<noteq> MIN_ZOOM_LEVEL c"
    by blast
  then have "zoomLevel (state (changeZoom c L cx cy s)) = n"
  proof cases
    case 1
    then show ?thesis unfolding n_def by (simp add: changeZoom_same)
  next
    case 2
    then show ?thesis
      unfolding n_def using assms(1) by (simp add: changeZoom_reset setState_frame)
  next
    case 3
    show ?thesis
      unfolding changeZoom_anchor [OF assms(1) n_def 3(1) 3(2) img]
      by (simp add: setState_frame)
  qed
  then show ?thesis unfolding n_def .
qed

lemma clamp_up:
  fixes lo hi z d :: real
  shows "lo \<le> z \<Longrightarrow> z \<le> hi \<Longrightarrow> 0 < d
         \<Longrightarrow> z < max lo (min hi (z + d)) \<or> (max lo (min hi (z + d)) = z \<and> z = hi)"
  unfolding max_def min_def by auto

lemma clamp_down:
  fixes lo hi z d :: real
  shows "lo \<le> z \<Longrightarrow> z \<le> hi \<Longrightarrow> d < 0
         \<Longrightarrow> max lo (min hi (z + d)) < z \<or> (max lo (min hi (z + d)) = z \<and> z = lo)"
  unfolding max_def min_def by auto

lemma handlePinch_eq:
  "handlePinch c pointers s =
     (case calculatePinchDistance (rematch pointers (pinchTouchList s)) of
        None \<Rightarrow> None
      | Some newDistance \<Rightarrow>
          (case calculatePinchCenter (rematch pointers (pinchTouchList s)) of
             None \<Rightarrow> None
           | Some centre \<Rightarrow>
               Some (changeZoom c (zoomLevel (state s) + newDistance - pinchDistance s)
                       (Some (fst centre)) (Some (snd centre))
                       (s\<lparr>pinchTouchList := rematch pointers (pinchTouchList s),
                          pinchDistance := newDistance\<rparr>))))"
  unfolding handlePinch_def rematch_def Let_def by (rule refl)

lemma pinch_two:
  assumes "2 \<le> length l"
  shows "\<exists>d cx. calculatePinchDistance l = Some d \<and> calculatePinchCenter l = Some cx
           \<and> fst cx = (ev_x (l ! 0) + ev_x (l ! 1)) / 2
           \<and> snd cx = (ev_y (l ! 0) + ev_y (l ! 1)) / 2"
proof -
  from assms obtain a b r where l: "l = a # b # r"
    by (cases l; cases "tl l") auto
  show ?thesis
    by (simp add: l calculatePinchDistance_def calculatePinchCenter_def field_simps)
qed

text \<open>
  Claim C6, as amended. A pinch step matches the samples of the event to the two pinch
  samples, takes the new distance \<open>d\<close> between them, asks \<open>changeZoom\<close> for the level
  \<open>zoomLevel + d - pinchDistance\<close> anchored at the midpoint of the two samples, and
  stores \<open>d\<close> as the pinch distance. When zoom is enabled, a size of the current image
  is known and the zoom level is in range, a larger distance gives a higher zoom level
  or leaves it at \<open>MAX_ZOOM_LEVEL\<close>, and a smaller distance gives a lower zoom level or
  leaves it at \<open>MIN_ZOOM_LEVEL\<close>.
\<close>

theorem handlePinch_step:
  fixes c :: Constants and s :: Lightbox and pointers :: "ParsedEvent list"
  defines "l \<equiv> rematch pointers (pinchTouchList s)"
  assumes two: "2 \<le> length (pinchTouchList s)"
  shows "\<exists>s' d cx.
           handlePinch c pointers s = Some s'
           \<and> calculatePinchDistance l = Some d
           \<and> cx = ((ev_x (l ! 0) + ev_x (l ! 1)) / 2, (ev_y (l ! 0) + ev_y (l ! 1)) / 2)
           \<and> s' = changeZoom c (zoomLevel (state s) + d - pinchDistance s)
                     (Some (fst cx)) (Some (snd cx))
                     (s\<lparr>pinchTouchList := l, pinchDistance := d\<rparr>)
           \<and> pinchDistance s' = d \<and> pinchTouchList s' = l
           \<and> (enableZoom (props s) \<and> getBestImageForType s ''mainSrc'' \<noteq> None
               \<and> MIN_ZOOM_LEVEL c \<le> zoomLevel (state s)
               \<and> zoomLevel (state s) \<le> MAX_ZOOM_LEVEL c \<longrightarrow>
                 (pinchDistance s < d \<longrightarrow>
                    zoomLevel (state s) < zoomLevel (state s')
                    \<or> (zoomLevel (state s') = zoomLevel (state s)
                        \<and> zoomLevel (state s) = MAX_ZOOM_LEVEL c))
                 \<and> (d < pinchDistance s \<longrightarrow>
                    zoomLevel (state s') < zoomLevel (state s)
                    \<or> (zoomLevel (state s') = zoomLevel (state s)
                        \<and> zoomLevel (state s) = MIN_ZOOM_LEVEL c)))"
proof -
  have "2 \<le> length l" using two by (simp add: l_def rematch_def)
  from pinch_two [OF this] obtain d cx where
    d: "calculatePinchDistance l = Some d" and cx: "calculatePinchCenter l = Some cx"
    and mid: "fst cx = (ev_x (l ! 0) + ev_x (l ! 1)) / 2"
             "snd cx = (ev_y (l ! 0) + ev_y (l ! 1)) / 2"
    by blast
  define s1 where "s1 = s\<lparr>pinchTouchList := l, pinchDistance := d\<rparr>"
  define s' where "s' = changeZoom c (zoomLevel (state s) + d - pinchDistance s)
                     (Some (fst cx)) (Some (snd cx)) s1"
  have run: "handlePinch c pointers s = Some s'"
    unfolding handlePinch_eq l_def [symmetric] d cx s'_def s1_def by simp
  have f1: "props s1 = props s" "imageCache s1 = imageCache s"
    "lightboxRect s1 = lightboxRect s" "state s1 = state s"
    "pinchDistance s1 = d" "pinchTouchList s1 = l"
    by (simp_all add: s1_def)
  obtain f where f: "s' = setState f s1"
    unfolding s'_def using changeZoom_setState by blast
  have kept: "pinchDistance s' = d" "pinchTouchList s' = l"
    unfolding f by (simp_all add: setState_def f1)
  have img1: "getBestImageForType s1 ''mainSrc'' = getBestImageForType s ''mainSrc''"
    by (rule getBestImageForType_cong) (simp_all add: f1)
  have mono: "(pinchDistance s < d \<longrightarrow>
                    zoomLevel (state s) < zoomLevel (state s')
                    \<or> (zoomLevel (state s') = zoomLevel (state s)
                        \<and> zoomLevel (state s) = MAX_ZOOM_LEVEL c))
                 \<and> (d < pinchDistance s \<longrightarrow>
                    zoomLevel (state s') < zoomLevel (state s)
                    \<or> (zoomLevel (state s') = zoomLevel (state s)
                        \<and> zoomLevel (state s) = MIN_ZOOM_LEVEL c))"
    if en: "enableZoom (props s)" and img: "getBestImageForType s ''mainSrc'' \<noteq> None"
      and lo: "MIN_ZOOM_LEVEL c \<le> zoomLevel (state s)"
      and hi: "zoomLevel (state s) \<le> MAX_ZOOM_LEVEL c"
  proof -
    define z where "z = zoomLevel (state s)"
    define dd where "dd = d - pinchDistance s"
    have lvl: "zoomLevel (state s') = max (MIN_ZOOM_LEVEL c) (min (MAX_ZOOM_LEVEL c) (z + dd))"
      unfolding s'_def z_def dd_def
      by (subst changeZoom_level) (simp_all add: f1 img1 en img algebra_simps)
    have up: "0 < dd \<longrightarrow> z < zoomLevel (state s')
                \<or> (zoomLevel (state s') = z \<and> z = MAX_ZOOM_LEVEL c)"
      unfolding lvl using clamp_up [of "MIN_ZOOM_LEVEL c" z "MAX_ZOOM_LEVEL c" dd] lo hi
      unfolding z_def by blast
    have down: "dd < 0 \<longrightarrow> zoomLevel (state s') < z
                \<or> (zoomLevel (state s') = z \<and> z = MIN_ZOOM_LEVEL c)"
      unfolding lvl using clamp_down [of "MIN_ZOOM_LEVEL c" z "MAX_ZOOM_LEVEL c" dd] lo hi
      unfolding z_def by blast
    have "pinchDistance s < d \<longleftrightarrow> 0 < dd" "d < pinchDistance s \<longleftrightarrow> dd < 0"
      by (simp_all add: dd_def)
    then show ?thesis using up down unfolding z_def by simp
  qed
  have cxeq: "cx = ((ev_x (l ! 0) + ev_x (l ! 1)) / 2, (ev_y (l ! 0) + ev_y (l ! 1)) / 2)"
    using mid by (cases cx) simp
  have "handlePinch c pointers s = Some s'
           \<and> calculatePinchDistance l = Some d
           \<and> cx = ((ev_x (l ! 0) + ev_x (l ! 1)) / 2, (ev_y (l ! 0) + ev_y (l ! 1)) / 2)
           \<and> s' = changeZoom c (zoomLevel (state s) + d - pinchDistance s)
                     (Some (fst cx)) (Some (snd cx))
                     (s\<lparr>pinchTouchList := l, pinchDistance := d\<rparr>)
           \<and> pinchDistance s' = d \<and> pinchTouchList s' = l
           \<and> (enableZoom (props s) \<and> getBestImageForType s ''mainSrc'' \<noteq> None
               \<and> MIN_ZOOM_LEVEL c \<le> zoomLevel (state s)
               \<and> zoomLevel (state s) \<le> MAX_ZOOM_LEVEL c \<longrightarrow>
                 (pinchDistance s < d \<longrightarrow>
                    zoomLevel (state s) < zoomLevel (state s')
                    \<or> (zoomLevel (state s') = zoomLevel (state s)
                        \<and> zoomLevel (state s) = MAX_ZOOM_LEVEL c))
                 \<and> (d < pinchDistance s \<longrightarrow>
                    zoomLevel (state s') < zoomLevel (state s)
                    \<or> (zoomLevel (state s') = zoomLevel (state s)
                        \<and> zoomLevel (state s) = MIN_ZOOM_LEVEL c)))"
    using run d kept mono cxeq s'_def s1_def by blast
  then show ?thesis by blast
qed


lemma run_pinchMoved:
  "dispatch exampleConstants (TouchMove [(1, 600, 300)]) pinchStartExample
   = Some pinchMovedExample"
proof -
  have img: "getBestImageForType
               (pinchStartExample
                  \<lparr>pinchTouchList :=
                     [\<lparr>ev_id = NumId 0, ev_source = None, ev_x = 300, ev_y = 300\<rparr>,
                      parseTouchPointer (1, 600, 300)],
                   pinchDistance := 300\<rparr>) ''mainSrc'' = None"
    by (simp add: getBestImageForType_def isImageLoaded_def pinchStartExample_def
          mountedExample_fields props_get_def example_defs)
  have z: "changeZoom exampleConstants 100 (Some 450) (Some 300)
             (pinchStartExample
                \<lparr>pinchTouchList :=
                   [\<lparr>ev_id = NumId 0, ev_source = None, ev_x = 300, ev_y = 300\<rparr>,
                    parseTouchPointer (1, 600, 300)],
                 pinchDistance := 300\<rparr>)
           = pinchMovedExample"
    by (subst changeZoom_no_image [OF img])
       (simp_all add: example_defs pinchMovedExample_def)
  have l: "rematch [parseTouchPointer (1, 600, 300)] (pinchTouchList pinchStartExample)
           = [\<lparr>ev_id = NumId 0, ev_source = None, ev_x = 300, ev_y = 300\<rparr>,
              parseTouchPointer (1, 600, 300)]"
    by (simp add: rematch_def pinchStartExample_def parseTouchPointer_def)
  have f: "\<not> didUnmount pinchStartExample" "eventsSource pinchStartExample = TOUCH"
    "currentAction pinchStartExample = PINCH" "zoomLevel (state pinchStartExample) = 0"
    "pinchDistance pinchStartExample = 200"
    by (simp_all add: pinchStartExample_def mountedExample_fields)
  have d: "calculatePinchDistance
             [\<lparr>ev_id = NumId 0, ev_source = None, ev_x = 300, ev_y = 300\<rparr>,
              parseTouchPointer (1, 600, 300)] = Some 300"
    "calculatePinchCenter
             [\<lparr>ev_id = NumId 0, ev_source = None, ev_x = 300, ev_y = 300\<rparr>,
              parseTouchPointer (1, 600, 300)] = Some (450, 300)"
    by (simp_all add: horizontal_distance parseTouchPointer_def calculatePinchCenter_def)
  have "handlePinch exampleConstants [parseTouchPointer (1, 600, 300)] pinchStartExample
        = Some pinchMovedExample"
    unfolding handlePinch_eq l d by (simp add: f z)
  then show ?thesis
    by (simp add: dispatch_simps handleTouchMove_def shouldHandleEvent_def
          multiPointerMove_def f)
qed

text \<open>
  Claim C6 as stated fails while no size of the current image is known. In the example
  two fingers go down on the placeholder of the image that has not loaded, 200 apart, and
  one finger moves 100 away: the pinch distance is updated from 200 to 300, and the zoom
  level stays at 0, which is not \<open>MAX_ZOOM_LEVEL\<close>.
\<close>

theorem handlePinch_counterexample:
  "run exampleConstants [TouchStart True twoTouches, TouchMove [(1, 600, 300)]] mountedExample
   = Some pinchMovedExample
   \<and> dispatch exampleConstants (TouchStart True twoTouches) mountedExample
       = Some pinchStartExample
   \<and> currentAction pinchStartExample = PINCH
   \<and> pinchDistance pinchStartExample = 200 \<and> pinchDistance pinchMovedExample = 300
   \<and> zoomLevel (state pinchStartExample) = 0 \<and> zoomLevel (state pinchMovedExample) = 0
   \<and> zoomLevel (state pinchMovedExample) \<noteq> MAX_ZOOM_LEVEL exampleConstants"
proof -
  have r: "run exampleConstants [TouchStart True twoTouches, TouchMove [(1, 600, 300)]]
             mountedExample = Some pinchMovedExample"
    by (simp add: run_pinchStart run_pinchMoved)
  have f: "currentAction pinchStartExample = PINCH"
    "pinchDistance pinchStartExample = 200" "pinchDistance pinchMovedExample = 300"
    "zoomLevel (state pinchStartExample) = 0" "zoomLevel (state pinchMovedExample) = 0"
    by (simp_all add: pinchMovedExample_def pinchStartExample_def mountedExample_fields)
  show ?thesis
    using r run_pinchStart f by (simp add: example_defs)
qed

text \<open>
  The theorem of claim C6 at the example: on the loaded image, two fingers 200 apart
  pinch; when one finger moves 2 away, the pinch distance becomes 202 and the zoom
  level rises above 0.
\<close>

theorem handlePinch_step_witness:
  "2 \<le> length (pinchTouchList pinchLoadedExample)
   \<and> map_option pinchDistance
       (handlePinch exampleConstants [parseTouchPointer (1, 502, 300)] pinchLoadedExample)
       = Some 202
   \<and> map_option (\<lambda>s'. 0 < zoomLevel (state s'))
       (handlePinch exampleConstants [parseTouchPointer (1, 502, 300)] pinchLoadedExample)
       = Some True"
proof -
  have two: "2 \<le> length (pinchTouchList pinchLoadedExample)"
    by (simp add: pinchLoadedExample_def)
  have l: "rematch [parseTouchPointer (1, 502, 300)] (pinchTouchList pinchLoadedExample)
           = [\<lparr>ev_id = NumId 0, ev_source = None, ev_x = 300, ev_y = 300\<rparr>,
              parseTouchPointer (1, 502, 300)]"
    by (simp add: rematch_def pinchLoadedExample_def parseTouchPointer_def)
  have d: "calculatePinchDistance
             [\<lparr>ev_id = NumId 0, ev_source = None, ev_x = 300, ev_y = 300\<rparr>,
              parseTouchPointer (1, 502, 300)] = Some 202"
    by (simp add: horizontal_distance parseTouchPointer_def)
  have f: "enableZoom (props pinchLoadedExample)" "zoomLevel (state pinchLoadedExample) = 0"
    "pinchDistance pinchLoadedExample = 200"
    by (simp_all add: pinchLoadedExample_def loadedExample_def mountedExample_fields
          example_defs)
  have img: "getBestImageForType pinchLoadedExample ''mainSrc'' \<noteq> None"
    by (subst example_image)
       (simp_all add: pinchLoadedExample_def loadedExample_def mountedExample_fields)
  show ?thesis
    using handlePinch_step [OF two, of exampleConstants "[parseTouchPointer (1, 502, 300)]"]
      two img
    unfolding l d by (auto simp: f example_defs)
qed

section \<open>Completion of a load\<close>

lemma advancedProps_fields:
  "mainSrc advancedProps = ''c.jpg''" "prevSrc advancedProps = Some ''b.jpg''"
  "nextSrc advancedProps = Some ''d.jpg''" "mainSrcThumbnail advancedProps = None"
  "prevSrcThumbnail advancedProps = None" "nextSrcThumbnail advancedProps = None"
  by (simp_all add: advancedProps_def exampleProps_fields)

lemma run_advanced:
  "dispatch exampleConstants (ReceiveProps advancedProps) mountedExample
   = Some advancedExample"
  by (simp add: dispatch_simps UNSAFE_componentWillReceiveProps_def getSrcTypes_def
        props_get_def loadAllImages_def loadSrcType_absent loadSrcType_start
        isImageLoaded_def dictKey_def Let_def advancedExample_def
        mountedExample_fields exampleProps_fields advancedProps_fields)

lemma run_staleError:
  "dispatch exampleConstants (ImageErrored ''mainSrc'' ''b.jpg'') advancedExample
   = Some staleErrorExample"
  by (simp add: dispatch_simps imageOnError_def loadDoneCallback_def setState_def
        staleErrorExample_def advancedExample_def mountedExample_fields)

lemma run_staleSuccess:
  "dispatch exampleConstants (ImageLoaded ''mainSrc'' ''c.jpg'' 1000 500) staleErrorExample
   = Some staleSuccessExample"
  by (simp add: dispatch_simps imageOnLoad_def loadDoneCallback_def props_get_def
        staleSuccessExample_def staleErrorExample_def advancedExample_def
        mountedExample_fields advancedProps_fields)

text \<open>
  Claim C8 as stated fails in the clearing of the error flag: a successful load does
  not touch \<open>loadErrorStatus\<close>. In the example the parent moves to the next image while
  the loads are in flight; the load of the former main image fails and sets the flag
  of the role \<open>mainSrc\<close>; the load of the new main image succeeds, its cache entry is
  stored and the rerender is forced, and the flag of the role is still set.
\<close>

theorem imageOnLoad_counterexample:
  "run exampleConstants
     [ReceiveProps advancedProps, ImageErrored ''mainSrc'' ''b.jpg'',
      ImageLoaded ''mainSrc'' ''c.jpg'' 1000 500] mountedExample
   = Some staleSuccessExample
   \<and> dispatch exampleConstants (ImageLoaded ''mainSrc'' ''c.jpg'' 1000 500) staleErrorExample
       = Some (imageOnLoad ''mainSrc'' ''c.jpg'' 1000 500
                 (staleErrorExample\<lparr>pendingLoads :=
                    remove1 (''mainSrc'', ''c.jpg'') (pendingLoads staleErrorExample)\<rparr>))
   \<and> loadErrorStatus (state staleErrorExample) ''mainSrc'' = Some True
   \<and> imageCache staleSuccessExample ''c.jpg''
       = Some \<lparr>loaded = True, img_width = 1000, img_height = 500\<rparr>
   \<and> loadErrorStatus (state staleSuccessExample) ''mainSrc'' = Some True"
proof -
  have r: "run exampleConstants
     [ReceiveProps advancedProps, ImageErrored ''mainSrc'' ''b.jpg'',
      ImageLoaded ''mainSrc'' ''c.jpg'' 1000 500] mountedExample
   = Some staleSuccessExample"
    by (simp add: run_advanced run_staleError run_staleSuccess)
  have d: "dispatch exampleConstants (ImageLoaded ''mainSrc'' ''c.jpg'' 1000 500)
             staleErrorExample
       = Some (imageOnLoad ''mainSrc'' ''c.jpg'' 1000 500
                 (staleErrorExample\<lparr>pendingLoads :=
                    remove1 (''mainSrc'', ''c.jpg'') (pendingLoads staleErrorExample)\<rparr>))"
    by (rule dispatch_simps) (simp add: staleErrorExample_def)
  have f: "loadErrorStatus (state staleErrorExample) ''mainSrc'' = Some True"
    "imageCache staleSuccessExample ''c.jpg''
       = Some \<lparr>loaded = True, img_width = 1000, img_height = 500\<rparr>"
    "loadErrorStatus (state staleSuccessExample) ''mainSrc'' = Some True"
    by (simp_all add: staleSuccessExample_def staleErrorExample_def)
  from r d f show ?thesis by (simp only: simp_thms)
qed


lemma loadSrcType_flags:
  "loadErrorStatus (state (loadSrcType p s t)) r =
     (if r = t \<and> truthy (props_get p t) \<and> loadErrorStatus (state s) t = Some True
      then Some False else loadErrorStatus (state s) r)"
  by (simp add: loadSrcType_def loadImage_def setState_def setTimeout_def Let_def
        split: option.split)

lemma loadAllImages_flags_aux:
  assumes "truthy (props_get p r)"
    and "r \<in> set ts \<or> loadErrorStatus (state s) r \<noteq> Some True"
  shows "loadErrorStatus (state (foldl (loadSrcType p) s ts)) r \<noteq> Some True"
  using assms(2)
proof (induction ts arbitrary: s)
  case Nil
  then show ?case by simp
next
  case (Cons t ts)
  have "loadErrorStatus (state (loadSrcType p s t)) r \<noteq> Some True"
    if "r = t \<or> loadErrorStatus (state s) r \<noteq> Some True"
    using that assms(1) by (auto simp: loadSrcType_flags)
  with Cons show ?case by auto
qed

lemma truthy_source: "truthy (props_get p r) \<Longrightarrow> r \<in> set getSrcTypes"
  by (auto simp: props_get_def truthy_def getSrcTypes_def split: if_splits)

lemma loadAllImages_clears:
  "truthy (props_get p r) \<Longrightarrow> loadErrorStatus (state (loadAllImages p s)) r \<noteq> Some True"
  unfolding loadAllImages_def
  by (rule loadAllImages_flags_aux) (simp_all add: truthy_source)

text \<open>
  Claim C8, as amended. When a load succeeds, the cache entry of the loaded URL is
  stored as loaded with the size of the image, and no other entry changes; the React
  state, the error flags with it, stays as it is; \<open>onImageLoad\<close> is called, and the
  rerender is forced exactly when the role still has the URL of the load in the props
  and the component has not unmounted. The error flag of a role is cleared where a load
  starts: after \<open>loadAllImages\<close> no role with a source has its flag set.
\<close>

theorem imageOnLoad_effect:
  "imageCache (imageOnLoad t u w h s)
     = (imageCache s)(u \<mapsto> \<lparr>loaded = True, img_width = w, img_height = h\<rparr>)
   \<and> (\<forall>b. b \<noteq> u \<longrightarrow> imageCache (imageOnLoad t u w h s) b = imageCache s b)
   \<and> state (imageOnLoad t u w h s) = state s
   \<and> calls (imageOnLoad t u w h s)
       = calls s @ [OnImageLoad u t]
         @ (if props_get (props s) t = Some u \<and> \<not> didUnmount s then [ForceUpdate] else [])
   \<and> (\<forall>p r. truthy (props_get p r) \<longrightarrow>
          loadErrorStatus (state (loadAllImages p s)) r \<noteq> Some True)"
proof -
  have "imageCache (imageOnLoad t u w h s)
     = (imageCache s)(u \<mapsto> \<lparr>loaded = True, img_width = w, img_height = h\<rparr>)"
    by (simp add: imageOnLoad_def loadDoneCallback_def)
  moreover have "state (imageOnLoad t u w h s) = state s"
    by (simp add: imageOnLoad_def loadDoneCallback_def)
  moreover have "calls (imageOnLoad t u w h s)
       = calls s @ [OnImageLoad u t]
         @ (if props_get (props s) t = Some u \<and> \<not> didUnmount s then [ForceUpdate] else [])"
    by (simp add: imageOnLoad_def loadDoneCallback_def)
  ultimately show ?thesis
    using loadAllImages_clears by simp
qed

text \<open>
  The theorem at the example: the load of the main image forces the rerender; after the
  parent has moved to the next image, the completion of the former main image stores
  its own cache entry only, forces nothing and leaves the error flags as they are.
\<close>

theorem imageOnLoad_effect_witness:
  "calls (imageOnLoad ''mainSrc'' ''b.jpg'' 1000 500 mountedExample)
     = [OnImageLoad ''b.jpg'' ''mainSrc'', ForceUpdate]
   \<and> calls (imageOnLoad ''mainSrc'' ''b.jpg'' 1000 500 advancedExample)
     = [OnImageLoad ''b.jpg'' ''mainSrc'']
   \<and> imageCache (imageOnLoad ''mainSrc'' ''b.jpg'' 1000 500 advancedExample) ''b.jpg''
     = Some \<lparr>loaded = True, img_width = 1000, img_height = 500\<rparr>
   \<and> imageCache (imageOnLoad ''mainSrc'' ''b.jpg'' 1000 500 advancedExample) ''c.jpg'' = None
   \<and> loadErrorStatus (state (imageOnLoad ''mainSrc'' ''b.jpg'' 1000 500 advancedExample))
     = Map.empty"
  using imageOnLoad_effect [of "''mainSrc''" "''b.jpg''" 1000 500 mountedExample]
    imageOnLoad_effect [of "''mainSrc''" "''b.jpg''" 1000 500 advancedExample]
  by (simp add: props_get_def mountedExample_fields advancedExample_def
        advancedProps_fields exampleProps_fields)

section \<open>Timers\<close>

lemma timerStep_refl: "timerStep s s"
  by (simp add: timerStep_def)

lemma timerStepTo_Some: "timerStepTo s (Some x) = timerStep s x"
  by (simp add: timerStepTo_def)

lemma timerStepTo_None: "timerStepTo s None"
  by (simp add: timerStepTo_def)

text \<open>A step that changes no field of the timers and not \<open>didUnmount\<close>.\<close>

lemma timerStep_same:
  assumes "pendingTimers y = pendingTimers x" and "timeouts y = timeouts x"
    and "didUnmount y = didUnmount x" and "timerStep s x"
  shows "timerStep s y"
  using assms by (simp add: timerStep_def timersTracked_def)

lemma timerStep_setState: "timerStep s x \<Longrightarrow> timerStep s (setState f x)"
  by (rule timerStep_same [of _ x]) (simp_all add: setState_def)

lemma timerStep_setTimeout: "timerStep s x \<Longrightarrow> timerStep s (snd (setTimeout f t x))"
  by (auto simp: timerStep_def timersTracked_def setTimeout_def Let_def)

lemma timerStep_clearTimeout: "timerStep s x \<Longrightarrow> timerStep s (clearTimeout r x)"
  by (auto simp: timerStep_def timersTracked_def clearTimeout_def split: TimeoutRef.split)

lemma timerStep_update:
  "timerStep s (preventInnerClose_update f1 x) = timerStep s x"
  "timerStep s (preventInnerCloseTimeout_update f2 x) = timerStep s x"
  "timerStep s (resizeTimeout_update f3 x) = timerStep s x"
  "timerStep s (wheelActionTimeout_update f4 x) = timerStep s x"
  "timerStep s (resetScrollTimeout_update f5 x) = timerStep s x"
  "timerStep s (scrollX_update g1 x) = timerStep s x"
  "timerStep s (scrollY_update g2 x) = timerStep s x"
  "timerStep s (keyPressed_update f6 x) = timerStep s x"
  "timerStep s (moveRequested_update f7 x) = timerStep s x"
  "timerStep s (keyCounter_update f8 x) = timerStep s x"
  "timerStep s (calls_update f9 x) = timerStep s x"
  "timerStep s (state_update h1 x) = timerStep s x"
  "timerStep s (props_update h2 x) = timerStep s x"
  "timerStep s (imageCache_update h3 x) = timerStep s x"
  "timerStep s (pendingLoads_update h4 x) = timerStep s x"
  "timerStep s (lightboxRect_update h5 x) = timerStep s x"
  "timerStep s (currentAction_update k1 x) = timerStep s x"
  "timerStep s (eventsSource_update k2 x) = timerStep s x"
  "timerStep s (pointerList_update k3 x) = timerStep s x"
  "timerStep s (pinchTouchList_update k4 x) = timerStep s x"
  "timerStep s (pinchDistance_update g3 x) = timerStep s x"
  "timerStep s (moveStartX_update g4 x) = timerStep s x"
  "timerStep s (moveStartY_update g5 x) = timerStep s x"
  "timerStep s (moveStartOffsetX_update g6 x) = timerStep s x"
  "timerStep s (moveStartOffsetY_update g7 x) = timerStep s x"
  "timerStep s (swipeStartX_update g8 x) = timerStep s x"
  "timerStep s (swipeStartY_update g9 x) = timerStep s x"
  "timerStep s (swipeEndX_update g10 x) = timerStep s x"
  "timerStep s (swipeEndY_update g11 x) = timerStep s x"
  by (simp_all add: timerStep_def timersTracked_def)

lemmas timer_rules =
  timerStep_refl timerStepTo_Some timerStepTo_None timerStep_setState timerStep_setTimeout
  timerStep_clearTimeout timerStep_update

lemma timerStep_changeZoom: "timerStep s x \<Longrightarrow> timerStep s (changeZoom c L cx cy x)"
  using changeZoom_setState [of c L cx cy x] by (auto simp: timerStep_setState)

lemma timerStep_requestMove: "timerStep s x \<Longrightarrow> timerStep s (requestMove c d x)"
  by (simp add: requestMove_def Let_def timer_rules)

lemma timerStep_requestClose: "timerStep s x \<Longrightarrow> timerStep s (requestClose k x)"
  by (simp add: requestClose_def timer_rules)

lemma timerStep_setPreventInnerClose:
  "timerStep s x \<Longrightarrow> timerStep s (setPreventInnerClose x)"
  by (simp add: setPreventInnerClose_def Let_def timer_rules split: TimeoutRef.split)

lemma timerStep_handleWindowResize: "timerStep s x \<Longrightarrow> timerStep s (handleWindowResize x)"
  by (simp add: handleWindowResize_def Let_def timer_rules)

lemma timerStep_handleMoveEnd: "timerStep s x \<Longrightarrow> timerStep s (handleMoveEnd c x)"
  unfolding handleMoveEnd_eq moveReset_def Let_def by (simp add: timer_rules)

lemma timerStep_handleSwipeEnd: "timerStep s x \<Longrightarrow> timerStep s (handleSwipeEnd c e x)"
  unfolding handleSwipeEnd_eq swipeReset_def requestMovePrev_def requestMoveNext_def
  by (simp add: timer_rules timerStep_requestMove)

lemma timerStep_handleEnd: "timerStep s x \<Longrightarrow> timerStep s (handleEnd c e x)"
  by (simp add: handleEnd_def handlePinchEnd_def timer_rules timerStep_handleMoveEnd
        timerStep_handleSwipeEnd split: Action.split)

lemma timerStep_decideMoveOrSwipe:
  "timerStep s x \<Longrightarrow> timerStep s (decideMoveOrSwipe c p x)"
  by (simp add: decideMoveOrSwipe_def handleSwipeStart_def handleMoveStart_def timer_rules)

lemma timerStep_handlePinchStart:
  "timerStep s x \<Longrightarrow> timerStepTo s (handlePinchStart l x)"
  by (simp add: handlePinchStart_def Let_def timer_rules timerStepTo_def split: option.split)

lemma timerStep_handlePinch: "timerStep s x \<Longrightarrow> timerStepTo s (handlePinch c l x)"
  unfolding handlePinch_eq
  by (simp add: timer_rules timerStep_changeZoom timerStepTo_def split: option.split)

lemma timerStep_multiPointerStart:
  "timerStep s x \<Longrightarrow> timerStepTo s (multiPointerStart c x)"
  by (simp add: multiPointerStart_def Let_def timer_rules timerStep_handleEnd
        timerStep_decideMoveOrSwipe timerStep_handlePinchStart)

lemma timerStep_multiPointerMove:
  "timerStep s x \<Longrightarrow> timerStepTo s (multiPointerMove c l x)"
  by (simp add: multiPointerMove_def handleMove_def handleSwipe_def Let_def timer_rules
        timerStep_handlePinch split: Action.split list.split)

lemma timerStep_multiPointerEnd:
  "timerStep s x \<Longrightarrow> timerStepTo s (multiPointerEnd c x)"
  by (simp add: multiPointerEnd_def Let_def timer_rules timerStep_handleEnd
        timerStep_setPreventInnerClose timerStep_decideMoveOrSwipe timerStep_handlePinchStart)

lemma timerStep_shouldHandleEvent:
  "timerStep s x \<Longrightarrow> timerStep s (snd (shouldHandleEvent src x))"
  by (simp add: shouldHandleEvent_def filterPointersBySource_def timer_rules
        split: Source.split)

lemma timerStep_addPointers:
  "timerStep s x \<Longrightarrow> timerStep s (foldl (\<lambda>s t. addPointer (f t) s) x ts)"
  by (induction ts arbitrary: x) (simp_all add: addPointer_def timer_rules)

lemma timerStep_removePointers:
  "timerStep s x \<Longrightarrow> timerStep s (foldl (\<lambda>s t. removePointer (f t) s) x ts)"
  by (induction ts arbitrary: x) (simp_all add: removePointer_def timer_rules)


lemma timerStep_pointer:
  "timerStep s x \<Longrightarrow> timerStep s (addPointer p x)"
  "timerStep s x \<Longrightarrow> timerStep s (removePointer p x)"
  by (simp_all add: addPointer_def removePointer_def timer_rules)

lemma timerStep_handlers:
  "timerStep s x \<Longrightarrow> timerStepTo s (handleMouseDown c b mx my x)"
  "timerStep s x \<Longrightarrow> timerStepTo s (handleMouseMove c mx my x)"
  "timerStep s x \<Longrightarrow> timerStepTo s (handleMouseUp c mx my x)"
  "timerStep s x \<Longrightarrow> timerStepTo s (handleTouchStart c b ts x)"
  "timerStep s x \<Longrightarrow> timerStepTo s (handleTouchMove c ts x)"
  "timerStep s x \<Longrightarrow> timerStepTo s (handleTouchEnd c ts x)"
  "timerStep s x \<Longrightarrow> timerStepTo s (handlePointerEvent c ty b pid mx my x)"
  by (simp_all add: handleMouseDown_def handleMouseMove_def handleMouseUp_def
        handleTouchStart_def handleTouchMove_def handleTouchEnd_def handlePointerEvent_def
        Let_def timerStep_pointer timer_rules timerStep_shouldHandleEvent
        timerStep_multiPointerStart timerStep_multiPointerMove timerStep_multiPointerEnd
        timerStep_addPointers timerStep_removePointers)

lemma timerStep_zoom_handlers:
  "timerStep s x \<Longrightarrow> timerStep s (handleImageMouseWheel c dx dy wx wy x)"
  "timerStep s x \<Longrightarrow> timerStep s (handleImageDoubleClick c wx wy x)"
  "timerStep s x \<Longrightarrow> timerStep s (handleZoomInButtonClick c x)"
  "timerStep s x \<Longrightarrow> timerStep s (handleZoomOutButtonClick c x)"
  by (simp_all add: handleImageMouseWheel_def handleImageDoubleClick_def
        handleZoomInButtonClick_def handleZoomOutButtonClick_def timer_rules
        timerStep_changeZoom)

lemma timerStep_handleOuterMousewheel:
  "timerStep s x \<Longrightarrow> timerStep s (handleOuterMousewheel c dx dy x)"
  by (simp add: handleOuterMousewheel_def Let_def requestMoveNext_def requestMovePrev_def
        timer_rules timerStep_requestMove)

lemma timerStep_loadDoneCallback:
  "timerStep s x \<Longrightarrow> timerStep s (loadDoneCallback t u e x)"
  by (simp add: loadDoneCallback_def timer_rules)

lemma timerStep_loadSrcType: "timerStep s x \<Longrightarrow> timerStep s (loadSrcType p x t)"
  by (simp add: loadSrcType_def loadImage_def Let_def timer_rules split: option.split)

lemma timerStep_loadSrcTypes:
  "timerStep s x \<Longrightarrow> timerStep s (foldl (loadSrcType p) x ts)"
  by (induction ts arbitrary: x) (simp_all add: timerStep_loadSrcType)

lemma timerStep_loadAllImages: "timerStep s x \<Longrightarrow> timerStep s (loadAllImages p x)"
  unfolding loadAllImages_def by (rule timerStep_loadSrcTypes)

lemma timerStep_receiveProps:
  "timerStep s x \<Longrightarrow> timerStep s (UNSAFE_componentWillReceiveProps np x)"
  by (simp add: UNSAFE_componentWillReceiveProps_def Let_def timer_rules
        timerStep_loadAllImages)

lemma timerStep_image:
  "timerStep s x \<Longrightarrow> timerStep s (imageOnLoad t u w h x)"
  "timerStep s x \<Longrightarrow> timerStep s (imageOnError t u x)"
  by (simp_all add: imageOnLoad_def imageOnError_def timer_rules timerStep_loadDoneCallback)

lemma timerStep_runTimerFunc: "timerStep s x \<Longrightarrow> timerStep s (runTimerFunc f x)"
  by (simp add: runTimerFunc_def timer_rules timerStep_loadDoneCallback split: TimerFunc.split)

lemma timerStep_fireTimer: "timerStep s (fireTimer tid s)"
proof (cases "find (\<lambda>e. fst e = tid) (pendingTimers s)")
  case None
  then show ?thesis by (simp add: fireTimer_def timerStep_refl)
next
  case (Some e)
  have "timerStep s (s\<lparr>pendingTimers := filter (\<lambda>e. fst e \<noteq> tid) (pendingTimers s),
                         timeouts := filter (\<lambda>t. t \<noteq> tid) (timeouts s)\<rparr>)"
    by (auto simp: timerStep_def timersTracked_def)
  then show ?thesis
    by (simp add: fireTimer_def Some timerStep_runTimerFunc)
qed

lemma fireTimer_none: "pendingTimers s = [] \<Longrightarrow> fireTimer tid s = s"
  by (simp add: fireTimer_def)

lemma componentWillUnmount_timers:
  "timersTracked s \<Longrightarrow> pendingTimers (componentWillUnmount s) = []"
  "didUnmount (componentWillUnmount s)"
  "timeouts (componentWillUnmount s) = timeouts s"
  by (auto simp: componentWillUnmount_def timersTracked_def filter_empty_conv)

text \<open>
  The invariant of the runs: every pending timer is recorded, and after the unmount no
  timer is pending.
\<close>

lemma dispatch_timers:
  assumes "dispatch c e s = Some s'" and "timersTracked s"
    and "didUnmount s \<longrightarrow> pendingTimers s = []"
  shows "timersTracked s' \<and> (didUnmount s' \<longrightarrow> pendingTimers s' = [])"
proof (cases "didUnmount s")
  case True
  with assms(3) have none: "pendingTimers s = []" by simp
  have "pendingTimers s' = [] \<and> timersTracked s'"
    using assms(1) none True
    by (cases e)
       (auto simp: dispatch_def fireTimer_none imageOnLoad_def imageOnError_def
          loadDoneCallback_def setState_def timersTracked_def split: if_splits)
  then show ?thesis by simp
next
  case False
  have step: "timerStepTo s (dispatch c e s) \<or> e = Unmount"
    using False
    by (cases e)
       (simp_all add: dispatch_def timer_rules timerStep_handlers timerStep_zoom_handlers
          timerStep_handleOuterMousewheel timerStep_image timerStep_fireTimer
          timerStep_requestMove timerStep_requestClose timerStep_handleWindowResize
          timerStep_receiveProps requestMovePrev_def requestMoveNext_def)
  show ?thesis
  proof (cases "e = Unmount")
    case True
    then have "s' = componentWillUnmount s"
      using assms(1) False by (simp add: dispatch_def)
    then show ?thesis
      using componentWillUnmount_timers(1) [OF assms(2)]
      by (simp add: timersTracked_def)
  next
    case False
    with step assms(1) have "timerStep s s'" by (simp add: timerStepTo_def)
    then show ?thesis
      using assms(2) \<open>\<not> didUnmount s\<close> by (simp add: timerStep_def)
  qed
qed

lemma run_timers:
  assumes "run c es s = Some s'" and "timersTracked s"
    and "didUnmount s \<longrightarrow> pendingTimers s = []"
  shows "timersTracked s' \<and> (didUnmount s' \<longrightarrow> pendingTimers s' = [])"
  using assms
proof (induction es arbitrary: s)
  case Nil
  then show ?case by simp
next
  case (Cons e es)
  from Cons.prems(1) obtain s1 where d: "dispatch c e s = Some s1"
    and r: "run c es s1 = Some s'"
    by (auto split: option.splits)
  from dispatch_timers [OF d Cons.prems(2) Cons.prems(3)]
  show ?case using Cons.IH [OF r] by blast
qed

lemma mounted_timers:
  "timersTracked (mounted c p r) \<and> \<not> didUnmount (mounted c p r)"
proof -
  have "timerStep (constructor c p r) (mounted c p r)"
    by (simp add: mounted_def componentDidMount_def Let_def timer_rules
          timerStep_loadAllImages)
  moreover have "timersTracked (constructor c p r)" "\<not> didUnmount (constructor c p r)"
    by (simp_all add: constructor_def timersTracked_def)
  ultimately show ?thesis by (simp add: timerStep_def)
qed


lemma runTimerFunc_timers:
  "pendingTimers (runTimerFunc f x) = pendingTimers x"
  "timeouts (runTimerFunc f x) = timeouts x"
  by (simp_all add: runTimerFunc_def loadDoneCallback_def setState_def split: TimerFunc.split)

lemma fireTimer_gone: "tid \<notin> fst ` set (pendingTimers (fireTimer tid s))"
proof (cases "find (\<lambda>e. fst e = tid) (pendingTimers s)")
  case None
  then have "tid \<notin> fst ` set (pendingTimers s)"
    by (auto simp: find_None_iff)
  with None show ?thesis by (simp add: fireTimer_def)
next
  case (Some e)
  then show ?thesis by (auto simp: fireTimer_def runTimerFunc_timers)
qed

text \<open>
  Claim C9. The timer that \<open>this.setTimeout\<close> creates is pending and recorded in
  \<open>timeouts\<close>; a timer that is cleared or has fired is neither pending nor, when
  cleared, recorded. In every state that a run of events reaches from the mounted
  component, every pending timer is recorded; \<open>componentWillUnmount\<close> cancels every
  recorded timer, so that in every state reached after the unmount no timer is pending
  and no timer function runs: a timer that fires changes nothing.
\<close>

theorem timers_cancelled_on_teardown:
  "fst (setTimeout f t s) \<in> set (timeouts (snd (setTimeout f t s)))
   \<and> (fst (setTimeout f t s), f, t) \<in> set (pendingTimers (snd (setTimeout f t s)))
   \<and> tid \<notin> fst ` set (pendingTimers (clearTimeout (TimerId tid) s))
   \<and> tid \<notin> set (timeouts (clearTimeout (TimerId tid) s))
   \<and> tid \<notin> fst ` set (pendingTimers (fireTimer tid s))
   \<and> (timersTracked s \<longrightarrow> pendingTimers (componentWillUnmount s) = [])
   \<and> (run c es (mounted c p r) = Some s' \<longrightarrow>
        timersTracked s'
        \<and> (didUnmount s' \<longrightarrow> pendingTimers s' = [] \<and> fireTimer tid s' = s'))"
proof -
  have A: "fst (setTimeout f t s) \<in> set (timeouts (snd (setTimeout f t s)))
     \<and> (fst (setTimeout f t s), f, t) \<in> set (pendingTimers (snd (setTimeout f t s)))"
    by (simp add: setTimeout_def Let_def)
  have B: "tid \<notin> fst ` set (pendingTimers (clearTimeout (TimerId tid) s))
     \<and> tid \<notin> set (timeouts (clearTimeout (TimerId tid) s))"
    by (auto simp: clearTimeout_def)
  have C: "run c es (mounted c p r) = Some s' \<longrightarrow>
        timersTracked s'
        \<and> (didUnmount s' \<longrightarrow> pendingTimers s' = [] \<and> fireTimer tid s' = s')"
  proof
    assume "run c es (mounted c p r) = Some s'"
    from run_timers [OF this] mounted_timers [of c p r]
    have "timersTracked s' \<and> (didUnmount s' \<longrightarrow> pendingTimers s' = [])" by blast
    then show "timersTracked s'
        \<and> (didUnmount s' \<longrightarrow> pendingTimers s' = [] \<and> fireTimer tid s' = s')"
      by (simp add: fireTimer_none)
  qed
  from A B C fireTimer_gone [of tid s] componentWillUnmount_timers(1) [of s]
  show ?thesis by blast
qed

lemma run_closing:
  "dispatch exampleConstants CloseButtonClick mountedExample = Some closingExample"
  by (simp add: dispatch_def isAnimating_def requestClose_def setTimeout_def setState_def
        Let_def closingExample_def mountedExample_fields exampleProps_fields)

lemma run_unmounted:
  "dispatch exampleConstants Unmount closingExample = Some unmountedExample"
  by (simp add: dispatch_def componentWillUnmount_def unmountedExample_def closingExample_def
        mountedExample_fields)

text \<open>
  The theorem at the example: the close button starts the closing animation, and the
  timer that will close the lightbox is pending and recorded; the component is
  unmounted before the timer fires; then no timer is pending, and when the cancelled
  timer fires, nothing happens: \<open>onCloseRequest\<close> is not called.
\<close>

theorem timers_cancelled_on_teardown_witness:
  "run exampleConstants [CloseButtonClick] mountedExample = Some closingExample
   \<and> pendingTimers closingExample = [(1, CloseLightboxFunc, 300)]
   \<and> timeouts closingExample = [1]
   \<and> run exampleConstants [CloseButtonClick, Unmount] mountedExample = Some unmountedExample
   \<and> pendingTimers unmountedExample = []
   \<and> run exampleConstants [CloseButtonClick, Unmount, TimerFires 1] mountedExample
       = Some unmountedExample
   \<and> calls unmountedExample = []"
proof -
  have r1: "run exampleConstants [CloseButtonClick] mountedExample = Some closingExample"
    by (simp add: run_closing)
  have r2: "run exampleConstants [CloseButtonClick, Unmount] mountedExample
            = Some unmountedExample"
    by (simp add: run_closing run_unmounted)
  have u: "didUnmount unmountedExample" by (simp add: unmountedExample_def)
  have none: "pendingTimers unmountedExample = []"
    and idle: "fireTimer tid unmountedExample = unmountedExample" for tid
    using timers_cancelled_on_teardown
         [where c = exampleConstants and es = "[CloseButtonClick, Unmount]"
            and p = exampleProps and r = exampleRect and s' = unmountedExample
            and tid = tid]
       r2 u
    unfolding mountedExample_def by blast+
  have r3: "run exampleConstants [CloseButtonClick, Unmount, TimerFires 1] mountedExample
            = Some unmountedExample"
    by (simp add: run_closing run_unmounted dispatch_simps idle)
  have f: "pendingTimers closingExample = [(1, CloseLightboxFunc, 300)]"
    "timeouts closingExample = [1]" "calls unmountedExample = []"
    by (simp_all add: unmountedExample_def closingExample_def mountedExample_fields)
  from r1 r2 r3 none f show ?thesis by (simp only: simp_thms)
qed

section \<open>The offset at the minimum zoom level\<close>

lemma run_reset:
  "dispatch exampleConstants (ImageWheel 0 2 400 300) pressedExample = Some resetExample"
proof -
  have f: "\<not> didUnmount pressedExample" "enableZoom (props pressedExample)"
    "zoomLevel (state pressedExample) = 2" "scrollY pressedExample = - 2"
    by (simp_all add: example_states mountedExample_fields example_defs)
  have z: "changeZoom exampleConstants 0 (Some 400) (Some 300)
             (pressedExample\<lparr>scrollX := 0, scrollY := 0\<rparr>) = resetExample"
    by (subst changeZoom_reset)
       (simp_all add: f example_defs resetExample_def setState_def)
  show ?thesis
    by (simp add: dispatch_simps f handleImageMouseWheel_def example_defs z)
qed

lemma run_offCentre:
  "dispatch exampleConstants (MouseMove 300 300) resetExample = Some offCentreExample"
  by (simp add: dispatch_simps handleMouseMove_def shouldHandleEvent_def
        multiPointerMove_def handleMove_def setState_def parseMouseEvent_def Let_def
        offCentreExample_def resetExample_def pressedExample_def zoomedExample_def
        loadedExample_def mountedExample_fields)


lemma offCentreExample_fields:
  "props offCentreExample = exampleProps" "lightboxRect offCentreExample = exampleRect"
  "imageCache offCentreExample = imageCache loadedExample"
  "zoomLevel (state offCentreExample) = 0" "offsetX (state offCentreExample) = 300"
  "offsetY (state offCentreExample) = 0" "currentAction offCentreExample = MOVE"
  "didUnmount offCentreExample = False" "eventsSource offCentreExample = MOUSE"
  "pointerList offCentreExample = [parseMouseEvent 600 300]"
  "preventInnerCloseTimeout offCentreExample = Undefined"
  "pendingTimers offCentreExample = []" "timeouts offCentreExample = []"
  "nextTimerId offCentreExample = 1"
  by (simp_all add: offCentreExample_def resetExample_def example_states
        mountedExample_fields)

lemma run_released:
  "dispatch exampleConstants (MouseUp 300 300) offCentreExample = Some releasedExample"
proof -
  define s1 where
    "s1 = offCentreExample
            \<lparr>pointerList := [], preventInnerClose := True,
             pendingTimers := [(1, PreventInnerCloseFunc, 100)], nextTimerId := 2,
             timeouts := [1], preventInnerCloseTimeout := TimerId 1\<rparr>"
  have r: "removePointer (parseMouseEvent 300 300) offCentreExample
           = offCentreExample\<lparr>pointerList := []\<rparr>"
    by (simp add: removePointer_def parseMouseEvent_def offCentreExample_fields)
  have p: "setPreventInnerClose (offCentreExample\<lparr>pointerList := []\<rparr>) = s1"
    by (simp add: setPreventInnerClose_def setTimeout_def Let_def
          offCentreExample_fields s1_def)
  have f1: "props s1 = exampleProps" "lightboxRect s1 = exampleRect"
    "imageCache s1 = imageCache loadedExample" "zoomLevel (state s1) = 0"
    "offsetX (state s1) = 300" "offsetY (state s1) = 0" "currentAction s1 = MOVE"
    "pointerList s1 = []"
    by (simp_all add: s1_def offCentreExample_fields)
  have m: "getMaxOffsets exampleConstants s1
           = \<lparr>maxX = 100, minX = - 100, maxY = 50, minY = - 50\<rparr>"
    by (simp add: getMaxOffsets_def example_image [OF f1(1,3,2)] f1 getLightboxRect_def
          example_multipliers example_defs Let_def)
  have e: "handleEnd exampleConstants True s1
           = releasedExample\<lparr>eventsSource := MOUSE\<rparr>"
    unfolding handleEnd_def f1 handleMoveEnd_eq m
    by (simp add: Let_def f1 setTimeout_def setState_def moveReset_def s1_def
          releasedExample_def offCentreExample_fields exampleProps_fields)
  show ?thesis
    by (simp add: dispatch_simps handleMouseUp_def shouldHandleEvent_def
          multiPointerEnd_def Let_def offCentreExample_fields r p e f1
          releasedExample_def)
qed


text \<open>
  The operations that keep the invariant: it holds initially; \<open>changeZoom\<close>, the end
  of a pan, a pinch step and the reset of a navigation keep it; a pan move keeps it
  while the zoom level is not the minimum.
\<close>

lemma centredAtMinZoom_changeZoom:
  assumes "centredAtMinZoom c s"
  shows "centredAtMinZoom c (changeZoom c L cx cy s)"
proof -
  define n where "n = max (MIN_ZOOM_LEVEL c) (min (MAX_ZOOM_LEVEL c) L)"
  consider "\<not> enableZoom (props s)" | "n = zoomLevel (state s)"
    | "enableZoom (props s)" "n \<noteq> zoomLevel (state s)" "n = MIN_ZOOM_LEVEL c"
    | "n \<noteq> MIN_ZOOM_LEVEL c" "getBestImageForType s ''mainSrc'' = None"
    | img where "enableZoom (props s)" "n \<noteq> zoomLevel (state s)" "n \<noteq> MIN_ZOOM_LEVEL c"
        "getBestImageForType s ''mainSrc'' = Some img"
    by blast
  then show ?thesis
  proof cases
    case 1
    then show ?thesis using assms by (simp add: changeZoom_disabled)
  next
    case 2
    then show ?thesis using assms unfolding n_def by (simp add: changeZoom_same)
  next
    case 3
    then show ?thesis
      unfolding n_def by (simp add: changeZoom_reset centredAtMinZoom_def setState_frame)
  next
    case 4
    then show ?thesis using assms unfolding n_def by (simp add: changeZoom_no_image)
  next
    case 5
    show ?thesis
      unfolding changeZoom_anchor [OF 5(1) n_def 5(2) 5(3) 5(4)]
      using 5(3) by (simp add: centredAtMinZoom_def setState_frame)
  qed
qed

lemma centredAtMinZoom_kept:
  "centredAtMinZoom c (constructor c p r)"
  "centredAtMinZoom c s \<Longrightarrow> centredAtMinZoom c (handleMoveEnd c s)"
  "centredAtMinZoom c (requestMove c d s)"
  "centredAtMinZoom c s \<Longrightarrow> handlePinch c l s = Some s' \<Longrightarrow> centredAtMinZoom c s'"
  "zoomLevel (state s) \<noteq> MIN_ZOOM_LEVEL c \<Longrightarrow> centredAtMinZoom c (handleMove pt s)"
proof -
  show "centredAtMinZoom c (constructor c p r)"
    by (simp add: centredAtMinZoom_def constructor_def)
  show "centredAtMinZoom c (requestMove c d s)"
    by (simp add: centredAtMinZoom_def requestMove_frame)
  show "centredAtMinZoom c (handleMove pt s)" if "zoomLevel (state s) \<noteq> MIN_ZOOM_LEVEL c"
    using that by (simp add: centredAtMinZoom_def handleMove_def setState_def Let_def)
  show "centredAtMinZoom c (handleMoveEnd c s)" if "centredAtMinZoom c s"
  proof -
    note sym = getMaxOffsets_symmetric [of c s]
    have "max (minX (getMaxOffsets c s)) (min (maxX (getMaxOffsets c s)) 0) = 0"
      "max (minY (getMaxOffsets c s)) (min (maxY (getMaxOffsets c s)) 0) = 0"
      using sym by simp_all
    then show ?thesis
      using that
      by (auto simp: centredAtMinZoom_def handleMoveEnd_offsets handleMoveEnd_frame)
  qed
  show "centredAtMinZoom c s'" if "centredAtMinZoom c s" and "handlePinch c l s = Some s'"
  proof -
    from that(2) obtain d cen where
      "s' = changeZoom c (zoomLevel (state s) + d - pinchDistance s)
              (Some (fst cen)) (Some (snd cen))
              (s\<lparr>pinchTouchList := rematch l (pinchTouchList s), pinchDistance := d\<rparr>)"
      unfolding handlePinch_eq by (auto split: option.splits)
    moreover have "centredAtMinZoom c
                     (s\<lparr>pinchTouchList := rematch l (pinchTouchList s), pinchDistance := d\<rparr>)"
      using that(1) by (simp add: centredAtMinZoom_def)
    ultimately show ?thesis by (simp add: centredAtMinZoom_changeZoom)
  qed
qed

text \<open>
  Claim C2 fails on the code. In the example the image is zoomed in to level 2 and the
  mouse is pressed on it, which starts a pan; a wheel event then zooms out to the
  minimum level, and \<open>changeZoom\<close> resets the offset to zero, but the pan stays in
  progress; the next mouse move sets the offset to 300 at the minimum zoom level. When
  the button is released, \<open>handleMoveEnd\<close> clamps the offset to 100: the image stays off
  centre at the minimum zoom level with no action in progress.
\<close>

theorem pan_after_zoom_reset:
  "run exampleConstants
     [ImageLoaded ''mainSrc'' ''b.jpg'' 1000 500, ImageWheel 0 (- 2) 400 300,
      MouseDown True 600 300, ImageWheel 0 2 400 300, MouseMove 300 300] mountedExample
   = Some offCentreExample
   \<and> dispatch exampleConstants (MouseMove 300 300) resetExample = Some offCentreExample
   \<and> centredAtMinZoom exampleConstants resetExample
   \<and> zoomLevel (state offCentreExample) = MIN_ZOOM_LEVEL exampleConstants
   \<and> offsetX (state offCentreExample) = 300
   \<and> \<not> centredAtMinZoom exampleConstants offCentreExample
   \<and> run exampleConstants
       [ImageLoaded ''mainSrc'' ''b.jpg'' 1000 500, ImageWheel 0 (- 2) 400 300,
        MouseDown True 600 300, ImageWheel 0 2 400 300, MouseMove 300 300,
        MouseUp 300 300] mountedExample
     = Some releasedExample
   \<and> currentAction releasedExample = NONE
   \<and> zoomLevel (state releasedExample) = MIN_ZOOM_LEVEL exampleConstants
   \<and> offsetX (state releasedExample) = 100
   \<and> \<not> centredAtMinZoom exampleConstants releasedExample"
proof -
  have r1: "run exampleConstants
     [ImageLoaded ''mainSrc'' ''b.jpg'' 1000 500, ImageWheel 0 (- 2) 400 300,
      MouseDown True 600 300, ImageWheel 0 2 400 300, MouseMove 300 300] mountedExample
   = Some offCentreExample"
    by (simp add: run_loaded run_zoomed run_pressed run_reset run_offCentre)
  have r2: "run exampleConstants
       [ImageLoaded ''mainSrc'' ''b.jpg'' 1000 500, ImageWheel 0 (- 2) 400 300,
        MouseDown True 600 300, ImageWheel 0 2 400 300, MouseMove 300 300,
        MouseUp 300 300] mountedExample
     = Some releasedExample"
    by (simp add: run_loaded run_zoomed run_pressed run_reset run_offCentre run_released)
  have f: "centredAtMinZoom exampleConstants resetExample"
    "zoomLevel (state offCentreExample) = MIN_ZOOM_LEVEL exampleConstants"
    "offsetX (state offCentreExample) = 300"
    "\<not> centredAtMinZoom exampleConstants offCentreExample"
    "currentAction releasedExample = NONE"
    "zoomLevel (state releasedExample) = MIN_ZOOM_LEVEL exampleConstants"
    "offsetX (state releasedExample) = 100"
    "\<not> centredAtMinZoom exampleConstants releasedExample"
    by (simp_all add: centredAtMinZoom_def releasedExample_def offCentreExample_def
          resetExample_def example_defs)
  from r1 r2 run_offCentre f show ?thesis by (simp only: simp_thms)
qed

text \<open>The run of the theorem ends at the minimum zoom level with the offset 300.\<close>

theorem pan_after_zoom_reset_witness:
  "map_option (\<lambda>s. (zoomLevel (state s), offsetX (state s)))
     (run exampleConstants
        [ImageLoaded ''mainSrc'' ''b.jpg'' 1000 500, ImageWheel 0 (- 2) 400 300,
         MouseDown True 600 300, ImageWheel 0 2 400 300, MouseMove 300 300] mountedExample)
   = Some (0, 300)"
  using pan_after_zoom_reset by (simp add: example_defs)













section \<open>Ending a swipe\<close>




end
